(* ===== verification/Prelude.thy ===== *)
theory Prelude
  imports Main
begin

text \<open>
  Shared vocabulary of the scheduler development: the types that name the values the
  backend stores (identities, e-mail addresses, calendar days, times of day, timestamps),
  the HTTP error responses every route handler can send, the row-level query primitives
  the handlers issue through the Supabase client (\<open>.eq\<close> filters, \<open>.single()\<close>,
  \<open>.update().eq()\<close>), and the generic list lemmas the component theories share.
\<close>

section \<open>Names for the model's types\<close>

text \<open>UUID keys are drawn from a counter kept in the store (\<open>uuid_generate_v4()\<close>).\<close>
type_synonym uid = nat
type_synonym slot_key = nat
type_synonym email_addr = string

text \<open>
  A SQL \<open>DATE\<close> is a day number, a SQL \<open>TIME\<close> the seconds since midnight,
  a JavaScript \<open>Date\<close> the milliseconds since the epoch.
\<close>
type_synonym day = int
type_synonym time_of_day = nat
type_synonym timestamp = int

section \<open>HTTP error responses\<close>

text \<open>
  Every early \<open>return res.status(n).json({ error: msg })\<close> of a handler and every
  \<open>catch\<close> that answers 500 is one constructor, carrying the message the code sends.
\<close>

datatype http_error =
    Err400 string
  | Err401 string
  | Err403 string
  | Err404 string
  | Err409 string
  | Err500 string

type_synonym 'a response = "http_error + 'a"

fun status_code :: "http_error \<Rightarrow> nat" where
  "status_code (Err400 _) = 400"
| "status_code (Err401 _) = 401"
| "status_code (Err403 _) = 403"
| "status_code (Err404 _) = 404"
| "status_code (Err409 _) = 409"
| "status_code (Err500 _) = 500"

section \<open>Query primitives\<close>

text \<open>
  \<open>.single()\<close> answers the one row a filter selects and fails (PGRST116) when it
  selects none or several.
\<close>

definition single :: "'a list \<Rightarrow> 'a option" where
  "single xs = (case xs of [x] \<Rightarrow> Some x | _ \<Rightarrow> None)"

text \<open>\<open>.update(f).eq(...)\<close>: every row the filter selects is rewritten, the rest kept.\<close>

definition update_where :: "('a \<Rightarrow> bool) \<Rightarrow> ('a \<Rightarrow> 'a) \<Rightarrow> 'a list \<Rightarrow> 'a list" where
  "update_where P f xs = map (\<lambda>x. if P x then f x else x) xs"

named_theorems query_simps "rewrite rules for the query primitives"

lemma single_Nil [simp, query_simps]: "single [] = None"
  by (simp add: single_def)

lemma single_singleton [simp, query_simps]: "single [x] = Some x"
  by (simp add: single_def)

lemma single_Some_iff: "single xs = Some x \<longleftrightarrow> xs = [x]"
  by (auto simp: single_def split: list.splits)

lemma single_None_iff: "single xs = None \<longleftrightarrow> length xs \<noteq> 1"
  by (auto simp: single_def split: list.splits)

lemma single_filter_distinct:
  assumes "distinct (map k xs)" and "x \<in> set xs" and "k x = v"
  shows "filter (\<lambda>y. k y = v) xs = [x]"
  using assms
proof (induction xs)
  case Nil
  then show ?case by simp
next
  case (Cons y ys)
  show ?case
  proof (cases "y = x")
    case True
    with Cons.prems have "\<forall>z\<in>set ys. k z \<noteq> v" by (auto simp: image_iff)
    with True Cons.prems show ?thesis by (simp add: filter_empty_conv)
  next
    case False
    with Cons.prems have "x \<in> set ys" and "k y \<noteq> v" by auto
    with Cons show ?thesis by simp
  qed
qed

lemma single_filter_none:
  assumes "\<forall>y\<in>set xs. \<not> P y"
  shows "single (filter P xs) = None"
  using assms by (simp add: filter_empty_conv)

lemma update_where_length [simp, query_simps]: "length (update_where P f xs) = length xs"
  by (simp add: update_where_def)

lemma update_where_Nil [simp, query_simps]: "update_where P f [] = []"
  by (simp add: update_where_def)

lemma update_where_Cons [simp, query_simps]:
  "update_where P f (x # xs) = (if P x then f x else x) # update_where P f xs"
  by (simp add: update_where_def)

lemma update_where_append [query_simps]:
  "update_where P f (xs @ ys) = update_where P f xs @ update_where P f ys"
  by (simp add: update_where_def)

lemma set_update_where:
  "set (update_where P f xs) = {f x | x. x \<in> set xs \<and> P x} \<union> {x \<in> set xs. \<not> P x}"
  by (auto simp: update_where_def)

lemma update_where_id:
  "\<forall>x\<in>set xs. \<not> P x \<Longrightarrow> update_where P f xs = xs"
  by (induction xs) auto

lemma map_update_where:
  "(\<And>x. P x \<Longrightarrow> g (f x) = g x) \<Longrightarrow> map g (update_where P f xs) = map g xs"
  by (induction xs) auto

lemma update_where_unchanged:
  assumes "\<And>x. P x \<Longrightarrow> P (f x)" and "u \<in> set (update_where P f xs)" and "\<not> P u"
  shows "u \<in> set xs"
  using assms(2,3)
proof (induction xs)
  case Nil
  then show ?case by simp
next
  case (Cons x xs)
  then show ?case using assms(1) by (auto split: if_splits)
qed

lemma distinct_key_eq:
  "distinct (map k xs) \<Longrightarrow> x \<in> set xs \<Longrightarrow> y \<in> set xs \<Longrightarrow> k x = k y \<Longrightarrow> x = y"
  by (auto simp: distinct_map inj_on_def)

lemma length_filter_list_update:
  "i < length xs \<Longrightarrow>
   length (filter P (xs[i := v])) + (if P (xs ! i) then 1 else 0) =
   length (filter P xs) + (if P v then 1 else 0)"
proof (induction xs arbitrary: i)
  case Nil then show ?case by simp
next
  case (Cons x xs) then show ?case by (cases i) auto
qed

lemma map_key_transfer:
  assumes "map f xs = map f ys" and "map g xs = map g ys" and "distinct (map f ys)"
    and "x \<in> set xs" and "y \<in> set ys" and "f x = f y"
  shows "g x = g y"
proof -
  obtain i where i: "i < length xs" "xs ! i = x" using assms(4) by (meson in_set_conv_nth)
  have li: "length xs = length ys" using assms(1) by (metis length_map)
  have "f (ys ! i) = f y" using assms(1,6) i li by (metis nth_map)
  then have "ys ! i = y" using assms(3,5) i li by (metis distinct_key_eq nth_mem)
  then show ?thesis using assms(2) i li by (metis nth_map)
qed

end
