(* ===== verification/Schema.thy ===== *)
theory Schema
  imports Prelude
begin

text \<open>
  The persistent state of the scheduler: the three tables of
  \<open>src/database/schema.sql\<close> and \<open>src/database/migrations/add_user_roles_table.sql\<close>
  (\<open>users\<close>, \<open>user_roles\<close>, \<open>slots\<close>), the enumerations their \<open>CHECK\<close>
  constraints allow, the strings the JavaScript code uses for them, and the row-level
  lookups by key. Timestamps (\<open>created_at\<close>, \<open>updated_at\<close>, \<open>last_login\<close>) are
  not kept: no handler reads them except to order admin listings.
\<close>

section \<open>Enumerations\<close>

text \<open>\<open>CHECK (role IN ('scholar', 'faculty', 'admin'))\<close>.\<close>

datatype role = Scholar | Faculty | Admin

fun role_name :: "role \<Rightarrow> string" where
  "role_name Scholar = ''scholar''"
| "role_name Faculty = ''faculty''"
| "role_name Admin = ''admin''"

text \<open>
  The request-body check \<open>['scholar', 'faculty', 'admin'].includes(role)\<close>:
  a role string is accepted exactly when it is one of the three names.
\<close>

definition parse_role :: "string \<Rightarrow> role option" where
  "parse_role s =
     (if s = ''scholar'' then Some Scholar
      else if s = ''faculty'' then Some Faculty
      else if s = ''admin'' then Some Admin
      else None)"

text \<open>\<open>CHECK (status IN ('available', 'booked', 'cancelled', 'completed'))\<close>.\<close>

datatype slot_status = Available | Booked | Cancelled | Completed

fun status_name :: "slot_status \<Rightarrow> string" where
  "status_name Available = ''available''"
| "status_name Booked = ''booked''"
| "status_name Cancelled = ''cancelled''"
| "status_name Completed = ''completed''"

section \<open>Rows\<close>

text \<open>A row of \<open>users\<close> (schema.sql lines 8--17).\<close>

record user_row =
  user_id :: uid
  email :: email_addr
  name :: string
  picture :: "string option"
  google_id :: string
  role :: role

text \<open>A row of \<open>user_roles\<close>, keyed by e-mail (migration lines 5--11).\<close>

record role_row =
  ur_email :: email_addr
  ur_role :: role

text \<open>A row of \<open>slots\<close> (schema.sql lines 20--31 and the \<open>meeting_link\<close> column).\<close>

record slot =
  slot_id :: slot_key
  faculty_id :: uid
  scholar_id :: "uid option"
  date :: day
  start_time :: time_of_day
  end_time :: time_of_day
  status :: slot_status
  slot_notes :: "string option"
  meeting_link :: "string option"

text \<open>
  The database: each table is the list of its rows in insertion order; \<open>next_id\<close>
  is the source of fresh UUIDs.
\<close>

record db =
  users :: "user_row list"
  user_roles :: "role_row list"
  slots :: "slot list"
  next_id :: nat

definition empty_db :: db where
  "empty_db = \<lparr>users = [], user_roles = [], slots = [], next_id = 0\<rparr>"

section \<open>Lookups by key\<close>

text \<open>\<open>.from('users').select(...).eq('id', i).single()\<close>.\<close>

definition user_by_id :: "db \<Rightarrow> uid \<Rightarrow> user_row option" where
  "user_by_id st i = single (filter (\<lambda>u. user_id u = i) (users st))"

text \<open>\<open>.from('users').select(...).eq('email', e).single()\<close>.\<close>

definition user_by_email :: "db \<Rightarrow> email_addr \<Rightarrow> user_row option" where
  "user_by_email st e = single (filter (\<lambda>u. email u = e) (users st))"

text \<open>\<open>.from('user_roles').select('role').eq('email', e).single()\<close>.\<close>

definition role_by_email :: "db \<Rightarrow> email_addr \<Rightarrow> role option" where
  "role_by_email st e = map_option ur_role (single (filter (\<lambda>r. ur_email r = e) (user_roles st)))"

text \<open>The keys the schema declares unique: \<open>users.id\<close>, \<open>users.email\<close>,
  \<open>user_roles.email\<close>, \<open>slots.id\<close>; fresh keys lie above every key in use.\<close>

definition keys_ok :: "db \<Rightarrow> bool" where
  "keys_ok st \<longleftrightarrow>
     distinct (map user_id (users st)) \<and> distinct (map email (users st)) \<and>
     distinct (map ur_email (user_roles st)) \<and> distinct (map slot_id (slots st)) \<and>
     (\<forall>u\<in>set (users st). user_id u < next_id st) \<and>
     (\<forall>s\<in>set (slots st). slot_id s < next_id st)"

named_theorems schema_simps "unfolding rules of the key lookups"

declare user_by_id_def [schema_simps] user_by_email_def [schema_simps]
  role_by_email_def [schema_simps]

section \<open>Lemmas\<close>

lemma parse_role_name [simp]: "parse_role (role_name r) = Some r"
  by (cases r) (simp_all add: parse_role_def)

lemma parse_role_Some: "parse_role s = Some r \<longleftrightarrow> s = role_name r"
  by (cases r) (auto simp: parse_role_def split: if_splits)

lemma role_name_nonempty [simp]: "role_name r \<noteq> []"
  by (cases r) simp_all

lemma role_name_inj: "role_name r = role_name r' \<longleftrightarrow> r = r'"
  using parse_role_name by (metis option.inject)

lemma user_by_id_Some:
  assumes "distinct (map user_id (users st))" and "u \<in> set (users st)"
  shows "user_by_id st (user_id u) = Some u"
  using single_filter_distinct [OF assms refl] by (simp add: user_by_id_def)

lemma user_by_email_Some:
  assumes "distinct (map email (users st))" and "u \<in> set (users st)"
  shows "user_by_email st (email u) = Some u"
  using single_filter_distinct [OF assms refl] by (simp add: user_by_email_def)

lemma user_by_email_SomeD: "user_by_email st e = Some u \<Longrightarrow> u \<in> set (users st) \<and> email u = e"
proof -
  assume "user_by_email st e = Some u"
  then have "filter (\<lambda>u. email u = e) (users st) = [u]"
    by (simp add: user_by_email_def single_Some_iff)
  then have "u \<in> set (filter (\<lambda>u. email u = e) (users st))" by simp
  then show ?thesis by simp
qed

lemma user_by_id_SomeD: "user_by_id st i = Some u \<Longrightarrow> u \<in> set (users st) \<and> user_id u = i"
proof -
  assume "user_by_id st i = Some u"
  then have "filter (\<lambda>u. user_id u = i) (users st) = [u]"
    by (simp add: user_by_id_def single_Some_iff)
  then have "u \<in> set (filter (\<lambda>u. user_id u = i) (users st))" by simp
  then show ?thesis by simp
qed

lemma user_by_email_None:
  "\<forall>u\<in>set (users st). email u \<noteq> e \<Longrightarrow> user_by_email st e = None"
  by (simp add: user_by_email_def single_filter_none)

lemma role_by_email_Some:
  assumes "distinct (map ur_email (user_roles st))" and "r \<in> set (user_roles st)"
  shows "role_by_email st (ur_email r) = Some (ur_role r)"
  using single_filter_distinct [OF assms refl] by (simp add: role_by_email_def)

lemma role_by_email_None:
  "\<forall>r\<in>set (user_roles st). ur_email r \<noteq> e \<Longrightarrow> role_by_email st e = None"
  by (simp add: role_by_email_def single_filter_none)

lemma keys_ok_cong:
  assumes k: "keys_ok st"
    and ids: "map user_id (users st') = map user_id (users st)"
    and em: "map email (users st') = map email (users st)"
    and ur: "distinct (map ur_email (user_roles st'))"
    and sl: "slots st' = slots st" and nx: "next_id st' = next_id st"
  shows "keys_ok st'"
proof -
  have "\<forall>u\<in>set (users st'). user_id u < next_id st'"
  proof
    fix u assume "u \<in> set (users st')"
    then have "user_id u \<in> set (map user_id (users st))" by (simp only: ids [symmetric]) simp
    then show "user_id u < next_id st'" using k nx by (auto simp: keys_ok_def)
  qed
  then show ?thesis using k ids em ur sl nx by (simp add: keys_ok_def)
qed

text \<open>
  The role names round-trip: the name the database stores for a role is parsed
  back to that role, and a request string is accepted exactly when it is the name of the
  role it is parsed to; every other string is refused.
\<close>

lemma role_text_roundtrip:
  "parse_role (role_name r) = Some r \<and>
   (case parse_role s of
      Some r' \<Rightarrow> role_name r' = s
    | None \<Rightarrow> s \<notin> set [''scholar'', ''faculty'', ''admin''])"
  by (cases r) (auto simp: parse_role_def split: option.split)

end
