(* ===== verification/Slots.thy ===== *)
theory Slots
  imports Schema "HOL-Library.Product_Lexorder" "HOL-Library.Multiset"
begin

text \<open>
  The slot routes of the backend (\<open>src/backend/src/routes/users.js\<close>, the
  \<open>slots\<close> router, lines 337--404 and 407--439 and 573--649): creating a slot with
  the overlap check, deleting one, and the three listings. The caller's identity
  (\<open>req.user.id\<close>) is an argument; the role gate in front of each route is in
  \<open>Gate\<close>. The server's local time zone, used by \<open>toTimeString\<close>, is the offset
  \<open>tz\<close> in milliseconds.
\<close>

section \<open>Time conversion\<close>

text \<open>
  \<open>new Date(t).toTimeString().split(' ')[0]\<close>: the local wall-clock time of \<open>t\<close>
  as \<open>HH:MM:SS\<close>, milliseconds dropped, stored in a \<open>TIME\<close> column.
\<close>

definition time_only :: "int \<Rightarrow> timestamp \<Rightarrow> time_of_day" where
  "time_only tz t = nat (((t + tz) div 1000) mod 86400)"

text \<open>\<open>new Date(date).toISOString().split('T')[0]\<close>: the UTC calendar day.\<close>

definition date_only :: "timestamp \<Rightarrow> day" where
  "date_only d = d div 86400000"

section \<open>The overlap filter\<close>

text \<open>
  The PostgREST filter of line 371:
  \<open>start_time <= s AND end_time > s\<close>, or \<open>start_time < e AND end_time >= e\<close>,
  or \<open>start_time >= s AND end_time <= e\<close>.
\<close>

definition overlaps :: "time_of_day \<Rightarrow> time_of_day \<Rightarrow> slot \<Rightarrow> bool" where
  "overlaps s e x \<longleftrightarrow>
     (start_time x \<le> s \<and> s < end_time x) \<or>
     (start_time x < e \<and> e \<le> end_time x) \<or>
     (s \<le> start_time x \<and> end_time x \<le> e)"

text \<open>Lines 366--371: the faculty's slots on that day that the filter selects.\<close>

definition overlapping_slots :: "db \<Rightarrow> uid \<Rightarrow> day \<Rightarrow> time_of_day \<Rightarrow> time_of_day \<Rightarrow> slot list" where
  "overlapping_slots st f d s e =
     filter (\<lambda>x. faculty_id x = f \<and> date x = d \<and> overlaps s e x) (slots st)"

section \<open>Creating a slot\<close>

text \<open>The row inserted at lines 379--391.\<close>

definition new_slot :: "slot_key \<Rightarrow> uid \<Rightarrow> day \<Rightarrow> time_of_day \<Rightarrow> time_of_day \<Rightarrow> slot" where
  "new_slot k f d s e =
     \<lparr>slot_id = k, faculty_id = f, scholar_id = None, date = d, start_time = s,
      end_time = e, status = Available, slot_notes = None, meeting_link = None\<rparr>"

text \<open>
  The handler body of \<open>POST /slots\<close> (lines 345--403). An argument is \<open>None\<close> when
  \<open>isISO8601()\<close> rejects it. The range is checked on the full timestamps (line 361),
  the overlap on the stored times of day (line 371).
\<close>

definition create_slot ::
  "int \<Rightarrow> db \<Rightarrow> uid \<Rightarrow> timestamp option \<Rightarrow> timestamp option \<Rightarrow> timestamp option \<Rightarrow>
   (db \<times> slot) response" where
  "create_slot tz st f start_in end_in date_in =
     (case (start_in, end_in, date_in) of
        (Some s, Some e, Some d) \<Rightarrow>
          (let s_only = time_only tz s; e_only = time_only tz e; d_only = date_only d in
           if e \<le> s then Inl (Err400 ''End time must be after start time'')
           else if overlapping_slots st f d_only s_only e_only \<noteq> []
           then Inl (Err409 ''Time slot overlaps with existing slot'')
           else
             (let x = new_slot (next_id st) f d_only s_only e_only
              in Inr (st\<lparr>slots := slots st @ [x], next_id := Suc (next_id st)\<rparr>, x)))
      | _ \<Rightarrow> Inl (Err400 ''Invalid value''))"

section \<open>Deleting a slot\<close>

text \<open>
  \<open>DELETE /slots/:slotId\<close> (lines 617--649): the slot is looked up by id and owner
  together, a booked slot is refused, any other is deleted by id.
\<close>

definition delete_slot :: "db \<Rightarrow> uid \<Rightarrow> slot_key \<Rightarrow> db response" where
  "delete_slot st me k =
     (case single (filter (\<lambda>x. slot_id x = k \<and> faculty_id x = me) (slots st)) of
        None \<Rightarrow> Inl (Err404 ''Slot not found'')
      | Some x \<Rightarrow>
          if status x = Booked then Inl (Err403 ''Cannot delete booked slot'')
          else Inr (st\<lparr>slots := filter (\<lambda>y. slot_id y \<noteq> k) (slots st)\<rparr>))"

section \<open>Listings\<close>

text \<open>\<open>.order('date').order('start_time')\<close>.\<close>

definition by_date_time :: "slot list \<Rightarrow> slot list" where
  "by_date_time xs = sort_key (\<lambda>x. (date x, start_time x)) xs"

text \<open>
  \<open>GET /slots/available\<close> (lines 407--439): available slots from today on, narrowed
  to a faculty and a day when the query names them.
\<close>

definition available_slots :: "db \<Rightarrow> day \<Rightarrow> uid option \<Rightarrow> day option \<Rightarrow> slot list" where
  "available_slots st today ff fd =
     by_date_time (filter (\<lambda>x. status x = Available \<and> today \<le> date x \<and>
        (case ff of None \<Rightarrow> True | Some f \<Rightarrow> faculty_id x = f) \<and>
        (case fd of None \<Rightarrow> True | Some d \<Rightarrow> date x = d)) (slots st))"

text \<open>\<open>GET /slots/my-bookings\<close> (lines 573--592) and \<open>GET /slots/my-slots\<close> (595--614).\<close>

definition my_bookings :: "db \<Rightarrow> uid \<Rightarrow> slot list" where
  "my_bookings st me = by_date_time (filter (\<lambda>x. scholar_id x = Some me) (slots st))"

definition my_slots :: "db \<Rightarrow> uid \<Rightarrow> slot list" where
  "my_slots st me = by_date_time (filter (\<lambda>x. faculty_id x = me) (slots st))"

section \<open>Invariant of the slot table\<close>

text \<open>A slot's interval is non-empty; two slots of one faculty on one day are disjoint.\<close>

definition slot_wf :: "slot \<Rightarrow> bool" where
  "slot_wf x \<longleftrightarrow> start_time x < end_time x"

definition disjoint :: "slot \<Rightarrow> slot \<Rightarrow> bool" where
  "disjoint x y \<longleftrightarrow>
     faculty_id x \<noteq> faculty_id y \<or> date x \<noteq> date y \<or>
     end_time x \<le> start_time y \<or> end_time y \<le> start_time x"

definition slots_ok :: "slot list \<Rightarrow> bool" where
  "slots_ok xs \<longleftrightarrow>
     distinct (map slot_id xs) \<and> (\<forall>x\<in>set xs. slot_wf x) \<and>
     (\<forall>x\<in>set xs. \<forall>y\<in>set xs. slot_id x \<noteq> slot_id y \<longrightarrow> disjoint x y)"

section \<open>Lemmas\<close>

lemma create_slot_Inr:
  "create_slot tz st f si ei di = Inr (st', x) \<longleftrightarrow>
   (\<exists>s e d. si = Some s \<and> ei = Some e \<and> di = Some d \<and> s < e \<and>
      overlapping_slots st f (date_only d) (time_only tz s) (time_only tz e) = [] \<and>
      x = new_slot (next_id st) f (date_only d) (time_only tz s) (time_only tz e) \<and>
      st' = st\<lparr>slots := slots st @ [x], next_id := Suc (next_id st)\<rparr>)"
  by (auto simp: create_slot_def Let_def split: option.splits if_splits)

lemma create_slot_other_tables:
  "create_slot tz st f si ei di = Inr (st', x) \<Longrightarrow>
   users st' = users st \<and> user_roles st' = user_roles st"
  by (auto simp: create_slot_Inr)

lemma owned_slot_lookup:
  assumes "distinct (map slot_id (slots st))" and "x \<in> set (slots st)"
    and "slot_id x = k" and "faculty_id x = me"
  shows "single (filter (\<lambda>y. slot_id y = k \<and> faculty_id y = me) (slots st)) = Some x"
proof -
  have "filter (\<lambda>y. slot_id y = k) (slots st) = [x]"
    using single_filter_distinct [OF assms(1,2,3)] .
  then have "filter (\<lambda>y. faculty_id y = me) (filter (\<lambda>y. slot_id y = k) (slots st)) = [x]"
    using assms(4) by simp
  then show ?thesis by (simp add: conj_commute)
qed

lemma delete_slot_Inr:
  "delete_slot st me k = Inr st' \<Longrightarrow>
   st' = st\<lparr>slots := filter (\<lambda>y. slot_id y \<noteq> k) (slots st)\<rparr>"
  by (auto simp: delete_slot_def split: option.splits if_splits)

lemmas slot_example_simps = create_slot_def overlapping_slots_def overlaps_def
  time_only_def date_only_def new_slot_def empty_db_def slots_ok_def slot_wf_def
  disjoint_def delete_slot_def Let_def

lemma create_slot_keys:
  assumes k: "keys_ok st" and cr: "create_slot tz st f si ei di = Inr (st', x)"
  shows "keys_ok st' \<and> users st' = users st \<and> user_roles st' = user_roles st \<and>
    slots st' = slots st @ [x] \<and> status x = Available"
proof -
  from cr obtain s e d where x: "x = new_slot (next_id st) f (date_only d) (time_only tz s) (time_only tz e)"
    and st': "st' = st\<lparr>slots := slots st @ [x], next_id := Suc (next_id st)\<rparr>"
    by (auto simp: create_slot_Inr)
  have "next_id st \<notin> set (map slot_id (slots st))" using k by (auto simp: keys_ok_def)
  then show ?thesis using k by (auto simp: keys_ok_def st' x new_slot_def)
qed

lemma delete_slot_keys:
  assumes k: "keys_ok st" and d: "delete_slot st me k' = Inr st'"
  shows "keys_ok st' \<and> users st' = users st \<and> user_roles st' = user_roles st \<and>
    set (slots st') \<subseteq> set (slots st)"
  using k delete_slot_Inr [OF d] by (auto simp: keys_ok_def distinct_map_filter)

text \<open>
  Claim C1. Creating a slot keeps the slot table consistent: if every stored slot has a
  non-empty interval, no two slots of one faculty on one day overlap, and slot ids are
  distinct and below the id counter, then after an accepted creation whose stored
  interval is non-empty the same holds.
\<close>

theorem create_slot_slots_ok:
  assumes ok: "slots_ok (slots st)" and fresh: "\<forall>y\<in>set (slots st). slot_id y < next_id st"
    and cr: "create_slot tz st f si ei di = Inr (st', x)" and wf: "slot_wf x"
  shows "slots_ok (slots st') \<and> (\<forall>y\<in>set (slots st'). slot_id y < next_id st')"
proof -
  from cr obtain s e d where
    none: "overlapping_slots st f (date_only d) (time_only tz s) (time_only tz e) = []" and
    x: "x = new_slot (next_id st) f (date_only d) (time_only tz s) (time_only tz e)" and
    st': "st' = st\<lparr>slots := slots st @ [x], next_id := Suc (next_id st)\<rparr>"
    by (auto simp: create_slot_Inr)
  have disj: "disjoint x y \<and> disjoint y x" if "y \<in> set (slots st)" for y
  proof -
    from that ok have "slot_wf y" by (simp add: slots_ok_def)
    moreover from that none have "\<not> (faculty_id y = f \<and> date y = date_only d \<and>
        overlaps (time_only tz s) (time_only tz e) y)"
      by (auto simp: overlapping_slots_def filter_empty_conv)
    ultimately show ?thesis using wf x
      by (auto simp: disjoint_def overlaps_def slot_wf_def new_slot_def)
  qed
  from fresh x have "slot_id x \<notin> slot_id ` set (slots st)"
    by (auto simp: new_slot_def)
  with ok wf disj st' fresh x show ?thesis
    by (auto simp: slots_ok_def new_slot_def)
qed

theorem create_slot_slots_ok_witness:
  "slots_ok [new_slot 0 7 0 32400 36000] \<and>
   create_slot 0 (empty_db\<lparr>slots := [new_slot 0 7 0 32400 36000], next_id := 1\<rparr>) 7
     (Some 36000000) (Some 39600000) (Some 0) =
     Inr (empty_db\<lparr>slots := [new_slot 0 7 0 32400 36000, new_slot 1 7 0 36000 39600], next_id := 2\<rparr>,
          new_slot 1 7 0 36000 39600) \<and>
   slots_ok [new_slot 0 7 0 32400 36000, new_slot 1 7 0 36000 39600]"
proof -
  let ?st = "empty_db\<lparr>slots := [new_slot 0 7 0 32400 36000], next_id := 1\<rparr>"
  let ?st' = "empty_db\<lparr>slots := [new_slot 0 7 0 32400 36000, new_slot 1 7 0 36000 39600], next_id := 2\<rparr>"
  have ok: "slots_ok (slots ?st)" by (simp add: slot_example_simps)
  have fresh: "\<forall>y\<in>set (slots ?st). slot_id y < next_id ?st" by (simp add: slot_example_simps)
  have cr: "create_slot 0 ?st 7 (Some 36000000) (Some 39600000) (Some 0) =
      Inr (?st', new_slot 1 7 0 36000 39600)"
    by (simp add: slot_example_simps)
  have wf: "slot_wf (new_slot 1 7 0 36000 39600)" by (simp add: slot_example_simps)
  from create_slot_slots_ok [OF ok fresh cr wf] ok cr show ?thesis by simp
qed

text \<open>
  Claim C8. For a stored slot with a non-empty interval and a request with a non-empty
  interval, the three-way PostgREST overlap filter selects the slot exactly when the two
  half-open intervals \<open>[start, end)\<close> intersect.
\<close>

theorem overlaps_iff_intersect:
  "slot_wf x \<Longrightarrow> s < e \<Longrightarrow> overlaps s e x \<longleftrightarrow> start_time x < e \<and> s < end_time x"
  by (auto simp: overlaps_def slot_wf_def)

theorem overlaps_iff_intersect_witness:
  "slot_wf (new_slot 0 7 0 32400 36000) \<and> (32400::nat) < 34200 \<and>
   overlaps 32400 34200 (new_slot 0 7 0 32400 36000) \<and>
   \<not> overlaps 36000 39600 (new_slot 0 7 0 32400 36000)"
proof -
  have wf: "slot_wf (new_slot 0 7 0 32400 36000)" by (simp add: slot_example_simps)
  have a: "overlaps 32400 34200 (new_slot 0 7 0 32400 36000)"
    using overlaps_iff_intersect [OF wf, of 32400 34200] by (simp add: new_slot_def)
  have b: "\<not> overlaps 36000 39600 (new_slot 0 7 0 32400 36000)"
    using overlaps_iff_intersect [OF wf, of 36000 39600] by (simp add: new_slot_def)
  from wf a b show ?thesis by simp
qed

text \<open>
  Claim C9. A faculty cannot delete a booked slot: when the slot with the requested id is
  stored once, belongs to the caller and is booked, the handler answers 403
  \<open>Cannot delete booked slot\<close> and writes nothing.
\<close>

theorem delete_slot_booked:
  assumes "distinct (map slot_id (slots st))" and "x \<in> set (slots st)"
    and "faculty_id x = me" and "status x = Booked"
  shows "delete_slot st me (slot_id x) = Inl (Err403 ''Cannot delete booked slot'')"
  using owned_slot_lookup [OF assms(1,2) refl assms(3)] assms(4)
  by (simp add: delete_slot_def)

theorem delete_slot_booked_witness:
  "delete_slot (empty_db\<lparr>slots := [(new_slot 0 7 0 32400 36000)\<lparr>status := Booked, scholar_id := Some 9\<rparr>],
      next_id := 1\<rparr>) 7 0 = Inl (Err403 ''Cannot delete booked slot'')"
proof -
  let ?x = "(new_slot 0 7 0 32400 36000)\<lparr>status := Booked, scholar_id := Some 9\<rparr>"
  let ?st = "empty_db\<lparr>slots := [?x], next_id := 1\<rparr>"
  have "distinct (map slot_id (slots ?st))" and "?x \<in> set (slots ?st)"
    and "faculty_id ?x = 7" and "status ?x = Booked" by (simp_all add: new_slot_def)
  from delete_slot_booked [OF this] show ?thesis by (simp add: new_slot_def)
qed

text \<open>
  Claim C10. A faculty cannot delete a slot it does not own: when no stored slot with the
  requested id belongs to the caller, the handler answers 404 \<open>Slot not found\<close>, the same
  answer as for an id that does not exist.
\<close>

theorem delete_slot_not_found:
  "\<forall>x\<in>set (slots st). slot_id x = k \<longrightarrow> faculty_id x \<noteq> me \<Longrightarrow>
   delete_slot st me k = Inl (Err404 ''Slot not found'')"
  by (simp add: delete_slot_def single_filter_none)

theorem delete_slot_not_found_witness:
  "delete_slot (empty_db\<lparr>slots := [new_slot 0 7 0 32400 36000], next_id := 1\<rparr>) 8 0 =
   Inl (Err404 ''Slot not found'')"
proof -
  have "\<forall>x\<in>set (slots (empty_db\<lparr>slots := [new_slot 0 7 0 32400 36000], next_id := 1\<rparr>)).
      slot_id x = 0 \<longrightarrow> faculty_id x \<noteq> 8" by (simp add: new_slot_def)
  then show ?thesis by (rule delete_slot_not_found)
qed

text \<open>
  Claim C11. Deletion refuses only booked slots: every slot the caller owns that is not booked
  (available, but also completed or cancelled, with or without a scholar) is deleted, and only
  the rows of its id go, although the specification allows deletion only while a slot is
  available and the row-level policy of \<open>schema.sql\<close> (lines 108--113) requires
  \<open>status = 'available'\<close>; the backend's service-role client is not subject to it.
\<close>

theorem delete_slot_completed:
  assumes "distinct (map slot_id (slots st))" and "x \<in> set (slots st)"
    and "faculty_id x = me" and "status x \<noteq> Booked"
  shows "delete_slot st me (slot_id x) = Inr (st\<lparr>slots := filter (\<lambda>y. slot_id y \<noteq> slot_id x) (slots st)\<rparr>) \<and>
    x \<notin> set (filter (\<lambda>y. slot_id y \<noteq> slot_id x) (slots st))"
  using owned_slot_lookup [OF assms(1,2) refl assms(3)] assms(4)
  by (simp add: delete_slot_def)

theorem delete_slot_completed_witness:
  "delete_slot (empty_db\<lparr>slots := [(new_slot 0 7 0 32400 36000)\<lparr>status := Completed, scholar_id := Some 9\<rparr>],
      next_id := 1\<rparr>) 7 0 = Inr (empty_db\<lparr>slots := [], next_id := 1\<rparr>)"
proof -
  let ?x = "(new_slot 0 7 0 32400 36000)\<lparr>status := Completed, scholar_id := Some 9\<rparr>"
  let ?st = "empty_db\<lparr>slots := [?x], next_id := 1\<rparr>"
  have "distinct (map slot_id (slots ?st))" and "?x \<in> set (slots ?st)"
    and "faculty_id ?x = 7" and "status ?x \<noteq> Booked" by (simp_all add: new_slot_def)
  from delete_slot_completed [OF this] show ?thesis by (simp add: new_slot_def)
qed

text \<open>
  Claim C12. The stored interval of an accepted slot can be inverted: the range check compares
  the full timestamps but the row keeps only the local times of day, so every request whose
  end falls on a later local day at an earlier time of day than its start (such as 23:00 to
  01:00) is accepted when the overlap filter finds nothing, and stored with its end time before
  its start time; the overlap filter then never matches that row for a later request ending
  before the stored end or starting after the stored start, although such a request lies
  inside the slot's real interval.
\<close>

theorem create_slot_across_midnight:
  assumes "s < e" and "time_only tz e < time_only tz s"
    and "overlapping_slots st f (date_only d) (time_only tz s) (time_only tz e) = []"
  shows "\<exists>st' x. create_slot tz st f (Some s) (Some e) (Some d) = Inr (st', x) \<and> x \<in> set (slots st') \<and>
     end_time x < start_time x \<and> \<not> slot_wf x \<and>
     (\<forall>a b. b < end_time x \<or> start_time x < a \<longrightarrow> \<not> overlaps a b x)"
proof -
  let ?x = "new_slot (next_id st) f (date_only d) (time_only tz s) (time_only tz e)"
  have c: "create_slot tz st f (Some s) (Some e) (Some d) = Inr (st\<lparr>slots := slots st @ [?x], next_id := Suc (next_id st)\<rparr>, ?x)"
    using assms by (simp add: create_slot_Inr)
  have "\<forall>a b. b < end_time ?x \<or> start_time ?x < a \<longrightarrow> \<not> overlaps a b ?x"
    using assms(2) by (auto simp: overlaps_def new_slot_def)
  with c assms(2) show ?thesis by (auto simp: new_slot_def slot_wf_def)
qed

theorem create_slot_across_midnight_witness:
  "\<exists>st' x. create_slot 0 empty_db 7 (Some 82800000) (Some 90000000) (Some 0) = Inr (st', x) \<and> x \<in> set (slots st') \<and>
     end_time x < start_time x \<and> \<not> slot_wf x \<and> \<not> overlaps 0 1800 x \<and> \<not> overlaps 84600 85500 x"
proof -
  have "s < e" "time_only 0 e < time_only 0 s"
      "overlapping_slots empty_db 7 (date_only 0) (time_only 0 s) (time_only 0 e) = []"
    if "s = (82800000::int)" "e = (90000000::int)" for s e
    using that by (simp_all add: time_only_def overlapping_slots_def empty_db_def)
  from create_slot_across_midnight [OF this [OF refl refl]]
  obtain st' x where "create_slot 0 empty_db 7 (Some 82800000) (Some 90000000) (Some 0) = Inr (st', x)"
    and "x \<in> set (slots st')" and "end_time x < start_time x" and "\<not> slot_wf x"
    and ov: "\<forall>a b. b < end_time x \<or> start_time x < a \<longrightarrow> \<not> overlaps a b x" by blast
  moreover have "end_time x = 3600" "start_time x = 82800"
    using calculation(1) by (auto simp: create_slot_Inr new_slot_def time_only_def)
  ultimately show ?thesis using ov [rule_format, of 1800 0] ov [rule_format, of 85500 84600] by auto
qed

text \<open>
  Claim C13. Requests that stay within one local day keep their order: when start and end
  fall on the same local calendar day and in different whole seconds, the stored start time
  of day is strictly below the stored end time of day, so the stored slot is well formed.
\<close>

theorem time_only_mono_same_day:
  assumes "(s + tz) div 86400000 = (e + tz) div 86400000"
    and "(s + tz) div 1000 < (e + tz) div 1000"
  shows "time_only tz s < time_only tz e"
proof -
  let ?a = "(s + tz) div 1000" and ?b = "(e + tz) div 1000"
  have da: "?a div 86400 = (s + tz) div 86400000" by (simp add: zdiv_zmult2_eq)
  have db: "?b div 86400 = (e + tz) div 86400000" by (simp add: zdiv_zmult2_eq)
  have "?a mod 86400 = ?a - 86400 * (?a div 86400)" by (simp add: minus_div_mult_eq_mod [symmetric])
  moreover have "?b mod 86400 = ?b - 86400 * (?b div 86400)" by (simp add: minus_div_mult_eq_mod [symmetric])
  ultimately have "?a mod 86400 < ?b mod 86400" using assms(1,2) da db by simp
  then show ?thesis by (simp add: time_only_def)
qed

theorem time_only_mono_same_day_witness:
  "time_only 0 32400000 < time_only 0 36000000"
proof -
  have "(32400000 + 0) div 86400000 = (36000000 + (0::int)) div 86400000"
    and "(32400000 + 0) div 1000 < (36000000 + (0::int)) div 1000" by simp_all
  then show ?thesis by (rule time_only_mono_same_day)
qed

lemma set_available_slots:
  "set (available_slots st today ff fd) =
   {x \<in> set (slots st). status x = Available \<and> today \<le> date x \<and>
      (case ff of None \<Rightarrow> True | Some f \<Rightarrow> faculty_id x = f) \<and> (case fd of None \<Rightarrow> True | Some d \<Rightarrow> date x = d)}"
  by (auto simp: available_slots_def by_date_time_def)

end
