(* ===== verification/Booking.thy ===== *)
theory Booking
  imports Slots
begin

text \<open>
  Booking a slot, \<open>POST /slots/:slotId/book\<close> in \<open>src/backend/src/routes/users.js\<close>
  (lines 506--570), with the meeting-link acquisition it calls: \<open>createRealGoogleMeet\<close>
  (lines 442--463), the fallback generator \<open>generateFallbackMeetLink\<close> (lines
  466--478) and the link extraction of \<open>createCalendarEventWithMeet\<close>
  (\<open>src/backend/src/config/googleCalendar.js\<close>, line 66). The Calendar API call itself
  is external: its outcome is an argument of type \<open>provisioning\<close>. \<open>Math.random\<close> is
  an injected source \<open>rnd\<close>: \<open>rnd k\<close> is the value of
  \<open>Math.floor(Math.random() * chars.length)\<close> at the \<open>k\<close>-th draw.
  The handler is two phases, as in the code: the read of the available slot
  (\<open>book_check\<close>) and the write by id (\<open>book_commit\<close>); \<open>Concurrency\<close>
  interleaves them.
\<close>

section \<open>The fallback link\<close>

definition meet_chars :: string where
  "meet_chars = ''abcdefghijklmnopqrstuvwxyz''"

text \<open>
  \<open>segment += chars[k]\<close>: an index past the alphabet reads \<open>undefined\<close>, which string
  concatenation spells out.
\<close>

definition char_at :: "nat \<Rightarrow> string" where
  "char_at k = (if k < length meet_chars then [meet_chars ! k] else ''undefined'')"

text \<open>The inner loop \<open>for (let j = 0; j < length; j++)\<close>, drawing from index \<open>k\<close>.\<close>

fun segment_loop :: "(nat \<Rightarrow> nat) \<Rightarrow> nat \<Rightarrow> nat \<Rightarrow> string \<Rightarrow> string" where
  "segment_loop rnd k 0 acc = acc"
| "segment_loop rnd k (Suc n) acc = segment_loop rnd (Suc k) n (acc @ char_at (rnd k))"

text \<open>
  The outer loop \<open>for (let i = 0; i < 3; i++)\<close> with \<open>length = i === 1 ? 4 : 3\<close>;
  \<open>k\<close> counts the draws made so far.
\<close>

function segments_loop :: "(nat \<Rightarrow> nat) \<Rightarrow> nat \<Rightarrow> nat \<Rightarrow> string list \<Rightarrow> string list" where
  "segments_loop rnd i k segs =
     (if i < 3 then
        (let len = (if i = 1 then 4 else 3)
         in segments_loop rnd (Suc i) (k + len) (segs @ [segment_loop rnd k len []]))
      else segs)"
  by pat_completeness auto
termination
  by (relation "measure (\<lambda>(rnd, i, k, segs). 3 - i)") auto

declare segments_loop.simps [simp del]

text \<open>\<open>segments.join('-')\<close>.\<close>

fun join_with :: "string \<Rightarrow> string list \<Rightarrow> string" where
  "join_with sep [] = []"
| "join_with sep [x] = x"
| "join_with sep (x # xs) = x @ sep @ join_with sep xs"

definition generate_fallback_meet_link :: "(nat \<Rightarrow> nat) \<Rightarrow> string" where
  "generate_fallback_meet_link rnd =
     ''https://meet.google.com/'' @ join_with ''-'' (segments_loop rnd 0 0 [])"

section \<open>Provisioning\<close>

text \<open>
  What the Calendar API call of \<open>createCalendarEventWithMeet\<close> returns: it throws, or
  it answers an event with an optional \<open>hangoutLink\<close> and an optional first
  conference entry-point \<open>uri\<close>.
\<close>

datatype provisioning =
    Prov_failed
  | Prov_created "string option" "string option"

text \<open>
  \<open>response.data.hangoutLink || response.data.conferenceData?.entryPoints?.[0]?.uri\<close>:
  an empty \<open>hangoutLink\<close> is falsy.
\<close>

definition meet_link_of :: "string option \<Rightarrow> string option \<Rightarrow> string option" where
  "meet_link_of h u = (case h of Some l \<Rightarrow> if l \<noteq> [] then Some l else u | None \<Rightarrow> u)"

text \<open>
  \<open>createRealGoogleMeet\<close>: the created event's link, or on any exception the fallback.
  \<open>None\<close> is JavaScript's \<open>undefined\<close>.
\<close>

definition create_real_google_meet :: "(nat \<Rightarrow> nat) \<Rightarrow> provisioning \<Rightarrow> string option" where
  "create_real_google_meet rnd p =
     (case p of
        Prov_failed \<Rightarrow> Some (generate_fallback_meet_link rnd)
      | Prov_created h u \<Rightarrow> meet_link_of h u)"

section \<open>The booking handler\<close>

text \<open>Lines 513--518: the slot with this id, if it is available.\<close>

definition book_check :: "db \<Rightarrow> slot_key \<Rightarrow> slot option" where
  "book_check st k = single (filter (\<lambda>x. slot_id x = k \<and> status x = Available) (slots st))"

text \<open>
  Lines 530--535: the row update. \<open>notes || null\<close> clears empty notes; a
  \<open>meeting_link\<close> that is \<open>undefined\<close> is dropped from the JSON body, so the column
  keeps its value.
\<close>

definition book_update :: "uid \<Rightarrow> string option \<Rightarrow> string option \<Rightarrow> slot \<Rightarrow> slot" where
  "book_update me nts link x =
     x\<lparr>status := Booked, scholar_id := Some me,
       slot_notes := (case nts of Some n \<Rightarrow> if n = [] then None else Some n | None \<Rightarrow> None),
       meeting_link := (case link of Some l \<Rightarrow> Some l | None \<Rightarrow> meeting_link x)\<rparr>"

text \<open>
  Lines 528--538: the update statement, filtered by id alone (\<open>.eq('id', slotId)\<close>):
  every row with that id is rewritten, whatever its status.
\<close>

definition book_write :: "db \<Rightarrow> uid \<Rightarrow> slot_key \<Rightarrow> string option \<Rightarrow> string option \<Rightarrow> db" where
  "book_write st me k nts link =
     st\<lparr>slots := update_where (\<lambda>x. slot_id x = k) (book_update me nts link) (slots st)\<rparr>"

text \<open>Lines 541--549: the re-fetch of the row, \<open>.eq('id', slotId).single()\<close>.\<close>

definition book_fetch :: "db \<Rightarrow> slot_key \<Rightarrow> slot option" where
  "book_fetch st k = single (filter (\<lambda>x. slot_id x = k) (slots st))"

text \<open>
  Lines 528--551: the write, then the fetch; a failed fetch is the 500 of the \<open>catch\<close>.
  The write has happened by then; the step function of \<open>Concurrency\<close>, which keeps the
  state on every answer, records it.
\<close>

definition book_commit ::
  "db \<Rightarrow> uid \<Rightarrow> slot_key \<Rightarrow> string option \<Rightarrow> string option \<Rightarrow> (db \<times> slot) response" where
  "book_commit st me k nts link =
     (let st' = book_write st me k nts link
      in case book_fetch st' k of
           None \<Rightarrow> Inl (Err500 ''Failed to book slot'')
         | Some x \<Rightarrow> Inr (st', x))"

text \<open>
  The handler body (lines 507--565): the check, the meeting link, the commit. The answer
  carries the booked row and the \<open>meetingLink\<close> sent to the client.
\<close>

definition book_slot ::
  "db \<Rightarrow> uid \<Rightarrow> slot_key \<Rightarrow> string option \<Rightarrow> (nat \<Rightarrow> nat) \<Rightarrow> provisioning \<Rightarrow>
   (db \<times> slot \<times> string option) response" where
  "book_slot st me k nts rnd p =
     (case book_check st k of
        None \<Rightarrow> Inl (Err404 ''Slot not available'')
      | Some x \<Rightarrow>
          (let link = create_real_google_meet rnd p
           in case book_commit st me k nts link of
                Inl err \<Rightarrow> Inl err
              | Inr (st', y) \<Rightarrow> Inr (st', y, link)))"

text \<open>Every booked row names its scholar (the write sets both columns together).\<close>

definition booked_have_scholar :: "slot list \<Rightarrow> bool" where
  "booked_have_scholar xs \<longleftrightarrow> (\<forall>x\<in>set xs. status x = Booked \<longrightarrow> scholar_id x \<noteq> None)"

section \<open>Lemmas\<close>

lemma book_check_Some:
  assumes "distinct (map slot_id (slots st))" and "x \<in> set (slots st)"
    and "slot_id x = k" and "status x = Available"
  shows "book_check st k = Some x"
proof -
  have "filter (\<lambda>y. slot_id y = k) (slots st) = [x]"
    using single_filter_distinct [OF assms(1,2,3)] .
  then have "filter (\<lambda>y. status y = Available) (filter (\<lambda>y. slot_id y = k) (slots st)) = [x]"
    using assms(4) by simp
  then show ?thesis by (simp add: book_check_def conj_commute)
qed

lemma book_check_None:
  "\<forall>x\<in>set (slots st). slot_id x = k \<longrightarrow> status x \<noteq> Available \<Longrightarrow> book_check st k = None"
  by (simp add: book_check_def single_filter_none)

lemma book_check_SomeD:
  "book_check st k = Some x \<Longrightarrow> x \<in> set (slots st) \<and> slot_id x = k \<and> status x = Available"
proof -
  assume "book_check st k = Some x"
  then have "filter (\<lambda>x. slot_id x = k \<and> status x = Available) (slots st) = [x]"
    by (simp add: book_check_def single_Some_iff)
  then have "x \<in> set (filter (\<lambda>x. slot_id x = k \<and> status x = Available) (slots st))" by simp
  then show ?thesis by simp
qed

lemma book_fetch_write:
  assumes "distinct (map slot_id (slots st))" and "x \<in> set (slots st)" and "slot_id x = k"
  shows "book_fetch (book_write st me k nts link) k = Some (book_update me nts link x) \<and>
    distinct (map slot_id (slots (book_write st me k nts link))) \<and>
    book_update me nts link x \<in> set (slots (book_write st me k nts link))"
proof -
  let ?xs = "update_where (\<lambda>y. slot_id y = k) (book_update me nts link) (slots st)"
  have ids: "map slot_id ?xs = map slot_id (slots st)"
    by (rule map_update_where) (simp add: book_update_def)
  have mem: "book_update me nts link x \<in> set ?xs"
    using assms(2,3) by (force simp: update_where_def)
  have "filter (\<lambda>y. slot_id y = k) ?xs = [book_update me nts link x]"
    using single_filter_distinct [of slot_id ?xs, OF _ mem] assms(1,3) ids
    by (simp add: book_update_def)
  then show ?thesis using mem ids assms(1) by (simp add: book_fetch_def book_write_def)
qed

lemma book_commit_Inr:
  assumes "distinct (map slot_id (slots st))" and "x \<in> set (slots st)" and "slot_id x = k"
  shows "book_commit st me k nts link =
     Inr (st\<lparr>slots := update_where (\<lambda>y. slot_id y = k) (book_update me nts link) (slots st)\<rparr>,
          book_update me nts link x)"
  using book_fetch_write [OF assms, of me nts link]
  unfolding book_commit_def Let_def by (simp add: book_write_def)

lemma book_commit_Inr_state:
  "book_commit st me k nts link = Inr (st', y) \<Longrightarrow>
   st' = st\<lparr>slots := update_where (\<lambda>y. slot_id y = k) (book_update me nts link) (slots st)\<rparr>"
  unfolding book_commit_def book_write_def book_fetch_def Let_def by (simp split: option.splits)

lemma book_slot_Inr:
  assumes h: "book_slot st me k nts rnd p = Inr (st', y, l)"
  shows "l = create_real_google_meet rnd p \<and>
   st' = st\<lparr>slots := update_where (\<lambda>y. slot_id y = k) (book_update me nts l) (slots st)\<rparr> \<and>
   (\<exists>x. book_check st k = Some x)"
proof -
  obtain x where chk: "book_check st k = Some x"
    using h by (cases "book_check st k") (simp_all add: book_slot_def)
  have "\<exists>y'. book_commit st me k nts (create_real_google_meet rnd p) = Inr (st', y') \<and>
      l = create_real_google_meet rnd p"
  proof (cases "book_commit st me k nts (create_real_google_meet rnd p)")
    case (Inl e)
    with h chk show ?thesis by (simp add: book_slot_def Let_def)
  next
    case (Inr r)
    then obtain a b where "r = (a, b)" by (cases r)
    with Inr h chk show ?thesis by (simp add: book_slot_def Let_def)
  qed
  then obtain y' where cm: "book_commit st me k nts (create_real_google_meet rnd p) = Inr (st', y')"
    and l: "l = create_real_google_meet rnd p" by blast
  note st' = book_commit_Inr_state [OF cm]
  from l st' chk show ?thesis by simp
qed

lemma book_slot_row:
  assumes h: "book_slot st me k nts rnd p = Inr (st', y, l)"
  shows "\<exists>z\<in>set (slots st). slot_id z = k \<and> y = book_update me nts l z"
proof -
  obtain x where chk: "book_check st k = Some x"
    using h by (cases "book_check st k") (simp_all add: book_slot_def)
  have l: "l = create_real_google_meet rnd p" using book_slot_Inr [OF h] by simp
  have "book_fetch (book_write st me k nts l) k = Some y"
    using h chk l by (auto simp: book_slot_def book_commit_def Let_def split: option.splits sum.splits)
  then have f: "filter (\<lambda>x. slot_id x = k) (update_where (\<lambda>y. slot_id y = k) (book_update me nts l) (slots st)) = [y]"
    by (simp add: book_fetch_def book_write_def single_Some_iff)
  have "y \<in> set (filter (\<lambda>x. slot_id x = k) (update_where (\<lambda>y. slot_id y = k) (book_update me nts l) (slots st)))"
    by (simp add: f)
  then have "y \<in> set (update_where (\<lambda>y. slot_id y = k) (book_update me nts l) (slots st)) \<and> slot_id y = k"
    by simp
  then show ?thesis by (auto simp: set_update_where book_update_def)
qed

lemma book_update_status [simp]: "status (book_update me nts l x) = Booked"
  by (simp add: book_update_def)

lemma book_update_slot_id [simp]: "slot_id (book_update me nts l x) = slot_id x"
  by (simp add: book_update_def)

lemma booked_after_update:
  "\<forall>x\<in>set (update_where (\<lambda>y. slot_id y = k) (book_update me nts l) xs).
     slot_id x = k \<longrightarrow> status x \<noteq> Available"
  by (induction xs) auto

lemma book_write_check_None: "book_check (book_write st me k nts l) k = None"
  unfolding book_write_def by (rule book_check_None) (simp add: booked_after_update)

lemma segment_loop_eq:
  "segment_loop rnd k n acc = acc @ concat (map (\<lambda>j. char_at (rnd (k + j))) [0..<n])"
proof (induction n arbitrary: k acc)
  case 0
  then show ?case by simp
next
  case (Suc n)
  have "map (\<lambda>j. char_at (rnd (k + j))) [0..<Suc n] =
        char_at (rnd k) # map (\<lambda>j. char_at (rnd (Suc k + j))) [0..<n]"
    by (simp add: map_upt_Suc del: upt_Suc)
  with Suc show ?case by simp
qed

lemma segments_loop_0: "segments_loop rnd 0 0 [] =
  [segment_loop rnd 0 3 [], segment_loop rnd 3 4 [], segment_loop rnd 7 3 []]"
  by (simp add: segments_loop.simps [of rnd] numeral_eq_Suc)

lemma length_meet_chars [simp]: "length meet_chars = 26"
  by (simp add: meet_chars_def)

lemma char_at_letter: "k < 26 \<Longrightarrow> char_at k = [meet_chars ! k] \<and> meet_chars ! k \<in> set meet_chars"
  by (simp add: char_at_def)

lemma segment_letters:
  "\<forall>j<n. rnd (k + j) < 26 \<Longrightarrow>
   length (segment_loop rnd k n acc) = length acc + n \<and>
   set (segment_loop rnd k n acc) \<subseteq> set acc \<union> set meet_chars"
proof (induction n arbitrary: k acc)
  case 0
  then show ?case by simp
next
  case (Suc n)
  from Suc.prems have r: "rnd k < 26" by (metis add_0_right zero_less_Suc)
  from Suc.prems have "\<forall>j<n. rnd (Suc k + j) < 26" by fastforce
  from Suc.IH [OF this, of "acc @ char_at (rnd k)"] r show ?case
    by (auto simp: char_at_letter)
qed

lemma booked_have_scholar_update:
  "booked_have_scholar xs \<Longrightarrow>
   booked_have_scholar (update_where (\<lambda>y. slot_id y = k) (book_update me nts l) xs)"
  by (induction xs) (auto simp: booked_have_scholar_def book_update_def)

lemma book_slot_keys:
  assumes k: "keys_ok st" and b: "book_slot st me k' nts rnd p = Inr (st', y, l)"
  shows "keys_ok st' \<and> users st' = users st \<and> user_roles st' = user_roles st \<and>
    (booked_have_scholar (slots st) \<longrightarrow> booked_have_scholar (slots st'))"
proof -
  have st': "st' = st\<lparr>slots := update_where (\<lambda>y. slot_id y = k') (book_update me nts l) (slots st)\<rparr>"
    using book_slot_Inr [OF b] by simp
  have ids: "map slot_id (update_where (\<lambda>y. slot_id y = k') (book_update me nts l) (slots st)) = map slot_id (slots st)"
    by (rule map_update_where) simp
  have "\<forall>s\<in>set (slots st'). slot_id s < next_id st'"
  proof
    fix s assume "s \<in> set (slots st')"
    then have "slot_id s \<in> set (map slot_id (slots st))" unfolding st' by (simp only: ids [symmetric]) simp
    then show "slot_id s < next_id st'" using k by (auto simp: keys_ok_def st')
  qed
  then show ?thesis using k ids by (simp add: keys_ok_def st' booked_have_scholar_update)
qed

lemma book_slot_eq:
  assumes "distinct (map slot_id (slots st))" and "x \<in> set (slots st)"
    and "slot_id x = k" and "status x = Available"
  shows "book_slot st me k nts rnd p =
     Inr (st\<lparr>slots := update_where (\<lambda>y. slot_id y = k)
              (book_update me nts (create_real_google_meet rnd p)) (slots st)\<rparr>,
          book_update me nts (create_real_google_meet rnd p) x,
          create_real_google_meet rnd p)"
  using book_check_Some [OF assms] book_commit_Inr [OF assms(1-3)]
  by (simp add: book_slot_def Let_def)

lemma filter_other_update_where:
  "(\<And>z. slot_id (f z) = slot_id z) \<Longrightarrow>
   filter (\<lambda>z. slot_id z \<noteq> k) (update_where (\<lambda>y. slot_id y = k) f xs) = filter (\<lambda>z. slot_id z \<noteq> k) xs"
  by (induction xs) auto

text \<open>
  Claim C2. Booking an available slot succeeds and writes what the handler says: when the
  table holds an available row of id \<open>k\<close> (ids unique), the answer is the re-fetched row,
  which is in the new table with status booked, the caller as scholar, the request's notes
  (\<open>notes || null\<close>), the link of \<open>createRealGoogleMeet\<close> (the old column when that
  is \<open>undefined\<close>) and the slot's own faculty, date and times; every row of another id,
  and the users and role tables, are unchanged.
\<close>

theorem book_slot_success:
  assumes "distinct (map slot_id (slots st))" and "x \<in> set (slots st)"
    and "slot_id x = k" and "status x = Available"
  shows "\<exists>st' y. book_slot st me k nts rnd p = Inr (st', y, create_real_google_meet rnd p) \<and>
     y \<in> set (slots st') \<and> slot_id y = k \<and> status y = Booked \<and> scholar_id y = Some me \<and>
     slot_notes y = (case nts of Some n \<Rightarrow> if n = [] then None else Some n | None \<Rightarrow> None) \<and>
     meeting_link y = (case create_real_google_meet rnd p of Some l \<Rightarrow> Some l | None \<Rightarrow> meeting_link x) \<and>
     faculty_id y = faculty_id x \<and> date y = date x \<and> start_time y = start_time x \<and> end_time y = end_time x \<and>
     filter (\<lambda>z. slot_id z \<noteq> k) (slots st') = filter (\<lambda>z. slot_id z \<noteq> k) (slots st) \<and>
     users st' = users st \<and> user_roles st' = user_roles st"
proof -
  let ?l = "create_real_google_meet rnd p"
  have mem: "book_update me nts ?l x \<in> set (update_where (\<lambda>y. slot_id y = k) (book_update me nts ?l) (slots st))"
    using book_fetch_write [OF assms(1-3), of me nts ?l] by (simp add: book_write_def)
  have oth: "filter (\<lambda>z. slot_id z \<noteq> k) (update_where (\<lambda>y. slot_id y = k) (book_update me nts ?l) (slots st)) =
      filter (\<lambda>z. slot_id z \<noteq> k) (slots st)"
    by (rule filter_other_update_where) simp
  show ?thesis
    using book_slot_eq [OF assms, of me nts rnd p] mem oth assms(3)
    by (simp add: book_update_def split: option.splits)
qed

theorem book_slot_success_witness:
  "\<exists>st' y. book_slot (empty_db\<lparr>slots := [new_slot 0 7 0 32400 36000], next_id := 1\<rparr>) 9 0 (Some ''demo'') (\<lambda>i. i) Prov_failed =
      Inr (st', y, Some (generate_fallback_meet_link (\<lambda>i. i))) \<and>
    status y = Booked \<and> scholar_id y = Some 9 \<and> slot_notes y = Some ''demo'' \<and>
    meeting_link y = Some (generate_fallback_meet_link (\<lambda>i. i))"
proof -
  have h1: "distinct (map slot_id (slots (empty_db\<lparr>slots := [new_slot 0 7 0 32400 36000], next_id := 1\<rparr>)))" by (simp add: new_slot_def)
  have h2: "new_slot 0 7 0 32400 36000 \<in> set (slots (empty_db\<lparr>slots := [new_slot 0 7 0 32400 36000], next_id := 1\<rparr>))" by simp
  have h3: "slot_id (new_slot 0 7 0 32400 36000) = 0" by (simp add: new_slot_def)
  have h4: "status (new_slot 0 7 0 32400 36000) = Available" by (simp add: new_slot_def)
  from book_slot_success [OF h1 h2 h3 h4, of 9 "Some ''demo''" "\<lambda>i. i" Prov_failed]
  show ?thesis by (auto simp: create_real_google_meet_def)
qed

text \<open>
  Claim C3. A slot that one booking has taken cannot be booked again: after a successful booking of
  slot \<open>k\<close>, every later booking request for \<open>k\<close>, by any scholar with any notes and
  any provisioning outcome, is refused with 404 \<open>Slot not available\<close>.
\<close>

theorem book_slot_twice:
  assumes "book_slot st me k nts rnd p = Inr (st', y, l)"
  shows "book_slot st' me' k nts' rnd' p' = Inl (Err404 ''Slot not available'')"
proof -
  have st': "st' = st\<lparr>slots := update_where (\<lambda>y. slot_id y = k) (book_update me nts l) (slots st)\<rparr>"
    using book_slot_Inr [OF assms, THEN conjunct2, THEN conjunct1] .
  have "\<forall>x\<in>set (slots st'). slot_id x = k \<longrightarrow> status x \<noteq> Available"
    unfolding st' using booked_after_update by simp
  then have "book_check st' k = None" by (rule book_check_None)
  then show ?thesis by (simp add: book_slot_def)
qed

theorem book_slot_twice_witness:
  "book_slot (empty_db\<lparr>slots := [book_update 9 (Some ''demo'') (Some (generate_fallback_meet_link (\<lambda>i. i))) (new_slot 0 7 0 32400 36000)], next_id := 1\<rparr>) 10 0 None (\<lambda>i. i) (Prov_created (Some ''https://meet.google.com/x'') None) =
   Inl (Err404 ''Slot not available'')"
proof -
  have first: "book_slot (empty_db\<lparr>slots := [new_slot 0 7 0 32400 36000], next_id := 1\<rparr>) 9 0 (Some ''demo'') (\<lambda>i. i) Prov_failed =
      Inr (empty_db\<lparr>slots := [book_update 9 (Some ''demo'') (Some (generate_fallback_meet_link (\<lambda>i. i))) (new_slot 0 7 0 32400 36000)], next_id := 1\<rparr>, book_update 9 (Some ''demo'') (Some (generate_fallback_meet_link (\<lambda>i. i))) (new_slot 0 7 0 32400 36000), Some (generate_fallback_meet_link (\<lambda>i. i)))"
  proof -
    have h1: "distinct (map slot_id (slots (empty_db\<lparr>slots := [new_slot 0 7 0 32400 36000], next_id := 1\<rparr>)))" by (simp add: new_slot_def)
    have h2: "new_slot 0 7 0 32400 36000 \<in> set (slots (empty_db\<lparr>slots := [new_slot 0 7 0 32400 36000], next_id := 1\<rparr>))" by simp
    have h3: "slot_id (new_slot 0 7 0 32400 36000) = 0" by (simp add: new_slot_def)
    have h4: "status (new_slot 0 7 0 32400 36000) = Available" by (simp add: new_slot_def)
    show ?thesis
      using book_slot_eq [OF h1 h2 h3 h4, of 9 "Some ''demo''" "\<lambda>i. i" Prov_failed]
      by (simp add: create_real_google_meet_def new_slot_def)
  qed
  show ?thesis by (rule book_slot_twice [OF first])
qed

text \<open>
  Claim C5. A booking request for a slot that is not available (unknown id, or a slot already
  booked, cancelled or completed) is refused with 404 \<open>Slot not available\<close> before any
  meeting is provisioned or any row is written.
\<close>

theorem book_slot_unavailable:
  "\<forall>x\<in>set (slots st). slot_id x = k \<longrightarrow> status x \<noteq> Available \<Longrightarrow>
   book_slot st me k nts rnd p = Inl (Err404 ''Slot not available'')"
  by (simp add: book_slot_def book_check_None)

theorem book_slot_unavailable_witness:
  "book_slot (empty_db\<lparr>slots := [(new_slot 0 7 0 32400 36000)\<lparr>status := Completed\<rparr>], next_id := 1\<rparr>)
     9 0 None (\<lambda>i. i) Prov_failed = Inl (Err404 ''Slot not available'')"
proof -
  have "\<forall>x\<in>set (slots (empty_db\<lparr>slots := [(new_slot 0 7 0 32400 36000)\<lparr>status := Completed\<rparr>], next_id := 1\<rparr>)).
      slot_id x = 0 \<longrightarrow> status x \<noteq> Available" by simp
  then show ?thesis by (rule book_slot_unavailable)
qed

text \<open>
  Claim C19. The listing offers exactly the slots a booking can take: with unique slot ids, a
  row is in the unfiltered answer of \<open>GET /slots/available\<close> exactly when the booking
  handler's read finds it (available, that id) and it is dated today or later; and every row
  of a filtered listing is one of them.
\<close>

theorem listed_slots_bookable:
  assumes "distinct (map slot_id (slots st))"
  shows "(x \<in> set (available_slots st today None None) \<longleftrightarrow> book_check st (slot_id x) = Some x \<and> today \<le> date x) \<and>
    set (available_slots st today ff fd) \<subseteq> set (available_slots st today None None)"
proof -
  have "x \<in> set (slots st) \<and> status x = Available \<longleftrightarrow> book_check st (slot_id x) = Some x"
    using book_check_Some [OF assms, of x "slot_id x"] book_check_SomeD [of st "slot_id x" x] by blast
  then show ?thesis by (auto simp: set_available_slots)
qed

theorem listed_slots_bookable_witness:
  "new_slot 0 7 20148 32400 36000 \<in> set (available_slots (empty_db\<lparr>slots := [new_slot 0 7 20148 32400 36000,
      (new_slot 1 7 20148 36000 39600)\<lparr>status := Completed\<rparr>], next_id := 2\<rparr>) 20000 None None) \<and>
   book_check (empty_db\<lparr>slots := [new_slot 0 7 20148 32400 36000,
      (new_slot 1 7 20148 36000 39600)\<lparr>status := Completed\<rparr>], next_id := 2\<rparr>) 0 = Some (new_slot 0 7 20148 32400 36000)"
proof -
  let ?st = "empty_db\<lparr>slots := [new_slot 0 7 20148 32400 36000,
      (new_slot 1 7 20148 36000 39600)\<lparr>status := Completed\<rparr>], next_id := 2\<rparr>"
  have d: "distinct (map slot_id (slots ?st))" by (simp add: new_slot_def)
  have "new_slot 0 7 20148 32400 36000 \<in> set (available_slots ?st 20000 None None)"
    by (simp add: set_available_slots new_slot_def)
  with listed_slots_bookable [OF d, of "new_slot 0 7 20148 32400 36000" 20000]
  show ?thesis by (simp add: new_slot_def)
qed

text \<open>
  Claim C14. The fallback meeting link has the documented shape: when each of the first ten draws of
  the random source is below 26, the link is \<open>https://meet.google.com/\<close> followed by three
  lowercase segments of lengths 3, 4 and 3 joined by dashes.
\<close>

theorem fallback_link_shape:
  assumes "\<forall>i<10. rnd i < 26"
  shows "\<exists>a b c. generate_fallback_meet_link rnd = ''https://meet.google.com/'' @ a @ ''-'' @ b @ ''-'' @ c \<and>
     length a = 3 \<and> length b = 4 \<and> length c = 3 \<and> set (a @ b @ c) \<subseteq> set meet_chars"
proof -
  let ?a = "segment_loop rnd 0 3 []" and ?b = "segment_loop rnd 3 4 []" and ?c = "segment_loop rnd 7 3 []"
  have a: "length ?a = 3 \<and> set ?a \<subseteq> set meet_chars"
    using segment_letters [of 3 rnd 0 "[]"] assms by simp
  have b: "length ?b = 4 \<and> set ?b \<subseteq> set meet_chars"
    using segment_letters [of 4 rnd 3 "[]"] assms by simp
  have c: "length ?c = 3 \<and> set ?c \<subseteq> set meet_chars"
    using segment_letters [of 3 rnd 7 "[]"] assms by simp
  have eq: "generate_fallback_meet_link rnd = ''https://meet.google.com/'' @ ?a @ ''-'' @ ?b @ ''-'' @ ?c"
    by (simp add: generate_fallback_meet_link_def segments_loop_0)
  show ?thesis
    by (rule exI [of _ ?a], rule exI [of _ ?b], rule exI [of _ ?c]) (use a b c eq in auto)
qed

theorem fallback_link_shape_witness:
  "generate_fallback_meet_link (\<lambda>i. i) = ''https://meet.google.com/abc-defg-hij'' \<and>
   (\<exists>a b c. generate_fallback_meet_link (\<lambda>i. i) = ''https://meet.google.com/'' @ a @ ''-'' @ b @ ''-'' @ c \<and>
     length a = 3 \<and> length b = 4 \<and> length c = 3 \<and> set (a @ b @ c) \<subseteq> set meet_chars)"
proof -
  have h: "\<forall>i<10. (\<lambda>i. i) i < (26::nat)" by simp
  have "generate_fallback_meet_link (\<lambda>i. i) = ''https://meet.google.com/abc-defg-hij''"
    by (simp add: generate_fallback_meet_link_def segments_loop_0 char_at_def meet_chars_def numeral_eq_Suc)
  with fallback_link_shape [OF h] show ?thesis by simp
qed

text \<open>
  Claim C15. A booking can succeed without a meeting link: for every available slot without a
  link, when the Calendar API answers an event that carries no (or an empty) \<open>hangoutLink\<close>
  and no conference entry point, no exception is raised, the fallback is not used, the answer's
  \<open>meetingLink\<close> is undefined and the slot is stored as booked with no \<open>meeting_link\<close>.
\<close>

theorem booked_without_link:
  assumes "distinct (map slot_id (slots st))" and "x \<in> set (slots st)"
    and "slot_id x = k" and "status x = Available" and "meeting_link x = None"
    and "h = None \<or> h = Some []"
  shows "\<exists>st' y. book_slot st me k nts rnd (Prov_created h None) = Inr (st', y, None) \<and>
     y \<in> set (slots st') \<and> slot_id y = k \<and> status y = Booked \<and> meeting_link y = None"
proof -
  have l: "create_real_google_meet rnd (Prov_created h None) = None"
    using assms(6) by (auto simp: create_real_google_meet_def meet_link_of_def)
  have mem: "book_update me nts None x \<in> set (update_where (\<lambda>y. slot_id y = k) (book_update me nts None) (slots st))"
    using book_fetch_write [OF assms(1-3), of me nts None] by (simp add: book_write_def)
  show ?thesis
    using book_slot_eq [OF assms(1-4), of me nts rnd "Prov_created h None"] mem assms(3,5)
    by (simp add: l book_update_def)
qed

theorem booked_without_link_witness:
  "\<exists>st' y. book_slot (empty_db\<lparr>slots := [new_slot 0 7 0 32400 36000], next_id := 1\<rparr>) 9 0 None (\<lambda>i. i)
      (Prov_created None None) = Inr (st', y, None) \<and>
    y \<in> set (slots st') \<and> slot_id y = 0 \<and> status y = Booked \<and> meeting_link y = None"
proof -
  have h1: "distinct (map slot_id (slots (empty_db\<lparr>slots := [new_slot 0 7 0 32400 36000], next_id := 1\<rparr>)))" by (simp add: new_slot_def)
  have h2: "new_slot 0 7 0 32400 36000 \<in> set (slots (empty_db\<lparr>slots := [new_slot 0 7 0 32400 36000], next_id := 1\<rparr>))" by simp
  have h3: "slot_id (new_slot 0 7 0 32400 36000) = 0" and h4: "status (new_slot 0 7 0 32400 36000) = Available"
    and h5: "meeting_link (new_slot 0 7 0 32400 36000) = None" by (simp_all add: new_slot_def)
  show ?thesis by (rule booked_without_link [OF h1 h2 h3 h4 h5]) simp
qed

end
