(* ===== verification/Concurrency.thy ===== *)
theory Concurrency
  imports Booking
begin

text \<open>
  Concurrent booking requests. The handler \<open>POST /slots/:slotId/book\<close>
  (\<open>src/backend/src/routes/users.js\<close> lines 506--570) reads the slot (lines 513--518),
  awaits the meeting provisioning (line 525), and only then writes the row (lines 528--536)
  and re-reads it (lines 541--549). Node serves other requests while a handler awaits, so
  the read and the write of one request are separate events that other requests' events
  may fall between. A request is in one of three phases; an event advances one request;
  a schedule is a list of events. The meeting link a request writes is the outcome of its
  provisioning, a parameter of the request.
\<close>

record book_req =
  rq_me :: uid
  rq_slot :: slot_key
  rq_notes :: "string option"
  rq_link :: "string option"

datatype phase = Waiting | Checked | Answered "slot response"

datatype event = Check nat | Commit nat

type_synonym config = "db \<times> phase list"

text \<open>
  One event. \<open>Check i\<close> is the read of request \<open>i\<close> (404 when no available row has the
  id); \<open>Commit i\<close> is its write and re-fetch, which follow the read only. An event of a
  request that is not in the phase the event needs does nothing.
\<close>

fun step_event :: "book_req list \<Rightarrow> config \<Rightarrow> event \<Rightarrow> config" where
  "step_event rs (st, ph) (Check i) =
     (if i < length rs \<and> i < length ph \<and> ph ! i = Waiting then
        (case book_check st (rq_slot (rs ! i)) of
           None \<Rightarrow> (st, ph[i := Answered (Inl (Err404 ''Slot not available''))])
         | Some _ \<Rightarrow> (st, ph[i := Checked]))
      else (st, ph))"
| "step_event rs (st, ph) (Commit i) =
     (if i < length rs \<and> i < length ph \<and> ph ! i = Checked then
        (let r = rs ! i;
             st' = book_write st (rq_me r) (rq_slot r) (rq_notes r) (rq_link r)
         in case book_fetch st' (rq_slot r) of
              None \<Rightarrow> (st', ph[i := Answered (Inl (Err500 ''Failed to book slot''))])
            | Some x \<Rightarrow> (st', ph[i := Answered (Inr x)]))
      else (st, ph))"

definition run_events :: "book_req list \<Rightarrow> db \<Rightarrow> event list \<Rightarrow> config" where
  "run_events rs st evs = fold (\<lambda>e c. step_event rs c e) evs (st, replicate (length rs) Waiting)"

text \<open>A serial schedule: each request's write right after its read.\<close>

definition serial :: "nat list \<Rightarrow> event list" where
  "serial is = concat (map (\<lambda>i. [Check i, Commit i]) is)"

fun is_success :: "phase \<Rightarrow> bool" where
  "is_success (Answered (Inr _)) = True"
| "is_success _ = False"

definition successes :: "phase list \<Rightarrow> nat" where
  "successes ph = length (filter is_success ph)"

text \<open>
  The invariant of serial schedules for requests of one slot \<open>k\<close>: no request is between
  its read and its write, at most one request has been answered with a booking, and once
  one has, no row with id \<open>k\<close> is available.
\<close>

definition serial_inv :: "slot_key \<Rightarrow> config \<Rightarrow> bool" where
  "serial_inv k c \<longleftrightarrow> Checked \<notin> set (snd c) \<and> successes (snd c) \<le> 1 \<and>
     (successes (snd c) = 1 \<longrightarrow> book_check (fst c) k = None)"

section \<open>Lemmas\<close>

lemma successes_update:
  assumes "i < length ph" and "\<not> is_success (ph ! i)"
  shows "successes (ph[i := v]) = successes ph + (if is_success v then 1 else 0)"
  using length_filter_list_update [OF assms(1), of is_success v] assms(2)
  by (simp add: successes_def)

lemma commit_answers:
  assumes "i < length rs" "i < length ph" and "ph ! i = Checked"
  obtains a where "step_event rs (st, ph) (Commit i) =
      (book_write st (rq_me (rs ! i)) (rq_slot (rs ! i)) (rq_notes (rs ! i)) (rq_link (rs ! i)), ph[i := Answered a])"
  using assms by (cases "book_fetch (book_write st (rq_me (rs ! i)) (rq_slot (rs ! i)) (rq_notes (rs ! i)) (rq_link (rs ! i))) (rq_slot (rs ! i))")
    (simp_all add: Let_def)

lemma serial_pair:
  assumes inv: "serial_inv k (st, ph)" and one: "\<forall>r\<in>set rs. rq_slot r = k"
  shows "serial_inv k (step_event rs (step_event rs (st, ph) (Check i)) (Commit i))"
proof (cases "i < length rs \<and> i < length ph \<and> ph ! i = Waiting")
  case False
  have "ph ! i \<noteq> Checked" if "i < length ph"
    using inv that nth_mem by (fastforce simp: serial_inv_def)
  with False inv show ?thesis by auto
next
  case True
  then have ik: "rq_slot (rs ! i) = k" using one by simp
  have ns: "\<not> is_success (ph ! i)" using True by simp
  have nc: "Checked \<notin> set (ph[i := Answered a])" for a
    using inv set_update_subset_insert [of ph i "Answered a"] by (auto simp: serial_inv_def)
  show ?thesis
  proof (cases "book_check st k")
    case None
    with True ik have "step_event rs (st, ph) (Check i) = (st, ph[i := Answered (Inl (Err404 ''Slot not available''))])"
      by simp
    moreover have "successes (ph[i := Answered (Inl (Err404 ''Slot not available''))]) = successes ph"
      using successes_update [OF _ ns] True by simp
    ultimately show ?thesis using True inv nc by (simp add: serial_inv_def)
  next
    case (Some x)
    with True ik have c: "step_event rs (st, ph) (Check i) = (st, ph[i := Checked])" by simp
    have "(ph[i := Checked]) ! i = Checked" using True by simp
    then obtain a where cm: "step_event rs (st, ph[i := Checked]) (Commit i) =
        (book_write st (rq_me (rs ! i)) k (rq_notes (rs ! i)) (rq_link (rs ! i)), ph[i := Answered a])"
      using commit_answers [of i rs "ph[i := Checked]" st] True ik by auto
    have s0: "successes ph = 0" using inv Some by (auto simp: serial_inv_def)
    have "successes (ph[i := Answered a]) \<le> 1"
      using successes_update [OF _ ns, of "Answered a"] True s0 by simp
    then show ?thesis using c cm nc by (simp add: serial_inv_def book_write_check_None)
  qed
qed

lemma serial_inv_run:
  "serial_inv k c \<Longrightarrow> \<forall>r\<in>set rs. rq_slot r = k \<Longrightarrow>
   serial_inv k (fold (\<lambda>e c. step_event rs c e) (serial is) c)"
proof (induction "is" arbitrary: c)
  case Nil then show ?case by (simp add: serial_def)
next
  case (Cons i "is")
  obtain st ph where c: "c = (st, ph)" by (cases c)
  have "serial_inv k (step_event rs (step_event rs (st, ph) (Check i)) (Commit i))"
    using serial_pair Cons.prems c by blast
  with Cons show ?case by (simp add: serial_def c)
qed

text \<open>
  The event model agrees with the handler: the read of one request followed by its write,
  with the meeting link its provisioning produced, answers what \<open>book_slot\<close> answers,
  and on success leaves the state \<open>book_slot\<close> leaves.
\<close>

lemma event_model_book_slot:
  "(case book_slot st me k nts rnd p of
      Inr (st', y, l) \<Rightarrow>
        run_events [\<lparr>rq_me = me, rq_slot = k, rq_notes = nts, rq_link = create_real_google_meet rnd p\<rparr>] st
          [Check 0, Commit 0] = (st', [Answered (Inr y)])
    | Inl e \<Rightarrow>
        snd (run_events [\<lparr>rq_me = me, rq_slot = k, rq_notes = nts, rq_link = create_real_google_meet rnd p\<rparr>] st
          [Check 0, Commit 0]) = [Answered (Inl e)])"
proof (cases "book_check st k")
  case None
  then show ?thesis by (simp add: book_slot_def run_events_def)
next
  case (Some x)
  then show ?thesis
    by (cases "book_fetch (book_write st me k nts (create_real_google_meet rnd p)) k")
       (simp_all add: book_slot_def book_commit_def run_events_def Let_def)
qed

text \<open>
  Claim C25. Served one after another, booking requests for the same slot book it at most
  once: in every serial schedule (each request's write right after its read, in any order
  and with any repetitions), at most one request is answered with a booked slot.
\<close>

theorem serial_booking_once:
  assumes "\<forall>r\<in>set rs. rq_slot r = k"
  shows "successes (snd (run_events rs st (serial is))) \<le> 1"
proof -
  have "serial_inv k (st, replicate (length rs) Waiting)"
    by (simp add: serial_inv_def successes_def)
  from serial_inv_run [OF this assms] show ?thesis
    by (simp add: run_events_def serial_inv_def)
qed

theorem serial_booking_once_witness:
  "successes (snd (run_events [\<lparr>rq_me = 9, rq_slot = 0, rq_notes = None, rq_link = None\<rparr>, \<lparr>rq_me = 10, rq_slot = 0, rq_notes = Some ''second'', rq_link = None\<rparr>] (empty_db\<lparr>slots := [new_slot 0 7 0 32400 36000], next_id := 1\<rparr>) (serial [0, 1]))) \<le> 1"
  using serial_booking_once [of "[\<lparr>rq_me = 9, rq_slot = 0, rq_notes = None, rq_link = None\<rparr>, \<lparr>rq_me = 10, rq_slot = 0, rq_notes = Some ''second'', rq_link = None\<rparr>]" 0 "(empty_db\<lparr>slots := [new_slot 0 7 0 32400 36000], next_id := 1\<rparr>)" "[0, 1]"] by simp

text \<open>
  Claim C4. Interleaved, the same two requests both succeed (a lost update): when two
  scholars \<open>a\<close> and \<open>b\<close> read the same available slot before either writes (the
  handler awaits the meeting provisioning in between), both writes pass, because the update
  is filtered by id only and not by \<open>status = 'available'\<close>; both are answered with a
  booked slot, and the row ends up with scholar \<open>b\<close> although \<open>a\<close> was told the booking
  succeeded.
\<close>

theorem booking_race_lost_update:
  assumes ids: "distinct (map slot_id (slots st))" and x: "x \<in> set (slots st)"
    and k: "slot_id x = k" and av: "status x = Available"
  shows "\<exists>st' y0 y1.
    run_events [\<lparr>rq_me = a, rq_slot = k, rq_notes = n1, rq_link = l1\<rparr>,
                \<lparr>rq_me = b, rq_slot = k, rq_notes = n2, rq_link = l2\<rparr>] st
      [Check 0, Check 1, Commit 0, Commit 1] = (st', [Answered (Inr y0), Answered (Inr y1)]) \<and>
    scholar_id y0 = Some a \<and> scholar_id y1 = Some b \<and> book_fetch st' k = Some y1"
proof -
  have chk: "book_check st k = Some x" by (rule book_check_Some [OF ids x k av])
  note w1 = book_fetch_write [OF ids x k, of a n1 l1]
  have k1: "slot_id (book_update a n1 l1 x) = k" using k by simp
  note w2 = book_fetch_write [OF w1 [THEN conjunct2, THEN conjunct1] w1 [THEN conjunct2, THEN conjunct2] k1, of b n2 l2]
  show ?thesis
    using chk w1 w2 by (simp add: run_events_def book_update_def)
qed

theorem booking_race_lost_update_witness:
  "\<exists>st' y0 y1.
    run_events [\<lparr>rq_me = 9, rq_slot = 0, rq_notes = None, rq_link = None\<rparr>, \<lparr>rq_me = 10, rq_slot = 0, rq_notes = Some ''second'', rq_link = None\<rparr>] (empty_db\<lparr>slots := [new_slot 0 7 0 32400 36000], next_id := 1\<rparr>) [Check 0, Check 1, Commit 0, Commit 1] = (st', [Answered (Inr y0), Answered (Inr y1)]) \<and>
    scholar_id y0 = Some 9 \<and> scholar_id y1 = Some 10 \<and> book_fetch st' 0 = Some y1"
  using booking_race_lost_update [of "(empty_db\<lparr>slots := [new_slot 0 7 0 32400 36000], next_id := 1\<rparr>)" "new_slot 0 7 0 32400 36000" 0 9 None None 10 "Some ''second''" None]
  by (simp add: new_slot_def)

end
