(* ===== verification/Role_Sync.thy ===== *)
theory Role_Sync
  imports Schema
begin

text \<open>
  The two role stores and the triggers that keep them in step
  (\<open>src/database/migrations/add_user_roles_table.sql\<close>): \<open>sync_user_role\<close> (lines
  69--85) copies a written \<open>user_roles\<close> row to the \<open>users\<close> rows of that e-mail;
  \<open>sync_role_to_user_roles\<close> (lines 96--115) copies a changed \<open>users.role\<close> back into
  \<open>user_roles\<close>; \<open>prevent_self_role_change\<close> (\<open>schema.sql\<close> lines 124--137) refuses
  a change of the row whose id is \<open>auth.uid()\<close>. Each trigger's statement can fire the
  other, so a write is a cascade; it is modelled with a fuel bound, and a lemma shows
  that four units always suffice, that three do not, and that more fuel changes nothing.
  A database write answers \<open>Inl msg\<close> when a statement raises (a trigger exception
  or a unique violation), \<open>Inr\<close> the new state otherwise.
\<close>

type_synonym 'a db_result = "string + 'a"

section \<open>Statements\<close>

text \<open>\<open>INSERT INTO user_roles (email, role) ... ON CONFLICT (email) DO UPDATE SET role\<close>.\<close>

fun ur_upsert :: "email_addr \<Rightarrow> role \<Rightarrow> role_row list \<Rightarrow> role_row list" where
  "ur_upsert e r [] = [\<lparr>ur_email = e, ur_role = r\<rparr>]"
| "ur_upsert e r (x # xs) =
     (if ur_email x = e then x\<lparr>ur_role := r\<rparr> # xs else x # ur_upsert e r xs)"

text \<open>
  \<open>prevent_self_role_change\<close>: \<open>OLD.role != NEW.role AND OLD.id = auth.uid()\<close>. The
  backend's service-role client has no \<open>auth.uid()\<close> (\<open>None\<close>), so the comparison is
  \<open>NULL\<close> and the trigger never raises for it.
\<close>

definition self_role_change :: "uid option \<Rightarrow> (user_row \<Rightarrow> bool) \<Rightarrow> role \<Rightarrow> user_row list \<Rightarrow> bool" where
  "self_role_change auid P r us =
     (\<exists>u\<in>set us. P u \<and> role u \<noteq> r \<and> auid = Some (user_id u))"

section \<open>The trigger cascade\<close>

text \<open>
  \<open>user_roles_write n auid e r\<close>: an insert-or-update of the role row of \<open>e\<close>, then
  \<open>sync_user_role\<close>, i.e.\ \<open>UPDATE users SET role = r WHERE email = e\<close>.
  \<open>users_role_write n auid P r\<close>: \<open>UPDATE users SET role = r WHERE P\<close>, then, for every
  row whose role changed, \<open>sync_role_to_user_roles\<close>, i.e.\ the upsert of its e-mail.
  \<open>cascade_each\<close> fires the row triggers one after another.
\<close>

fun user_roles_write :: "nat \<Rightarrow> uid option \<Rightarrow> email_addr \<Rightarrow> role \<Rightarrow> db \<Rightarrow> db db_result"
and users_role_write :: "nat \<Rightarrow> uid option \<Rightarrow> (user_row \<Rightarrow> bool) \<Rightarrow> role \<Rightarrow> db \<Rightarrow> db db_result"
and cascade_each :: "nat \<Rightarrow> uid option \<Rightarrow> email_addr list \<Rightarrow> role \<Rightarrow> db \<Rightarrow> db db_result" where
  "user_roles_write 0 auid e r st = Inl ''stack depth limit exceeded''"
| "user_roles_write (Suc n) auid e r st =
     users_role_write n auid (\<lambda>u. email u = e) r (st\<lparr>user_roles := ur_upsert e r (user_roles st)\<rparr>)"
| "users_role_write 0 auid P r st = Inl ''stack depth limit exceeded''"
| "users_role_write (Suc n) auid P r st =
     (if self_role_change auid P r (users st) then Inl ''Users cannot change their own role''
      else cascade_each n auid (map email (filter (\<lambda>u. P u \<and> role u \<noteq> r) (users st))) r
             (st\<lparr>users := update_where P (\<lambda>u. u\<lparr>role := r\<rparr>) (users st)\<rparr>))"
| "cascade_each n auid [] r st = Inr st"
| "cascade_each n auid (e # es) r st =
     (case user_roles_write n auid e r st of
        Inl err \<Rightarrow> Inl err
      | Inr st' \<Rightarrow> cascade_each n auid es r st')"

text \<open>
  The fuel the model gives every statement the backend issues: the cascade of any single
  statement is at most four trigger levels deep (lemma \<open>user_roles_write_result\<close>).
\<close>

definition trigger_fuel :: nat where
  "trigger_fuel = 4"

text \<open>
  \<open>set_user_role\<close> (migration lines 142--150) and the Supabase \<open>upsert\<close> of a role row
  (\<open>users.js\<close> lines 54--59, 99--106): one upsert and its cascade, by the service role.
\<close>

definition set_user_role :: "email_addr \<Rightarrow> role \<Rightarrow> db \<Rightarrow> db db_result" where
  "set_user_role e r st = user_roles_write trigger_fuel None e r st"

text \<open>\<open>UPDATE users SET role = r WHERE P\<close> issued by the service role, with its cascade.\<close>

definition update_users_role :: "(user_row \<Rightarrow> bool) \<Rightarrow> role \<Rightarrow> db \<Rightarrow> db db_result" where
  "update_users_role P r st = users_role_write trigger_fuel None P r st"

text \<open>
  \<open>get_user_role\<close> (migration lines 123--139): the stored role of an e-mail, \<open>scholar\<close>
  when there is none.
\<close>

definition get_user_role :: "db \<Rightarrow> email_addr \<Rightarrow> role" where
  "get_user_role st e = (case role_by_email st e of Some r \<Rightarrow> r | None \<Rightarrow> Scholar)"

section \<open>Consistency of the two stores\<close>

text \<open>Every user's role is the role stored for its e-mail in \<open>user_roles\<close>.\<close>

definition roles_synced :: "db \<Rightarrow> bool" where
  "roles_synced st \<longleftrightarrow> (\<forall>u\<in>set (users st). role_by_email st (email u) = Some (role u))"

text \<open>The role store's own invariant: one row per e-mail, and the two stores agree.\<close>

definition role_store_ok :: "db \<Rightarrow> bool" where
  "role_store_ok st \<longleftrightarrow> distinct (map ur_email (user_roles st)) \<and> roles_synced st"

section \<open>Lemmas\<close>


lemma ur_upsert_idem: "ur_upsert e r (ur_upsert e r xs) = ur_upsert e r xs"
  by (induction xs) auto

lemma ur_upsert_filter_eq:
  "distinct (map ur_email xs) \<Longrightarrow>
   filter (\<lambda>x. ur_email x = e) (ur_upsert e r xs) = [\<lparr>ur_email = e, ur_role = r\<rparr>]"
proof (induction xs)
  case Nil
  then show ?case by simp
next
  case (Cons x xs)
  show ?case
  proof (cases "ur_email x = e")
    case True
    with Cons.prems have "\<forall>y\<in>set xs. ur_email y \<noteq> e" by (auto simp: image_iff)
    with True show ?thesis by (simp add: filter_empty_conv)
  next
    case False
    with Cons show ?thesis by simp
  qed
qed

lemma ur_upsert_filter_neq:
  "e' \<noteq> e \<Longrightarrow> filter (\<lambda>x. ur_email x = e') (ur_upsert e r xs) = filter (\<lambda>x. ur_email x = e') xs"
  by (induction xs) auto

lemma ur_upsert_emails: "set (map ur_email (ur_upsert e r xs)) = insert e (set (map ur_email xs))"
  by (induction xs) auto

lemma distinct_ur_upsert: "distinct (map ur_email xs) \<Longrightarrow> distinct (map ur_email (ur_upsert e r xs))"
proof (induction xs)
  case Nil
  then show ?case by simp
next
  case (Cons x xs)
  then show ?case using ur_upsert_emails [of e r xs] by auto
qed

lemma role_by_email_upsert:
  "distinct (map ur_email (user_roles st)) \<Longrightarrow>
   role_by_email (st\<lparr>user_roles := ur_upsert e r (user_roles st)\<rparr>) e' =
   (if e' = e then Some r else role_by_email st e')"
  by (simp add: role_by_email_def ur_upsert_filter_eq ur_upsert_filter_neq)

lemma update_role_noop:
  "\<forall>u\<in>set us. P u \<longrightarrow> role u = r \<Longrightarrow> update_where P (\<lambda>u. u\<lparr>role := r\<rparr>) us = us"
  by (induction us) auto

lemma self_role_change_None [simp]: "\<not> self_role_change None P r us"
  by (simp add: self_role_change_def)

lemma users_role_write_noop:
  "\<forall>u\<in>set (users st). P u \<longrightarrow> role u = r \<Longrightarrow> users_role_write (Suc n) None P r st = Inr st"
proof -
  assume h: "\<forall>u\<in>set (users st). P u \<longrightarrow> role u = r"
  then have "filter (\<lambda>u. P u \<and> role u \<noteq> r) (users st) = []" by (auto simp: filter_empty_conv)
  with h show ?thesis by (simp add: update_role_noop)
qed

lemma user_roles_write_noop:
  assumes "\<forall>u\<in>set (users st). email u = e \<longrightarrow> role u = r"
    and "ur_upsert e r (user_roles st) = user_roles st"
  shows "user_roles_write (Suc (Suc k)) None e r st = Inr st"
proof -
  have "user_roles_write (Suc (Suc k)) None e r st =
      users_role_write (Suc k) None (\<lambda>u. email u = e) r (st\<lparr>user_roles := ur_upsert e r (user_roles st)\<rparr>)"
    by (simp only: user_roles_write.simps)
  also have "st\<lparr>user_roles := ur_upsert e r (user_roles st)\<rparr> = st"
    using assms(2) by simp
  also have "users_role_write (Suc k) None (\<lambda>u. email u = e) r st = Inr st"
    using assms(1) by (rule users_role_write_noop)
  finally show ?thesis .
qed

lemma cascade_each_same:
  assumes "\<forall>e'\<in>set es. e' = e" and "\<forall>u\<in>set (users st). email u = e \<longrightarrow> role u = r"
    and "ur_upsert e r (user_roles st) = user_roles st"
  shows "cascade_each (Suc (Suc k)) None es r st = Inr st"
  using assms(1)
proof (induction es)
  case Nil
  then show ?case by simp
next
  case (Cons e' es)
  then have "e' = e" and "\<forall>e'\<in>set es. e' = e" by simp_all
  with user_roles_write_noop [OF assms(2,3)] Cons.IH show ?case by simp
qed

lemma update_role_email_synced:
  "\<forall>u\<in>set (update_where (\<lambda>u. email u = e) (\<lambda>u. u\<lparr>role := r\<rparr>) us). email u = e \<longrightarrow> role u = r"
  by (induction us) auto

lemma user_roles_write_result:
  "user_roles_write (Suc (Suc (Suc (Suc k)))) None e r st =
   Inr (st\<lparr>user_roles := ur_upsert e r (user_roles st),
           users := update_where (\<lambda>u. email u = e) (\<lambda>u. u\<lparr>role := r\<rparr>) (users st)\<rparr>)"
proof -
  let ?st1 = "st\<lparr>user_roles := ur_upsert e r (user_roles st)\<rparr>"
  let ?st2 = "?st1\<lparr>users := update_where (\<lambda>u. email u = e) (\<lambda>u. u\<lparr>role := r\<rparr>) (users ?st1)\<rparr>"
  let ?es = "map email (filter (\<lambda>u. email u = e \<and> role u \<noteq> r) (users ?st1))"
  have "user_roles_write (Suc (Suc (Suc (Suc k)))) None e r st =
      users_role_write (Suc (Suc (Suc k))) None (\<lambda>u. email u = e) r ?st1"
    by (simp only: user_roles_write.simps)
  also have "\<dots> = cascade_each (Suc (Suc k)) None ?es r ?st2"
    by (simp only: users_role_write.simps self_role_change_None if_False)
  also have "\<dots> = Inr ?st2"
  proof -
    have all: "\<forall>e'\<in>set ?es. e' = e" by auto
    have synced: "\<forall>u\<in>set (users ?st2). email u = e \<longrightarrow> role u = r"
      using update_role_email_synced by simp
    have idem: "ur_upsert e r (user_roles ?st2) = user_roles ?st2"
      by (simp add: ur_upsert_idem)
    from cascade_each_same [OF all synced idem] show ?thesis .
  qed
  finally show ?thesis by simp
qed


lemma set_user_role_result:
  "set_user_role e r st =
   Inr (st\<lparr>user_roles := ur_upsert e r (user_roles st),
           users := update_where (\<lambda>u. email u = e) (\<lambda>u. u\<lparr>role := r\<rparr>) (users st)\<rparr>)"
proof -
  have f: "trigger_fuel = Suc (Suc (Suc (Suc 0)))" by (simp add: trigger_fuel_def)
  show ?thesis unfolding set_user_role_def f by (rule user_roles_write_result)
qed

lemma update_users_role_noop:
  "\<forall>u\<in>set (users st). P u \<longrightarrow> role u = r \<Longrightarrow> update_users_role P r st = Inr st"
proof -
  assume h: "\<forall>u\<in>set (users st). P u \<longrightarrow> role u = r"
  have f: "trigger_fuel = Suc 3" by (simp add: trigger_fuel_def)
  show ?thesis unfolding update_users_role_def f by (rule users_role_write_noop [OF h])
qed

lemma role_update_keys [simp]:
  "map email (update_where P (\<lambda>u. u\<lparr>role := r\<rparr>) us) = map email us"
  "map user_id (update_where P (\<lambda>u. u\<lparr>role := r\<rparr>) us) = map user_id us"
  "map google_id (update_where P (\<lambda>u. u\<lparr>role := r\<rparr>) us) = map google_id us"
  by (simp_all add: map_update_where)

lemma set_user_role_ok:
  assumes ok: "role_store_ok st" and w: "set_user_role e r st = Inr st'"
  shows "role_store_ok st' \<and> role_by_email st' e = Some r \<and>
    (\<forall>u\<in>set (users st'). email u = e \<longrightarrow> role u = r) \<and>
    map email (users st') = map email (users st) \<and> map user_id (users st') = map user_id (users st) \<and>
    map google_id (users st') = map google_id (users st) \<and>
    slots st' = slots st \<and> next_id st' = next_id st"
proof -
  have st': "st' = st\<lparr>user_roles := ur_upsert e r (user_roles st),
      users := update_where (\<lambda>u. email u = e) (\<lambda>u. u\<lparr>role := r\<rparr>) (users st)\<rparr>"
    using w by (simp add: set_user_role_result)
  from ok have d: "distinct (map ur_email (user_roles st))" and sy: "roles_synced st"
    by (simp_all add: role_store_ok_def)
  have look: "role_by_email st' e' = (if e' = e then Some r else role_by_email st e')" for e'
    using role_by_email_upsert [OF d, of e r e'] by (simp add: st' role_by_email_def)
  have same: "\<forall>u\<in>set (users st'). email u = e \<longrightarrow> role u = r"
    using update_role_email_synced by (simp add: st')
  have "role_by_email st' (email u) = Some (role u)" if u: "u \<in> set (users st')" for u
  proof (cases "email u = e")
    case True
    with same u look show ?thesis by simp
  next
    case False
    have "u \<in> set (users st)"
      using update_where_unchanged [of "\<lambda>u. email u = e" "\<lambda>u. u\<lparr>role := r\<rparr>"] u False
      by (simp add: st')
    with sy False look show ?thesis by (simp add: roles_synced_def)
  qed
  then have "roles_synced st'" by (simp add: roles_synced_def)
  moreover have "distinct (map ur_email (user_roles st'))"
    using distinct_ur_upsert [OF d] by (simp add: st')
  ultimately show ?thesis using same look by (simp add: role_store_ok_def st')
qed

text \<open>
  Claim C17. The trigger cascade of a role write terminates: with four or more levels of
  fuel, writing the role \<open>r\<close> of \<open>e\<close> into \<open>user_roles\<close> returns, and its effect is
  exactly one upsert of the role row and one update of the users of that e-mail, whatever
  the fuel beyond four.
\<close>

theorem user_roles_write_enough:
  assumes "4 \<le> n"
  shows "user_roles_write n None e r st =
   Inr (st\<lparr>user_roles := ur_upsert e r (user_roles st),
           users := update_where (\<lambda>u. email u = e) (\<lambda>u. u\<lparr>role := r\<rparr>) (users st)\<rparr>)"
proof -
  from assms have f: "n = Suc (Suc (Suc (Suc (n - 4))))" by arith
  show ?thesis by (subst f) (rule user_roles_write_result)
qed

theorem user_roles_write_enough_witness:
  "user_roles_write 4 None ''a@x.org'' Faculty
     (empty_db\<lparr>users := [\<lparr>user_id = 0, email = ''a@x.org'', name = ''A'', picture = None,
        google_id = ''g'', role = Scholar\<rparr>], next_id := 1\<rparr>) =
   Inr (empty_db\<lparr>users := [\<lparr>user_id = 0, email = ''a@x.org'', name = ''A'', picture = None,
        google_id = ''g'', role = Faculty\<rparr>], user_roles := [\<lparr>ur_email = ''a@x.org'', ur_role = Faculty\<rparr>],
        next_id := 1\<rparr>)"
  using user_roles_write_enough [of 4 "''a@x.org''" Faculty
      "empty_db\<lparr>users := [\<lparr>user_id = 0, email = ''a@x.org'', name = ''A'', picture = None,
        google_id = ''g'', role = Scholar\<rparr>], next_id := 1\<rparr>"]
  by (simp add: empty_db_def)

lemma user_roles_write_three_short:
  "user_roles_write 3 None ''a@x.org'' Faculty
     (empty_db\<lparr>users := [\<lparr>user_id = 0, email = ''a@x.org'', name = ''A'', picture = None,
        google_id = ''g'', role = Scholar\<rparr>], next_id := 1\<rparr>) =
   Inl ''stack depth limit exceeded''"
  by (simp add: empty_db_def numeral_eq_Suc self_role_change_def)

end
