(* ===== verification/Gate.thy ===== *)
theory Gate
  imports Schema
begin

text \<open>
  The authorization gate. The backend's middleware \<open>authenticateToken\<close> and
  \<open>requireRole\<close> (\<open>backend/src/middleware/auth.js\<close>, imported by every router) is not
  among the repository's files under \<open>src/\<close>: it is modelled from the specification
  (section 4.2): the caller is the identity decoded from the JWT issued at login
  (\<open>users.js\<close> lines 272--276), and a route passes when the caller's role is one of
  the roles the route names. The frontend's route guard \<open>PrivateRoute\<close>
  (\<open>src/frontend/src/App.jsx\<close> lines 12--32) is modelled from its code.
\<close>

section \<open>The caller\<close>

text \<open>\<open>req.user\<close>: the claims \<open>{ userId, email, role }\<close> of the token.\<close>

record auth_user =
  au_id :: uid
  au_email :: email_addr
  au_role :: role

text \<open>\<open>jwt.sign({ userId: user.id, email: user.email, role: user.role }, ...)\<close>.\<close>

definition issue_token :: "user_row \<Rightarrow> auth_user" where
  "issue_token u = \<lparr>au_id = user_id u, au_email = email u, au_role = role u\<rparr>"

section \<open>requireRole\<close>

text \<open>\<open>requireRole(...roles)\<close>: 403 unless the token's role is one of \<open>roles\<close>.\<close>

definition require_role :: "role list \<Rightarrow> auth_user \<Rightarrow> unit response" where
  "require_role rs u =
     (if au_role u \<in> set rs then Inr () else Inl (Err403 ''Insufficient permissions''))"

text \<open>A handler behind the gate: the gate's refusal, or the handler's answer.\<close>

definition guarded :: "role list \<Rightarrow> auth_user \<Rightarrow> (unit \<Rightarrow> 'a response) \<Rightarrow> 'a response" where
  "guarded rs u h = (case require_role rs u of Inl err \<Rightarrow> Inl err | Inr _ \<Rightarrow> h ())"

section \<open>The frontend route guard\<close>

datatype route_outcome = Show_spinner | Redirect_to string | Render_page

text \<open>
  \<open>PrivateRoute({ children, allowedRoles })\<close>: a spinner while loading, the login page
  without a user, the dashboard when the user's role is not allowed, the page otherwise.
\<close>

definition private_route :: "bool \<Rightarrow> role option \<Rightarrow> role list option \<Rightarrow> route_outcome" where
  "private_route loading user allowed =
     (if loading then Show_spinner
      else case user of
        None \<Rightarrow> Redirect_to ''/login''
      | Some r \<Rightarrow>
          (case allowed of
             Some rs \<Rightarrow> if r \<notin> set rs then Redirect_to ''/dashboard'' else Render_page
           | None \<Rightarrow> Render_page))"

section \<open>Lemmas\<close>

lemma guarded_eq:
  "guarded rs u h = (if au_role u \<in> set rs then h () else Inl (Err403 ''Insufficient permissions''))"
  unfolding guarded_def require_role_def by simp

lemma guarded_Inr: "guarded rs u h = Inr v \<Longrightarrow> h () = Inr v"
  by (simp add: guarded_eq split: if_splits)

end
