(* ===== verification/Auth.thy ===== *)
theory Auth
  imports Role_Sync Gate
begin

text \<open>
  Sign-in, \<open>POST /auth/google\<close> (\<open>src/backend/src/routes/users.js\<close>, the auth router,
  lines 181--292). Google's verification of the ID token is external: its outcome is the
  argument \<open>pay\<close>, the verified payload or \<open>None\<close> when \<open>verifyIdToken\<close> throws. The
  handler reads the role of the e-mail from \<open>user_roles\<close>, creating a \<open>scholar\<close> row
  when there is none, then creates the user or refreshes its profile and role, and issues
  the token. Every statement goes through the trigger cascade of \<open>Role_Sync\<close>.
\<close>

record google_payload =
  g_email :: email_addr
  g_name :: string
  g_picture :: "string option"
  g_sub :: string

section \<open>Statements\<close>

text \<open>
  Lines 211--214: \<open>INSERT INTO user_roles (email, role)\<close>, a unique violation when the
  e-mail has a row; otherwise the insert fires \<open>sync_user_role\<close> as an upsert does.
\<close>

definition insert_user_role :: "email_addr \<Rightarrow> role \<Rightarrow> db \<Rightarrow> db db_result" where
  "insert_user_role e r st =
     (if \<exists>x\<in>set (user_roles st). ur_email x = e
      then Inl ''duplicate key value violates unique constraint''
      else user_roles_write trigger_fuel None e r st)"

text \<open>Lines 230--242: the new row; \<open>users.email\<close> and \<open>users.google_id\<close> are unique.\<close>

definition insert_user :: "google_payload \<Rightarrow> role \<Rightarrow> db \<Rightarrow> (db \<times> user_row) db_result" where
  "insert_user p r st =
     (if \<exists>u\<in>set (users st). email u = g_email p \<or> google_id u = g_sub p
      then Inl ''duplicate key value violates unique constraint''
      else
        (let u = \<lparr>user_id = next_id st, email = g_email p, name = g_name p,
                  picture = g_picture p, google_id = g_sub p, role = r\<rparr>
         in Inr (st\<lparr>users := users st @ [u], next_id := Suc (next_id st)\<rparr>, u)))"

text \<open>
  Lines 251--262: \<open>UPDATE users SET name, picture, google_id, role WHERE id\<close>; the
  profile columns first, then the role column with its trigger.
\<close>

definition update_login :: "uid \<Rightarrow> google_payload \<Rightarrow> role \<Rightarrow> db \<Rightarrow> db db_result" where
  "update_login i p r st =
     (if \<exists>u\<in>set (users st). user_id u \<noteq> i \<and> google_id u = g_sub p
      then Inl ''duplicate key value violates unique constraint''
      else update_users_role (\<lambda>u. user_id u = i) r
        (st\<lparr>users := update_where (\<lambda>u. user_id u = i)
            (\<lambda>u. u\<lparr>name := g_name p, picture := g_picture p, google_id := g_sub p\<rparr>) (users st)\<rparr>))"

section \<open>The handler\<close>

text \<open>
  Lines 199--215: the role of the e-mail, or \<open>scholar\<close> with a new row (the result of
  that insert is not checked by the code).
\<close>

definition login_role :: "email_addr \<Rightarrow> db \<Rightarrow> role \<times> db" where
  "login_role e st =
     (case role_by_email st e of
        Some r \<Rightarrow> (r, st)
      | None \<Rightarrow> (Scholar, case insert_user_role e Scholar st of Inl _ \<Rightarrow> st | Inr st' \<Rightarrow> st'))"

text \<open>
  The handler body (lines 182--291). The token argument is the request's \<open>token\<close>
  (\<open>None\<close> when absent; an empty string is falsy too).
\<close>

definition google_login ::
  "db \<Rightarrow> string option \<Rightarrow> google_payload option \<Rightarrow> (db \<times> user_row \<times> auth_user) response" where
  "google_login st tok pay =
     (if tok = None \<or> tok = Some [] then Inl (Err400 ''Token is required'')
      else case pay of
        None \<Rightarrow> Inl (Err500 ''Authentication failed'')
      | Some p \<Rightarrow>
          (let (r, st1) = login_role (g_email p) st
           in case user_by_email st1 (g_email p) of
                None \<Rightarrow>
                  (case insert_user p r st1 of
                     Inl _ \<Rightarrow> Inl (Err500 ''Authentication failed'')
                   | Inr (st2, u) \<Rightarrow> Inr (st2, u, issue_token u))
              | Some u \<Rightarrow>
                  (case update_login (user_id u) p r st1 of
                     Inl _ \<Rightarrow> Inl (Err500 ''Authentication failed'')
                   | Inr st2 \<Rightarrow>
                       (case user_by_id st2 (user_id u) of
                          None \<Rightarrow> Inl (Err500 ''Authentication failed'')
                        | Some u' \<Rightarrow> Inr (st2, u', issue_token u')))))"

section \<open>Lemmas\<close>

lemma role_by_email_None_iff:
  assumes "distinct (map ur_email (user_roles st))"
  shows "role_by_email st e = None \<longleftrightarrow> (\<forall>x\<in>set (user_roles st). ur_email x \<noteq> e)"
proof
  assume none: "role_by_email st e = None"
  show "\<forall>x\<in>set (user_roles st). ur_email x \<noteq> e"
  proof (intro ballI notI)
    fix x assume x: "x \<in> set (user_roles st)" and xe: "ur_email x = e"
    from role_by_email_Some [OF assms x] xe none show False by simp
  qed
next
  assume "\<forall>x\<in>set (user_roles st). ur_email x \<noteq> e"
  then show "role_by_email st e = None" by (rule role_by_email_None)
qed

lemma profile_update_keys [simp]:
  "map email (update_where P (\<lambda>u. u\<lparr>name := a, picture := b, google_id := c\<rparr>) us) = map email us"
  "map user_id (update_where P (\<lambda>u. u\<lparr>name := a, picture := b, google_id := c\<rparr>) us) = map user_id us"
  "map role (update_where P (\<lambda>u. u\<lparr>name := a, picture := b, google_id := c\<rparr>) us) = map role us"
  by (rule map_update_where, simp)+

lemma role_by_email_users [simp]: "role_by_email (st\<lparr>users := us\<rparr>) e = role_by_email st e"
  by (simp add: role_by_email_def)

lemma roles_synced_users_cong:
  assumes sy: "roles_synced st"
    and eq: "map (\<lambda>u. (email u, role u)) us = map (\<lambda>u. (email u, role u)) (users st)"
  shows "roles_synced (st\<lparr>users := us\<rparr>)"
  unfolding roles_synced_def
proof
  fix u assume "u \<in> set (users (st\<lparr>users := us\<rparr>))"
  then have "(email u, role u) \<in> set (map (\<lambda>u. (email u, role u)) us)" by simp
  then have "(email u, role u) \<in> set (map (\<lambda>u. (email u, role u)) (users st))" by (simp only: eq)
  then obtain v where "v \<in> set (users st)" and "email u = email v" and "role u = role v" by auto
  with sy show "role_by_email (st\<lparr>users := us\<rparr>) (email u) = Some (role u)"
    by (simp add: roles_synced_def)
qed

lemma login_role_ok:
  assumes ok: "role_store_ok st" and lr: "login_role e st = (r, st1)"
  shows "role_store_ok st1 \<and> role_by_email st1 e = Some r \<and>
    (\<forall>u\<in>set (users st1). email u = e \<longrightarrow> role u = r) \<and>
    map email (users st1) = map email (users st) \<and> map user_id (users st1) = map user_id (users st) \<and>
    map google_id (users st1) = map google_id (users st) \<and>
    slots st1 = slots st \<and> next_id st1 = next_id st"
proof (cases "role_by_email st e")
  case (Some r')
  with lr have "r = r'" and "st1 = st" by (simp_all add: login_role_def)
  moreover have "\<forall>u\<in>set (users st). email u = e \<longrightarrow> role u = r'"
    using ok Some by (auto simp: role_store_ok_def roles_synced_def)
  ultimately show ?thesis using ok Some by simp
next
  case None
  with ok have none: "\<forall>x\<in>set (user_roles st). ur_email x \<noteq> e"
    by (simp add: role_store_ok_def role_by_email_None_iff)
  then have ins: "insert_user_role e Scholar st = set_user_role e Scholar st"
    by (simp add: insert_user_role_def set_user_role_def)
  obtain st' where s: "set_user_role e Scholar st = Inr st'"
    by (simp add: set_user_role_result)
  from None lr ins s have "r = Scholar" and "st1 = st'" by (simp_all add: login_role_def)
  with set_user_role_ok [OF ok s] show ?thesis by simp
qed

lemma insert_user_ok:
  assumes ok: "role_store_ok st" and look: "role_by_email st (g_email p) = Some r"
    and ins: "insert_user p r st = Inr (st', u)"
  shows "role_store_ok st' \<and> u \<in> set (users st') \<and> email u = g_email p \<and> role u = r \<and>
    user_roles st' = user_roles st \<and> slots st' = slots st"
proof -
  from ins have st': "st' = st\<lparr>users := users st @ [u], next_id := Suc (next_id st)\<rparr>"
    and u: "u = \<lparr>user_id = next_id st, email = g_email p, name = g_name p,
                  picture = g_picture p, google_id = g_sub p, role = r\<rparr>"
    by (auto simp: insert_user_def Let_def split: if_splits)
  have "roles_synced st'"
    using ok look by (auto simp: st' u role_store_ok_def roles_synced_def role_by_email_def)
  with ok show ?thesis by (simp add: role_store_ok_def st' u)
qed

lemma update_login_ok:
  assumes ok: "role_store_ok st" and ids: "distinct (map user_id (users st))"
    and v: "v \<in> set (users st)" and vr: "role v = r"
    and upd: "update_login (user_id v) p r st = Inr st'"
  shows "role_store_ok st' \<and> map email (users st') = map email (users st) \<and>
    map user_id (users st') = map user_id (users st) \<and> user_roles st' = user_roles st \<and>
    slots st' = slots st \<and> next_id st' = next_id st"
proof -
  let ?us = "update_where (\<lambda>u. user_id u = user_id v)
      (\<lambda>u. u\<lparr>name := g_name p, picture := g_picture p, google_id := g_sub p\<rparr>) (users st)"
  have w: "update_users_role (\<lambda>u. user_id u = user_id v) r (st\<lparr>users := ?us\<rparr>) = Inr st'"
    using upd by (simp add: update_login_def split: if_splits)
  have "\<forall>u\<in>set ?us. user_id u = user_id v \<longrightarrow> role u = r"
  proof (intro ballI impI)
    fix u assume u: "u \<in> set ?us" and uid: "user_id u = user_id v"
    then obtain w where "w \<in> set (users st)" and "user_id w = user_id v" and "role u = role w"
      by (auto simp: update_where_def split: if_splits)
    with v ids vr show "role u = r" using distinct_key_eq [of user_id "users st" w v] by simp
  qed
  then have "st' = st\<lparr>users := ?us\<rparr>" using w by (simp add: update_users_role_noop)
  moreover have "map (\<lambda>u. (email u, role u)) ?us = map (\<lambda>u. (email u, role u)) (users st)"
    by (simp add: map_update_where)
  ultimately show ?thesis using ok roles_synced_users_cong [of st ?us]
    by (simp add: role_store_ok_def)
qed

lemma google_login_cases:
  assumes "google_login st tok (Some p) = Inr (st', u, tk)"
  obtains r st1 where "login_role (g_email p) st = (r, st1)" and "tok \<noteq> None" and "tok \<noteq> Some []"
    and "tk = issue_token u"
    and "(user_by_email st1 (g_email p) = None \<and> insert_user p r st1 = Inr (st', u)) \<or>
         (\<exists>v. user_by_email st1 (g_email p) = Some v \<and> update_login (user_id v) p r st1 = Inr st' \<and>
              user_by_id st' (user_id v) = Some u)"
proof -
  obtain r st1 where lr: "login_role (g_email p) st = (r, st1)" by (cases "login_role (g_email p) st")
  have tok: "tok \<noteq> None \<and> tok \<noteq> Some []"
    using assms by (auto simp: google_login_def split: if_splits)
  show ?thesis
  proof (cases "user_by_email st1 (g_email p)")
    case None
    then show ?thesis using assms lr tok that
      by (auto simp: google_login_def split: sum.splits prod.splits)
  next
    case (Some v)
    then show ?thesis using assms lr tok that
      by (auto simp: google_login_def split: sum.splits option.splits)
  qed
qed

lemma login_role_fresh:
  assumes ok: "role_store_ok st" and lr: "login_role e st = (r, st1)"
    and fresh: "\<forall>u\<in>set (users st). email u \<noteq> e' \<and> google_id u \<noteq> g"
  shows "\<forall>u\<in>set (users st1). email u \<noteq> e' \<and> google_id u \<noteq> g"
proof
  note l = login_role_ok [OF ok lr]
  have e1: "set (map email (users st1)) = set (map email (users st))" using l by simp
  have g1: "set (map google_id (users st1)) = set (map google_id (users st))" using l by simp
  fix u assume u: "u \<in> set (users st1)"
  have a: "email u \<in> set (map email (users st1))" and b: "google_id u \<in> set (map google_id (users st1))"
    using u by simp_all
  have "email u \<in> set (map email (users st))" by (subst e1 [symmetric]) (rule a)
  moreover have "google_id u \<in> set (map google_id (users st))" by (subst g1 [symmetric]) (rule b)
  ultimately show "email u \<noteq> e' \<and> google_id u \<noteq> g" using fresh by auto
qed

lemma google_login_fresh:
  assumes ok: "role_store_ok st" and lr: "login_role (g_email p) st = (r, st1)"
    and fresh: "\<forall>u\<in>set (users st). email u \<noteq> g_email p \<and> google_id u \<noteq> g_sub p"
    and tok: "tok = Some t" and t: "t \<noteq> []"
  shows "google_login st tok (Some p) =
    Inr (st1\<lparr>users := users st1 @ [\<lparr>user_id = next_id st1, email = g_email p, name = g_name p,
                  picture = g_picture p, google_id = g_sub p, role = r\<rparr>], next_id := Suc (next_id st1)\<rparr>,
         \<lparr>user_id = next_id st1, email = g_email p, name = g_name p,
                  picture = g_picture p, google_id = g_sub p, role = r\<rparr>,
         issue_token \<lparr>user_id = next_id st1, email = g_email p, name = g_name p,
                  picture = g_picture p, google_id = g_sub p, role = r\<rparr>)"
proof -
  have fr1: "\<forall>u\<in>set (users st1). email u \<noteq> g_email p \<and> google_id u \<noteq> g_sub p"
    by (rule login_role_fresh [OF ok lr fresh])
  then have none: "user_by_email st1 (g_email p) = None" by (simp add: user_by_email_None)
  have ins: "insert_user p r st1 =
      Inr (st1\<lparr>users := users st1 @ [\<lparr>user_id = next_id st1, email = g_email p, name = g_name p,
                  picture = g_picture p, google_id = g_sub p, role = r\<rparr>], next_id := Suc (next_id st1)\<rparr>,
         \<lparr>user_id = next_id st1, email = g_email p, name = g_name p,
                  picture = g_picture p, google_id = g_sub p, role = r\<rparr>)"
    using fr1 by (auto simp: insert_user_def Let_def)
  show ?thesis using lr none ins tok t by (simp add: google_login_def)
qed

text \<open>A first sign-in on the empty database, computed.\<close>

lemma login_run:
  "google_login empty_db (Some ''t'') (Some \<lparr>g_email = ''a@x.org'', g_name = ''A'', g_picture = None, g_sub = ''g1''\<rparr>) =
   Inr (\<lparr>users = [\<lparr>user_id = 0, email = ''a@x.org'', name = ''A'', picture = None, google_id = ''g1'', role = Scholar\<rparr>],
         user_roles = [\<lparr>ur_email = ''a@x.org'', ur_role = Scholar\<rparr>], slots = [], next_id = 1\<rparr>,
        \<lparr>user_id = 0, email = ''a@x.org'', name = ''A'', picture = None, google_id = ''g1'', role = Scholar\<rparr>,
        \<lparr>au_id = 0, au_email = ''a@x.org'', au_role = Scholar\<rparr>)"
  by code_simp

text \<open>What a successful sign-in answers, and the role stores after it.\<close>

lemma google_login_sound:
  assumes ok: "role_store_ok st" and ids: "distinct (map user_id (users st))"
    and h: "google_login st tok (Some p) = Inr (st', u, tk)"
  shows "role_store_ok st' \<and> tk = issue_token u \<and> u \<in> set (users st') \<and>
    email u = g_email p \<and> role_by_email st' (g_email p) = Some (role u)"
proof -
  obtain r st1 where lr: "login_role (g_email p) st = (r, st1)" and tk: "tk = issue_token u"
    and br: "(user_by_email st1 (g_email p) = None \<and> insert_user p r st1 = Inr (st', u)) \<or>
         (\<exists>v. user_by_email st1 (g_email p) = Some v \<and> update_login (user_id v) p r st1 = Inr st' \<and>
              user_by_id st' (user_id v) = Some u)"
    using h by (rule google_login_cases)
  note l = login_role_ok [OF ok lr]
  from l ids have ids1: "distinct (map user_id (users st1))" by simp
  from br show ?thesis
  proof
    assume a: "user_by_email st1 (g_email p) = None \<and> insert_user p r st1 = Inr (st', u)"
    from l have "role_store_ok st1" and "role_by_email st1 (g_email p) = Some r" by simp_all
    from insert_user_ok [OF this a [THEN conjunct2]] tk show ?thesis
      by (auto simp: role_store_ok_def roles_synced_def)
  next
    assume "\<exists>v. user_by_email st1 (g_email p) = Some v \<and> update_login (user_id v) p r st1 = Inr st' \<and>
              user_by_id st' (user_id v) = Some u"
    then obtain v where v: "user_by_email st1 (g_email p) = Some v"
      and upd: "update_login (user_id v) p r st1 = Inr st'" and u: "user_by_id st' (user_id v) = Some u"
      by blast
    from user_by_email_SomeD [OF v] have vin: "v \<in> set (users st1)" and ve: "email v = g_email p" by simp_all
    with l have vr: "role v = r" by simp
    note o = update_login_ok [OF l [THEN conjunct1] ids1 vin vr upd]
    from user_by_id_SomeD [OF u] have uin: "u \<in> set (users st')" and uid: "user_id u = user_id v" by simp_all
    have "email u = email v"
    proof -
      obtain i j where "i < length (users st')" "users st' ! i = u" "j < length (users st1)" "users st1 ! j = v"
        using uin vin by (meson in_set_conv_nth)
      moreover have "map user_id (users st') = map user_id (users st1)" using o by simp
      moreover have "map email (users st') = map email (users st1)" using o by simp
      ultimately show ?thesis using uid ids1
        by (metis length_map nth_eq_iff_index_eq nth_map)
    qed
    with ve have ue: "email u = g_email p" by simp
    from o uin ue tk show ?thesis by (auto simp: role_store_ok_def roles_synced_def)
  qed
qed

lemma insert_user_Inr:
  "insert_user p r st = Inr (st', u) \<Longrightarrow>
   (\<forall>v\<in>set (users st). email v \<noteq> g_email p) \<and>
   u = \<lparr>user_id = next_id st, email = g_email p, name = g_name p,
         picture = g_picture p, google_id = g_sub p, role = r\<rparr> \<and>
   st' = st\<lparr>users := users st @ [u], next_id := Suc (next_id st)\<rparr>"
  by (auto simp: insert_user_def Let_def split: if_splits)

lemma insert_user_keys:
  assumes k: "keys_ok st" and ins: "insert_user p r st = Inr (st', u)"
  shows "keys_ok st'"
proof -
  note i = insert_user_Inr [OF ins]
  have "next_id st \<notin> set (map user_id (users st))" using k by (auto simp: keys_ok_def)
  moreover have "g_email p \<notin> set (map email (users st))" using i by auto
  ultimately show ?thesis using k i by (auto simp: keys_ok_def)
qed

lemma google_login_keys:
  assumes ok: "role_store_ok st" and k: "keys_ok st"
    and h: "google_login st tok (Some p) = Inr (st', u, tk)"
  shows "keys_ok st' \<and> slots st' = slots st"
proof -
  obtain r st1 where lr: "login_role (g_email p) st = (r, st1)"
    and br: "(user_by_email st1 (g_email p) = None \<and> insert_user p r st1 = Inr (st', u)) \<or>
         (\<exists>v. user_by_email st1 (g_email p) = Some v \<and> update_login (user_id v) p r st1 = Inr st' \<and>
              user_by_id st' (user_id v) = Some u)"
    using h by (rule google_login_cases)
  note l = login_role_ok [OF ok lr]
  have k1: "keys_ok st1"
    by (rule keys_ok_cong [OF k]) (use l in \<open>simp_all add: role_store_ok_def\<close>)
  from br show ?thesis
  proof
    assume "user_by_email st1 (g_email p) = None \<and> insert_user p r st1 = Inr (st', u)"
    then have ins: "insert_user p r st1 = Inr (st', u)" by simp
    from insert_user_keys [OF k1 ins] insert_user_Inr [OF ins] l show ?thesis by simp
  next
    assume "\<exists>v. user_by_email st1 (g_email p) = Some v \<and> update_login (user_id v) p r st1 = Inr st' \<and>
              user_by_id st' (user_id v) = Some u"
    then obtain v where v: "user_by_email st1 (g_email p) = Some v"
      and upd: "update_login (user_id v) p r st1 = Inr st'" by blast
    from user_by_email_SomeD [OF v] have vin: "v \<in> set (users st1)" and ve: "email v = g_email p" by simp_all
    with l have vr: "role v = r" by simp
    have ids1: "distinct (map user_id (users st1))" using k1 by (simp add: keys_ok_def)
    note o = update_login_ok [OF l [THEN conjunct1] ids1 vin vr upd]
    have "keys_ok st'"
      by (rule keys_ok_cong [OF k1]) (use o k1 in \<open>simp_all add: keys_ok_def\<close>)
    with o l show ?thesis by simp
  qed
qed

text \<open>
  Claim C24. Signing in keeps the database consistent: from a state with one role row per
  e-mail, every user's role equal to its e-mail's row, and unique user ids, e-mails and slot
  ids below the id counter, a successful sign-in leaves such a state with the slot table
  untouched, answers a stored user with the payload's e-mail whose role is the role stored
  for that e-mail, and issues the token of exactly that user.
\<close>

theorem google_login_ok:
  assumes ok: "role_store_ok st" and k: "keys_ok st"
    and h: "google_login st tok (Some p) = Inr (st', u, tk)"
  shows "role_store_ok st' \<and> keys_ok st' \<and> slots st' = slots st \<and> tk = issue_token u \<and>
    u \<in> set (users st') \<and> email u = g_email p \<and> role_by_email st' (g_email p) = Some (role u)"
proof -
  have ids: "distinct (map user_id (users st))" using k by (simp add: keys_ok_def)
  from google_login_sound [OF ok ids h] google_login_keys [OF ok k h] show ?thesis by simp
qed

theorem google_login_ok_witness:
  "role_store_ok empty_db \<and>
   google_login empty_db (Some ''t'') (Some \<lparr>g_email = ''a@x.org'', g_name = ''A'', g_picture = None, g_sub = ''g1''\<rparr>) =
   Inr (\<lparr>users = [\<lparr>user_id = 0, email = ''a@x.org'', name = ''A'', picture = None, google_id = ''g1'', role = Scholar\<rparr>],
         user_roles = [\<lparr>ur_email = ''a@x.org'', ur_role = Scholar\<rparr>], slots = [], next_id = 1\<rparr>,
        \<lparr>user_id = 0, email = ''a@x.org'', name = ''A'', picture = None, google_id = ''g1'', role = Scholar\<rparr>,
        \<lparr>au_id = 0, au_email = ''a@x.org'', au_role = Scholar\<rparr>) \<and>
   role_by_email \<lparr>users = [\<lparr>user_id = 0, email = ''a@x.org'', name = ''A'', picture = None, google_id = ''g1'', role = Scholar\<rparr>],
         user_roles = [\<lparr>ur_email = ''a@x.org'', ur_role = Scholar\<rparr>], slots = [], next_id = 1\<rparr> ''a@x.org'' = Some Scholar \<and>
   role_store_ok \<lparr>users = [\<lparr>user_id = 0, email = ''a@x.org'', name = ''A'', picture = None, google_id = ''g1'', role = Scholar\<rparr>],
         user_roles = [\<lparr>ur_email = ''a@x.org'', ur_role = Scholar\<rparr>], slots = [], next_id = 1\<rparr>"
proof -
  have ok: "role_store_ok empty_db" by (simp add: role_store_ok_def roles_synced_def empty_db_def)
  have k: "keys_ok empty_db" by (simp add: keys_ok_def empty_db_def)
  note r = google_login_ok [OF ok k login_run]
  from ok r login_run show ?thesis by (simp add: issue_token_def)
qed

text \<open>
  Claim C23. A first sign-in defaults to the scholar role: when the verified e-mail has neither
  a role row nor a user row (and its Google id is unused), the sign-in succeeds, creates a
  \<open>scholar\<close> role row and stores a user with that e-mail and role \<open>scholar\<close>, and keeps the
  stores consistent.
\<close>

theorem google_login_new_scholar:
  assumes ok: "role_store_ok st" and norow: "\<forall>x\<in>set (user_roles st). ur_email x \<noteq> g_email p"
    and fresh: "\<forall>u\<in>set (users st). email u \<noteq> g_email p \<and> google_id u \<noteq> g_sub p"
    and tok: "tok = Some t" and t: "t \<noteq> []"
  shows "\<exists>st' u. google_login st tok (Some p) = Inr (st', u, issue_token u) \<and>
    u \<in> set (users st') \<and> email u = g_email p \<and>
    role u = Scholar \<and> role_by_email st' (g_email p) = Some Scholar \<and> role_store_ok st'"
proof -
  obtain r st1 where lr: "login_role (g_email p) st = (r, st1)" by (cases "login_role (g_email p) st")
  from ok norow have "role_by_email st (g_email p) = None" by (simp add: role_by_email_None)
  with lr have r: "r = Scholar" by (simp add: login_role_def split: sum.splits)
  note run = google_login_fresh [OF ok lr fresh tok t]
  note l = login_role_ok [OF ok lr]
  let ?u = "\<lparr>user_id = next_id st1, email = g_email p, name = g_name p,
                  picture = g_picture p, google_id = g_sub p, role = r\<rparr>"
  let ?st' = "st1\<lparr>users := users st1 @ [?u], next_id := Suc (next_id st1)\<rparr>"
  have ins: "insert_user p r st1 = Inr (?st', ?u)"
  proof -
    have "\<forall>u\<in>set (users st1). email u \<noteq> g_email p \<and> google_id u \<noteq> g_sub p"
      by (rule login_role_fresh [OF ok lr fresh])
    then show ?thesis by (auto simp: insert_user_def Let_def)
  qed
  from l have "role_store_ok st1" and "role_by_email st1 (g_email p) = Some r" by simp_all
  note i = insert_user_ok [OF this ins]
  have "role_by_email ?st' (g_email p) = Some r"
    using l by (simp add: role_by_email_def)
  with run i r show ?thesis by auto
qed

theorem google_login_new_scholar_witness:
  "\<exists>st' u. google_login empty_db (Some ''t'') (Some \<lparr>g_email = ''a@x.org'', g_name = ''A'', g_picture = None, g_sub = ''g1''\<rparr>) =
      Inr (st', u, issue_token u) \<and> u \<in> set (users st') \<and> email u = ''a@x.org'' \<and>
      role u = Scholar \<and> role_by_email st' ''a@x.org'' = Some Scholar \<and> role_store_ok st'"
  using google_login_new_scholar [of empty_db "\<lparr>g_email = ''a@x.org'', g_name = ''A'', g_picture = None, g_sub = ''g1''\<rparr>" "Some ''t''" "''t''"]
  by (simp add: role_store_ok_def roles_synced_def empty_db_def)

end
