(* ===== verification/Admin.thy ===== *)
theory Admin
  imports Role_Sync Gate "HOL-Library.List_Lexorder" "HOL-Library.Char_ord"
begin

text \<open>
  The users router (\<open>src/backend/src/routes/users.js\<close> lines 1--171): the two admin
  operations that change roles, \<open>PATCH /users/:userId/role\<close> (lines 28--78) and
  \<open>POST /users/roles/email\<close> (lines 81--134), and the faculty listing
  (lines 154--169). Each role change writes \<open>user_roles\<close> first and then
  \<open>users\<close>, both through the trigger cascade of \<open>Role_Sync\<close>. The request body's
  fields are \<open>None\<close> when absent.
\<close>

section \<open>Changing a user's role by id\<close>

text \<open>
  The handler body of \<open>PATCH /:userId/role\<close>: the role check, the self-change guard,
  the target's e-mail, the upsert of its role row, the update of its user row, the answer.
\<close>

definition update_user_role ::
  "db \<Rightarrow> auth_user \<Rightarrow> uid \<Rightarrow> string option \<Rightarrow> (db \<times> user_row) response" where
  "update_user_role st caller target role_in =
     (case Option.bind role_in parse_role of
        None \<Rightarrow> Inl (Err400 ''Invalid role'')
      | Some r \<Rightarrow>
          if target = au_id caller then Inl (Err403 ''Cannot change your own role'')
          else case user_by_id st target of
            None \<Rightarrow> Inl (Err404 ''User not found'')
          | Some t \<Rightarrow>
              (case set_user_role (email t) r st of
                 Inl _ \<Rightarrow> Inl (Err500 ''Failed to update user role'')
               | Inr st1 \<Rightarrow>
                   (case update_users_role (\<lambda>u. user_id u = target) r st1 of
                      Inl _ \<Rightarrow> Inl (Err500 ''Failed to update user role'')
                    | Inr st2 \<Rightarrow>
                        (case user_by_id st2 target of
                           None \<Rightarrow> Inl (Err500 ''Failed to update user role'')
                         | Some u \<Rightarrow> Inr (st2, u)))))"

section \<open>Assigning a role by e-mail\<close>

text \<open>
  The handler body of \<open>POST /roles/email\<close>. The answer carries the stored e-mail and role
  and whether a user with that e-mail existed. The update of the user row (lines
  117--122) is awaited but its error is not checked.
\<close>

definition set_role_by_email ::
  "db \<Rightarrow> auth_user \<Rightarrow> string option \<Rightarrow> string option \<Rightarrow>
   (db \<times> email_addr \<times> role \<times> bool) response" where
  "set_role_by_email st caller email_in role_in =
     (case (email_in, role_in) of
        (Some e, Some rs) \<Rightarrow>
          if e = [] \<or> rs = [] then Inl (Err400 ''Email and role are required'')
          else (case parse_role rs of
            None \<Rightarrow> Inl (Err400 ''Invalid role'')
          | Some r \<Rightarrow>
              if e = au_email caller then Inl (Err403 ''Cannot change your own role'')
              else case set_user_role e r st of
                Inl _ \<Rightarrow> Inl (Err500 ''Failed to set role'')
              | Inr st1 \<Rightarrow>
                  (case user_by_email st1 e of
                     None \<Rightarrow> Inr (st1, e, r, False)
                   | Some _ \<Rightarrow>
                       (case update_users_role (\<lambda>u. email u = e) r st1 of
                          Inl _ \<Rightarrow> Inr (st1, e, r, True)
                        | Inr st2 \<Rightarrow> Inr (st2, e, r, True))))
      | _ \<Rightarrow> Inl (Err400 ''Email and role are required''))"

section \<open>Listing faculties\<close>

text \<open>\<open>.from('users').select(...).eq('role', 'faculty').order('name')\<close>.\<close>

definition list_faculties :: "db \<Rightarrow> user_row list" where
  "list_faculties st = sort_key name (filter (\<lambda>u. role u = Faculty) (users st))"

section \<open>Listings\<close>

text \<open>
  \<open>GET /users\<close> (lines 11--25) and \<open>GET /users/roles\<close> (lines 137--151), ordered by
  \<open>created_at\<close> descending. Rows are appended when created and updated in place, so the
  order of creation is the order of the table and the listing is its reverse.
\<close>

definition list_users :: "db \<Rightarrow> user_row list" where
  "list_users st = rev (users st)"

definition list_roles :: "db \<Rightarrow> role_row list" where
  "list_roles st = rev (user_roles st)"

section \<open>Lemmas\<close>


lemma role_update_origin:
  "u \<in> set (update_where P (\<lambda>u. u\<lparr>role := r\<rparr>) us) \<Longrightarrow>
   \<exists>v\<in>set us. email u = email v \<and> user_id u = user_id v"
  by (induction us) (auto split: if_splits)

lemma update_user_role_Inr:
  assumes "update_user_role st caller target role_in = Inr (st', u)"
  obtains r t st1 where "Option.bind role_in parse_role = Some r" and "target \<noteq> au_id caller"
    and "user_by_id st target = Some t" and "set_user_role (email t) r st = Inr st1"
    and "update_users_role (\<lambda>u. user_id u = target) r st1 = Inr st'"
    and "user_by_id st' target = Some u"
  using assms
  by (auto simp: update_user_role_def split: option.splits if_splits sum.splits)

lemma set_user_role_keys:
  assumes ok: "role_store_ok st" and k: "keys_ok st" and w: "set_user_role e r st = Inr st1"
  shows "role_store_ok st1 \<and> keys_ok st1 \<and> slots st1 = slots st \<and>
    (\<forall>u\<in>set (users st1). email u = e \<longrightarrow> role u = r) \<and>
    map email (users st1) = map email (users st) \<and> map user_id (users st1) = map user_id (users st)"
proof -
  note o = set_user_role_ok [OF ok w]
  have "keys_ok st1"
    by (rule keys_ok_cong [OF k]) (use o in \<open>simp_all add: role_store_ok_def\<close>)
  with o show ?thesis by simp
qed

lemma update_user_role_store:
  assumes ok: "role_store_ok st" and k: "keys_ok st"
    and h: "update_user_role st caller target role_in = Inr (st', u)"
  shows "role_store_ok st' \<and> keys_ok st' \<and> slots st' = slots st"
proof -
  obtain r t st1 where t: "user_by_id st target = Some t" and w: "set_user_role (email t) r st = Inr st1"
    and upd: "update_users_role (\<lambda>u. user_id u = target) r st1 = Inr st'"
    using h by (rule update_user_role_Inr)
  note o = set_user_role_keys [OF ok k w]
  from user_by_id_SomeD [OF t] have tin: "t \<in> set (users st)" and tid: "user_id t = target" by simp_all
  have "\<forall>v\<in>set (users st1). user_id v = target \<longrightarrow> role v = r"
  proof (intro ballI impI)
    fix v assume vin: "v \<in> set (users st1)" and vid: "user_id v = target"
    have "email v = email t"
      by (rule map_key_transfer [of user_id _ "users st" email]) (use o k vin tin vid tid in \<open>simp_all add: keys_ok_def\<close>)
    with o vin show "role v = r" by simp
  qed
  then have "update_users_role (\<lambda>u. user_id u = target) r st1 = Inr st1" by (rule update_users_role_noop)
  with upd o show ?thesis by simp
qed

lemma set_role_by_email_store:
  assumes ok: "role_store_ok st" and k: "keys_ok st"
    and h: "set_role_by_email st caller e_in r_in = Inr (st', e, r, b)"
  shows "role_store_ok st' \<and> keys_ok st' \<and> slots st' = slots st"
proof -
  obtain st1 where w: "set_user_role e r st = Inr st1"
    and st': "st' = st1 \<or> update_users_role (\<lambda>u. email u = e) r st1 = Inr st'"
    using h by (auto simp: set_role_by_email_def split: option.splits if_splits sum.splits prod.splits)
  note o = set_user_role_keys [OF ok k w]
  have "update_users_role (\<lambda>u. email u = e) r st1 = Inr st1"
    by (rule update_users_role_noop) (use o in simp)
  with st' o show ?thesis by auto
qed

lemma set_role_by_email_fresh:
  assumes ok: "role_store_ok st" and ne: "e \<noteq> []" and notme: "e \<noteq> au_email a"
    and fresh: "\<forall>u\<in>set (users st). email u \<noteq> e"
  shows "\<exists>st1. set_role_by_email st a (Some e) (Some (role_name r)) = Inr (st1, e, r, False) \<and>
    set_user_role e r st = Inr st1"
proof -
  obtain st1 where w: "set_user_role e r st = Inr st1" using set_user_role_result by blast
  note o = set_user_role_ok [OF ok w]
  have "\<forall>u\<in>set (users st1). email u \<noteq> e"
  proof
    fix u assume "u \<in> set (users st1)"
    then have "email u \<in> set (map email (users st))" using o by (metis list.set_map imageI)
    with fresh show "email u \<noteq> e" by auto
  qed
  then have "user_by_email st1 e = None" by (rule user_by_email_None)
  with w ne notme show ?thesis by (simp add: set_role_by_email_def)
qed

text \<open>
  Claim C6. No caller can change its own role: for every valid role string, the change by
  id of the caller's own id is refused with 403, and so is the assignment by e-mail of the
  caller's own (non-empty) e-mail; both refusals come before any row is read or written.
\<close>

theorem self_role_change_forbidden:
  assumes "parse_role rs = Some r"
  shows "update_user_role st caller (au_id caller) (Some rs) = Inl (Err403 ''Cannot change your own role'') \<and>
         set_role_by_email st caller (Some (au_email caller)) (Some rs) =
           (if au_email caller = [] then Inl (Err400 ''Email and role are required'')
            else Inl (Err403 ''Cannot change your own role''))"
proof -
  from assms have "rs \<noteq> []" by (auto simp: parse_role_def split: if_splits)
  with assms show ?thesis by (simp add: update_user_role_def set_role_by_email_def)
qed

theorem self_role_change_forbidden_witness:
  "update_user_role empty_db (\<lparr>au_id = 0, au_email = ''root@x.org'', au_role = Admin\<rparr>) 0 (Some ''admin'') = Inl (Err403 ''Cannot change your own role'') \<and>
   set_role_by_email empty_db (\<lparr>au_id = 0, au_email = ''root@x.org'', au_role = Admin\<rparr>) (Some ''root@x.org'') (Some ''admin'') = Inl (Err403 ''Cannot change your own role'')"
  using self_role_change_forbidden [of "''admin''" Admin empty_db "\<lparr>au_id = 0, au_email = ''root@x.org'', au_role = Admin\<rparr>"]
  by (simp add: parse_role_def)

text \<open>
  Claim C16. Changing a user's role by id keeps the two role stores consistent: from a state
  with one role row per e-mail, every user's role equal to its e-mail's row and distinct user
  ids, a successful \<open>PATCH /users/:userId/role\<close> leaves a state with the same properties,
  and answers the target's row carrying the requested role.
\<close>

theorem update_user_role_ok:
  assumes ok: "role_store_ok st" and ids: "distinct (map user_id (users st))"
    and h: "update_user_role st caller target role_in = Inr (st', u)"
  shows "role_store_ok st' \<and> distinct (map user_id (users st')) \<and>
    u \<in> set (users st') \<and> user_id u = target \<and> role_in = Some (role_name (role u))"
proof -
  obtain r t st1 where r: "Option.bind role_in parse_role = Some r"
    and t: "user_by_id st target = Some t" and s1: "set_user_role (email t) r st = Inr st1"
    and s2: "update_users_role (\<lambda>u. user_id u = target) r st1 = Inr st'"
    and u: "user_by_id st' target = Some u"
    using h by (rule update_user_role_Inr)
  note st1 = set_user_role_ok [OF ok s1]
  from t have tin: "t \<in> set (users st)" and tid: "user_id t = target"
    by (simp_all add: user_by_id_SomeD)
  have "\<forall>v\<in>set (users st1). user_id v = target \<longrightarrow> role v = r"
  proof (intro ballI impI)
    fix v assume v: "v \<in> set (users st1)" and vid: "user_id v = target"
    have "st1 = st\<lparr>user_roles := ur_upsert (email t) r (user_roles st),
        users := update_where (\<lambda>u. email u = email t) (\<lambda>u. u\<lparr>role := r\<rparr>) (users st)\<rparr>"
      using s1 by (simp add: set_user_role_result)
    then have "set (users st1) = set (update_where (\<lambda>u. email u = email t) (\<lambda>u. u\<lparr>role := r\<rparr>) (users st))"
      by simp
    with v obtain w where w: "w \<in> set (users st)" and "email v = email w" and "user_id v = user_id w"
      using role_update_origin by blast
    with vid tid tin ids have "w = t" using distinct_key_eq [of user_id "users st" w t] by simp
    with \<open>email v = email w\<close> st1 v show "role v = r" by simp
  qed
  then have "st' = st1" using s2 by (simp add: update_users_role_noop)
  moreover from u have "u \<in> set (users st') \<and> user_id u = target" by (rule user_by_id_SomeD)
  moreover from r have "role_in = Some (role_name r)" by (cases role_in) (simp_all add: parse_role_Some)
  ultimately show ?thesis using st1 ids \<open>\<forall>v\<in>set (users st1). user_id v = target \<longrightarrow> role v = r\<close>
    by auto
qed

theorem update_user_role_ok_witness:
  "role_store_ok (empty_db\<lparr>users := [\<lparr>user_id = 0, email = ''root@x.org'', name = ''R'', picture = None, google_id = ''g0'', role = Admin\<rparr>,
        \<lparr>user_id = 1, email = ''s@x.org'', name = ''S'', picture = None, google_id = ''g1'', role = Scholar\<rparr>],
      user_roles := [\<lparr>ur_email = ''root@x.org'', ur_role = Admin\<rparr>, \<lparr>ur_email = ''s@x.org'', ur_role = Scholar\<rparr>],
      next_id := 2\<rparr>) \<and>
   update_user_role (empty_db\<lparr>users := [\<lparr>user_id = 0, email = ''root@x.org'', name = ''R'', picture = None, google_id = ''g0'', role = Admin\<rparr>,
        \<lparr>user_id = 1, email = ''s@x.org'', name = ''S'', picture = None, google_id = ''g1'', role = Scholar\<rparr>],
      user_roles := [\<lparr>ur_email = ''root@x.org'', ur_role = Admin\<rparr>, \<lparr>ur_email = ''s@x.org'', ur_role = Scholar\<rparr>],
      next_id := 2\<rparr>) (\<lparr>au_id = 0, au_email = ''root@x.org'', au_role = Admin\<rparr>) 1 (Some ''faculty'') =
   Inr (empty_db\<lparr>users := [\<lparr>user_id = 0, email = ''root@x.org'', name = ''R'', picture = None, google_id = ''g0'', role = Admin\<rparr>,
        \<lparr>user_id = 1, email = ''s@x.org'', name = ''S'', picture = None, google_id = ''g1'', role = Faculty\<rparr>],
      user_roles := [\<lparr>ur_email = ''root@x.org'', ur_role = Admin\<rparr>, \<lparr>ur_email = ''s@x.org'', ur_role = Faculty\<rparr>],
      next_id := 2\<rparr>, \<lparr>user_id = 1, email = ''s@x.org'', name = ''S'', picture = None, google_id = ''g1'', role = Faculty\<rparr>) \<and>
   role_store_ok (empty_db\<lparr>users := [\<lparr>user_id = 0, email = ''root@x.org'', name = ''R'', picture = None, google_id = ''g0'', role = Admin\<rparr>,
        \<lparr>user_id = 1, email = ''s@x.org'', name = ''S'', picture = None, google_id = ''g1'', role = Faculty\<rparr>],
      user_roles := [\<lparr>ur_email = ''root@x.org'', ur_role = Admin\<rparr>, \<lparr>ur_email = ''s@x.org'', ur_role = Faculty\<rparr>],
      next_id := 2\<rparr>)"
proof -
  have ok: "role_store_ok (empty_db\<lparr>users := [\<lparr>user_id = 0, email = ''root@x.org'', name = ''R'', picture = None, google_id = ''g0'', role = Admin\<rparr>,
        \<lparr>user_id = 1, email = ''s@x.org'', name = ''S'', picture = None, google_id = ''g1'', role = Scholar\<rparr>],
      user_roles := [\<lparr>ur_email = ''root@x.org'', ur_role = Admin\<rparr>, \<lparr>ur_email = ''s@x.org'', ur_role = Scholar\<rparr>],
      next_id := 2\<rparr>)"
    by (simp add: role_store_ok_def roles_synced_def role_by_email_def empty_db_def)
  have ids: "distinct (map user_id (users (empty_db\<lparr>users := [\<lparr>user_id = 0, email = ''root@x.org'', name = ''R'', picture = None, google_id = ''g0'', role = Admin\<rparr>,
        \<lparr>user_id = 1, email = ''s@x.org'', name = ''S'', picture = None, google_id = ''g1'', role = Scholar\<rparr>],
      user_roles := [\<lparr>ur_email = ''root@x.org'', ur_role = Admin\<rparr>, \<lparr>ur_email = ''s@x.org'', ur_role = Scholar\<rparr>],
      next_id := 2\<rparr>)))" by simp
  have run: "update_user_role (empty_db\<lparr>users := [\<lparr>user_id = 0, email = ''root@x.org'', name = ''R'', picture = None, google_id = ''g0'', role = Admin\<rparr>,
        \<lparr>user_id = 1, email = ''s@x.org'', name = ''S'', picture = None, google_id = ''g1'', role = Scholar\<rparr>],
      user_roles := [\<lparr>ur_email = ''root@x.org'', ur_role = Admin\<rparr>, \<lparr>ur_email = ''s@x.org'', ur_role = Scholar\<rparr>],
      next_id := 2\<rparr>) (\<lparr>au_id = 0, au_email = ''root@x.org'', au_role = Admin\<rparr>) 1 (Some ''faculty'') = Inr ((empty_db\<lparr>users := [\<lparr>user_id = 0, email = ''root@x.org'', name = ''R'', picture = None, google_id = ''g0'', role = Admin\<rparr>, \<lparr>user_id = 1, email = ''s@x.org'', name = ''S'', picture = None, google_id = ''g1'', role = Faculty\<rparr>],
      user_roles := [\<lparr>ur_email = ''root@x.org'', ur_role = Admin\<rparr>, \<lparr>ur_email = ''s@x.org'', ur_role = Faculty\<rparr>],
      next_id := 2\<rparr>), \<lparr>user_id = 1, email = ''s@x.org'', name = ''S'', picture = None, google_id = ''g1'', role = Faculty\<rparr>)"
    by (simp add: update_user_role_def parse_role_def user_by_id_def set_user_role_result
        empty_db_def update_users_role_noop)
  from update_user_role_ok [OF ok ids run] ok run show ?thesis by simp
qed

end
