(* ===== verification/System.thy ===== *)
theory System
  imports Concurrency Auth Admin
begin

text \<open>
  The backend as one transition system. A request is a call of one of the routes that
  change the database, with its caller (the token's identity) and its body; \<open>handle\<close>
  runs the route's role gate (\<open>requireRole\<close>, see \<open>Gate\<close>) and the handler, and answers
  the new state and the HTTP status. The routes and their gates are those of
  \<open>src/backend/src/routes/users.js\<close>: \<open>POST /auth/google\<close> (no gate),
  \<open>POST /slots\<close> and \<open>DELETE /slots/:slotId\<close> (faculty or admin),
  \<open>POST /slots/:slotId/book\<close> (scholar), \<open>PATCH /users/:userId/role\<close> and
  \<open>POST /users/roles/email\<close> (admin). The read-only routes do not change the state.
  \<open>reachable\<close> is the set of states that sequences of requests produce from the empty
  database.
\<close>

datatype request =
  Login "string option" "google_payload option"
| Create_slot auth_user "timestamp option" "timestamp option" "timestamp option"
| Delete_slot auth_user slot_key
| Book auth_user slot_key "string option" "nat \<Rightarrow> nat" provisioning
| Update_role auth_user uid "string option"
| Set_role_by_email auth_user "string option" "string option"

definition answer :: "nat \<Rightarrow> db \<Rightarrow> (db \<times> 'a) response \<Rightarrow> db \<times> nat" where
  "answer ok st r = (case r of Inl err \<Rightarrow> (st, status_code err) | Inr (st', _) \<Rightarrow> (st', ok))"

fun handle :: "int \<Rightarrow> db \<Rightarrow> request \<Rightarrow> db \<times> nat" where
  "handle tz st (Login tok pay) = answer 200 st (google_login st tok pay)"
| "handle tz st (Create_slot u s e d) =
     answer 201 st (guarded [Faculty, Admin] u (\<lambda>_. create_slot tz st (au_id u) s e d))"
| "handle tz st (Delete_slot u k) =
     answer 200 st (guarded [Faculty, Admin] u (\<lambda>_. map_sum id (\<lambda>st'. (st', ())) (delete_slot st (au_id u) k)))"
| "handle tz st (Book u k nts rnd p) =
     answer 200 st (guarded [Scholar] u (\<lambda>_. book_slot st (au_id u) k nts rnd p))"
| "handle tz st (Update_role u target r) =
     answer 200 st (guarded [Admin] u (\<lambda>_. update_user_role st u target r))"
| "handle tz st (Set_role_by_email u e r) =
     answer 200 st (guarded [Admin] u (\<lambda>_. set_role_by_email st u e r))"

inductive reachable :: "int \<Rightarrow> db \<Rightarrow> bool" for tz where
  init: "reachable tz empty_db"
| step: "reachable tz st \<Longrightarrow> reachable tz (fst (handle tz st rq))"

definition sys_ok :: "db \<Rightarrow> bool" where
  "sys_ok st \<longleftrightarrow> role_store_ok st \<and> keys_ok st \<and> booked_have_scholar (slots st)"

text \<open>A sequence of requests served one after another, with the status of each.\<close>

fun run_requests :: "int \<Rightarrow> db \<Rightarrow> request list \<Rightarrow> db \<times> nat list" where
  "run_requests tz st [] = (st, [])"
| "run_requests tz st (rq # rqs) =
     (let (st', c) = handle tz st rq; (st'', cs) = run_requests tz st' rqs in (st'', c # cs))"

section \<open>Lemmas\<close>

lemma answer_preserves:
  assumes "I st" and "\<And>st' a. r = Inr (st', a) \<Longrightarrow> I st'"
  shows "I (fst (answer ok st r))"
  using assms by (cases r) (auto simp: answer_def)

lemma google_login_no_payload: "google_login st tok None \<noteq> Inr v"
  by (simp add: google_login_def)

lemma handle_login_ok:
  assumes ok: "sys_ok st"
  shows "sys_ok (fst (handle tz st (Login tok pay)))"
proof -
  have r: "role_store_ok st" and k: "keys_ok st" and b: "booked_have_scholar (slots st)"
    using ok by (simp_all add: sys_ok_def)
  show ?thesis unfolding handle.simps
  proof (rule answer_preserves [where I = sys_ok, OF ok])
    fix st' a assume h: "google_login st tok pay = Inr (st', a)"
    then obtain p where p: "pay = Some p" by (cases pay) (simp_all add: google_login_no_payload)
    obtain u tk where a: "a = (u, tk)" by (cases a)
    from h p a have h': "google_login st tok (Some p) = Inr (st', u, tk)" by simp
    from google_login_sound [OF r _ h'] google_login_keys [OF r k h'] k b
    show "sys_ok st'" by (simp add: sys_ok_def keys_ok_def)
  qed
qed

lemma handle_create_slot_ok:
  assumes ok: "sys_ok st"
  shows "sys_ok (fst (handle tz st (Create_slot u s e d)))"
proof -
  have r: "role_store_ok st" and k: "keys_ok st" and b: "booked_have_scholar (slots st)"
    using ok by (simp_all add: sys_ok_def)
  show ?thesis unfolding handle.simps
  proof (rule answer_preserves [where I = sys_ok, OF ok])
    fix st' a assume "guarded [Faculty, Admin] u (\<lambda>_. create_slot tz st (au_id u) s e d) = Inr (st', a)"
    then have h: "create_slot tz st (au_id u) s e d = Inr (st', a)" by (rule guarded_Inr)
    note c = create_slot_keys [OF k h]
    have "role_store_ok st'" using r c by (simp add: role_store_ok_def roles_synced_def role_by_email_def)
    with c b show "sys_ok st'" by (auto simp: sys_ok_def booked_have_scholar_def)
  qed
qed

lemma handle_delete_slot_ok:
  assumes ok: "sys_ok st"
  shows "sys_ok (fst (handle tz st (Delete_slot u k')))"
proof -
  have r: "role_store_ok st" and k: "keys_ok st" and b: "booked_have_scholar (slots st)"
    using ok by (simp_all add: sys_ok_def)
  show ?thesis unfolding handle.simps
  proof (rule answer_preserves [where I = sys_ok, OF ok])
    fix st' a assume "guarded [Faculty, Admin] u (\<lambda>_. map_sum id (\<lambda>st'. (st', ())) (delete_slot st (au_id u) k')) = Inr (st', a)"
    then have "map_sum id (\<lambda>st'. (st', ())) (delete_slot st (au_id u) k') = Inr (st', a)" by (rule guarded_Inr)
    then have h: "delete_slot st (au_id u) k' = Inr st'" by (cases "delete_slot st (au_id u) k'") simp_all
    note c = delete_slot_keys [OF k h]
    have "role_store_ok st'" using r c by (simp add: role_store_ok_def roles_synced_def role_by_email_def)
    with c b show "sys_ok st'" by (auto simp: sys_ok_def booked_have_scholar_def)
  qed
qed

lemma handle_book_ok:
  assumes ok: "sys_ok st"
  shows "sys_ok (fst (handle tz st (Book u k' nts rnd p)))"
proof -
  have r: "role_store_ok st" and k: "keys_ok st" and b: "booked_have_scholar (slots st)"
    using ok by (simp_all add: sys_ok_def)
  show ?thesis unfolding handle.simps
  proof (rule answer_preserves [where I = sys_ok, OF ok])
    fix st' a assume "guarded [Scholar] u (\<lambda>_. book_slot st (au_id u) k' nts rnd p) = Inr (st', a)"
    then have "book_slot st (au_id u) k' nts rnd p = Inr (st', a)" by (rule guarded_Inr)
    moreover obtain y l where "a = (y, l)" by (cases a)
    ultimately have h: "book_slot st (au_id u) k' nts rnd p = Inr (st', y, l)" by simp
    note c = book_slot_keys [OF k h]
    have "role_store_ok st'" using r c by (simp add: role_store_ok_def roles_synced_def role_by_email_def)
    with c b show "sys_ok st'" by (simp add: sys_ok_def)
  qed
qed

lemma handle_update_role_ok:
  assumes ok: "sys_ok st"
  shows "sys_ok (fst (handle tz st (Update_role u t ri)))"
proof -
  have r: "role_store_ok st" and k: "keys_ok st" and b: "booked_have_scholar (slots st)"
    using ok by (simp_all add: sys_ok_def)
  show ?thesis unfolding handle.simps
  proof (rule answer_preserves [where I = sys_ok, OF ok])
    fix st' a assume "guarded [Admin] u (\<lambda>_. update_user_role st u t ri) = Inr (st', a)"
    then have h: "update_user_role st u t ri = Inr (st', a)" by (rule guarded_Inr)
    from update_user_role_store [OF r k h] b show "sys_ok st'" by (simp add: sys_ok_def)
  qed
qed

lemma handle_set_role_by_email_ok:
  assumes ok: "sys_ok st"
  shows "sys_ok (fst (handle tz st (Set_role_by_email u ei ri)))"
proof -
  have r: "role_store_ok st" and k: "keys_ok st" and b: "booked_have_scholar (slots st)"
    using ok by (simp_all add: sys_ok_def)
  show ?thesis unfolding handle.simps
  proof (rule answer_preserves [where I = sys_ok, OF ok])
    fix st' a assume "guarded [Admin] u (\<lambda>_. set_role_by_email st u ei ri) = Inr (st', a)"
    then have "set_role_by_email st u ei ri = Inr (st', a)" by (rule guarded_Inr)
    moreover obtain e' r' bb where "a = (e', r', bb)" by (cases a)
    ultimately have h: "set_role_by_email st u ei ri = Inr (st', e', r', bb)" by simp
    from set_role_by_email_store [OF r k h] b show "sys_ok st'" by (simp add: sys_ok_def)
  qed
qed

lemma handle_sys_ok: "sys_ok st \<Longrightarrow> sys_ok (fst (handle tz st rq))"
  by (cases rq) (simp_all only: handle_login_ok handle_create_slot_ok handle_delete_slot_ok handle_book_ok handle_update_role_ok handle_set_role_by_email_ok)

text \<open>
  Claim C20. Every state the backend reaches from the empty database by any sequence of
  requests (sign-ins, slot creations and deletions, bookings, role changes, by any caller)
  satisfies the system invariant: one role row per e-mail and every user's role equal to
  its row, unique user ids, user e-mails, role e-mails and slot ids, all ids below the id
  counter, and every booked slot naming its scholar.
\<close>

theorem reachable_sys_ok: "reachable tz st \<Longrightarrow> sys_ok st"
proof (induction rule: reachable.induct)
  case init
  then show ?case by (simp add: sys_ok_def role_store_ok_def roles_synced_def keys_ok_def booked_have_scholar_def empty_db_def)
next
  case (step st rq)
  from step.IH show ?case by (rule handle_sys_ok)
qed

theorem reachable_sys_ok_witness:
  "sys_ok (fst (handle 0 empty_db
     (Login (Some ''t'') (Some \<lparr>g_email = ''a@x.org'', g_name = ''A'', g_picture = None, g_sub = ''g1''\<rparr>))))"
  by (rule reachable_sys_ok [OF reachable.step [OF reachable.init]])

lemma run_requests_reachable: "reachable tz st \<Longrightarrow> reachable tz (fst (run_requests tz st rqs))"
proof (induction rqs arbitrary: st)
  case Nil then show ?case by simp
next
  case (Cons rq rqs)
  from reachable.step [OF Cons.prems, of rq] have "reachable tz (fst (handle tz st rq))" .
  from Cons.IH [OF this] show ?case by (simp add: split_def Let_def)
qed


end
