(* ===== verification/Url_Encoding.thy ===== *)
theory Url_Encoding
  imports Prelude
begin

text \<open>
  The \<open>application/x-www-form-urlencoded\<close> serializer of \<open>URLSearchParams.toString()\<close>
  (WHATWG URL standard), which \<open>generateCalendarLink\<close> uses, and the matching parser. A
  character is a code unit below 256 (Isabelle's \<open>char\<close>); it is sent as its UTF-8
  bytes, one byte below 128, two bytes otherwise. A byte that is an ASCII letter or digit or
  one of \<open>*-._\<close> is sent as itself, a space as \<open>+\<close>, any other byte as \<open>%XY\<close> with
  upper-case hexadecimal digits. These are library functions of the JavaScript runtime, not
  code of the repository.
\<close>

section \<open>Serializer\<close>

definition hex_digit :: "nat \<Rightarrow> char" where
  "hex_digit n = char_of (if n < 10 then 48 + n else 55 + n)"

definition url_safe_byte :: "nat \<Rightarrow> bool" where
  "url_safe_byte b \<longleftrightarrow>
     (48 \<le> b \<and> b \<le> 57) \<or> (65 \<le> b \<and> b \<le> 90) \<or> (97 \<le> b \<and> b \<le> 122) \<or> b \<in> {42, 45, 46, 95}"

definition encode_byte :: "nat \<Rightarrow> string" where
  "encode_byte b =
     (if b = 32 then ''+''
      else if url_safe_byte b then [char_of b]
      else [CHR ''%'', hex_digit (b div 16), hex_digit (b mod 16)])"

definition utf8_bytes :: "char \<Rightarrow> nat list" where
  "utf8_bytes c = (let n = of_char c in if n < 128 then [n] else [192 + n div 64, 128 + n mod 64])"

definition form_encode :: "string \<Rightarrow> string" where
  "form_encode s = concat (map (\<lambda>c. concat (map encode_byte (utf8_bytes c))) s)"

fun join_on :: "char \<Rightarrow> string list \<Rightarrow> string" where
  "join_on d [] = []"
| "join_on d [w] = w"
| "join_on d (w # ws) = w @ d # join_on d ws"

definition url_search_params :: "(string \<times> string) list \<Rightarrow> string" where
  "url_search_params ps =
     join_on (CHR ''&'') (map (\<lambda>(k, v). form_encode k @ CHR ''='' # form_encode v) ps)"

section \<open>Parser\<close>

definition hex_val :: "char \<Rightarrow> nat option" where
  "hex_val c =
     (let n = of_char c in
      if 48 \<le> n \<and> n \<le> 57 then Some (n - 48)
      else if 65 \<le> n \<and> n \<le> 70 then Some (n - 55)
      else if 97 \<le> n \<and> n \<le> 102 then Some (n - 87)
      else None)"

fun pct_decode :: "string \<Rightarrow> nat list" where
  "pct_decode [] = []"
| "pct_decode (c # cs) =
     (if c = CHR ''+'' then 32 # pct_decode cs
      else if c = CHR ''%'' then
        (case cs of
           h1 # h2 # rest \<Rightarrow>
             (case (hex_val h1, hex_val h2) of
                (Some a, Some b) \<Rightarrow> (16 * a + b) # pct_decode rest
              | _ \<Rightarrow> 37 # pct_decode cs)
         | _ \<Rightarrow> 37 # pct_decode cs)
      else of_char c # pct_decode cs)"

fun utf8_decode :: "nat list \<Rightarrow> string" where
  "utf8_decode [] = []"
| "utf8_decode (b # bs) =
     (if b < 128 then char_of b # utf8_decode bs
      else case bs of
        b2 # rest \<Rightarrow>
          if 194 \<le> b \<and> b < 196 \<and> 128 \<le> b2 \<and> b2 < 192
          then char_of ((b - 192) * 64 + (b2 - 128)) # utf8_decode rest
          else CHR ''?'' # utf8_decode bs
      | [] \<Rightarrow> [CHR ''?''])"

definition decode_component :: "string \<Rightarrow> string" where
  "decode_component s = utf8_decode (pct_decode s)"

fun split_on :: "char \<Rightarrow> string \<Rightarrow> string list" where
  "split_on d [] = [[]]"
| "split_on d (c # cs) =
     (if c = d then [] # split_on d cs
      else (case split_on d cs of w # ws \<Rightarrow> (c # w) # ws | [] \<Rightarrow> [[c]]))"

definition parse_pair :: "string \<Rightarrow> string \<times> string" where
  "parse_pair s =
     (let k = takeWhile (\<lambda>c. c \<noteq> CHR ''='') s
      in (decode_component k, decode_component (drop (Suc (length k)) s)))"

definition parse_params :: "string \<Rightarrow> (string \<times> string) list" where
  "parse_params s = map parse_pair (filter (\<lambda>w. w \<noteq> []) (split_on (CHR ''&'') s))"

section \<open>Well-formed queries\<close>

text \<open>
  A well-formed \<open>application/x-www-form-urlencoded\<close> query: ASCII letters, digits and
  \<open>*-._\<close>, the separators \<open>+ = &\<close>, and \<open>%\<close> followed by two upper-case
  hexadecimal digits; no other character may appear in the query of a URL as sent.
\<close>

definition query_char :: "char \<Rightarrow> bool" where
  "query_char c \<longleftrightarrow> url_safe_byte (of_char c) \<or> c = CHR ''+'' \<or> c = CHR ''='' \<or> c = CHR ''&''"

definition upper_hex :: "char \<Rightarrow> bool" where
  "upper_hex c \<longleftrightarrow> (let n = (of_char c :: nat) in (48 \<le> n \<and> n \<le> 57) \<or> (65 \<le> n \<and> n \<le> 70))"

fun form_urlencoded :: "string \<Rightarrow> bool" where
  "form_urlencoded [] = True"
| "form_urlencoded (c # cs) =
     (if c = CHR ''%'' then
        (case cs of h1 # h2 # rest \<Rightarrow> upper_hex h1 \<and> upper_hex h2 \<and> form_urlencoded rest | _ \<Rightarrow> False)
      else query_char c \<and> form_urlencoded cs)"

section \<open>Lemmas\<close>

lemma char_of_eqD: "char_of b = c \<Longrightarrow> (of_char c :: nat) = b mod 256"
  by (erule subst) simp

lemma hex_val_digit: "n < 16 \<Longrightarrow> hex_val (hex_digit n) = Some n"
  by (auto simp: hex_val_def hex_digit_def Let_def)

lemma pct_decode_byte:
  assumes "b < 256"
  shows "pct_decode (encode_byte b @ rest) = b # pct_decode rest"
proof -
  consider "b = 32" | "b \<noteq> 32" "url_safe_byte b" | "b \<noteq> 32" "\<not> url_safe_byte b" by blast
  then show ?thesis
  proof cases
    case 1 then show ?thesis by (simp add: encode_byte_def)
  next
    case 2
    have ob: "of_char (char_of b :: char) = b" using assms by simp
    have "b \<noteq> 43" "b \<noteq> 37" using 2 by (auto simp: url_safe_byte_def)
    have p: "char_of b \<noteq> CHR ''+''"
    proof
      assume "char_of b = CHR ''+''"
      then have "(of_char (char_of b :: char) :: nat) = of_char (CHR ''+'')" by simp
      with ob \<open>b \<noteq> 43\<close> show False by simp
    qed
    have q: "char_of b \<noteq> CHR ''%''"
    proof
      assume "char_of b = CHR ''%''"
      then have "(of_char (char_of b :: char) :: nat) = of_char (CHR ''%'')" by simp
      with ob \<open>b \<noteq> 37\<close> show False by simp
    qed
    with 2 ob p q show ?thesis by (simp add: encode_byte_def)
  next
    case 3
    have "b div 16 < 16" "b mod 16 < 16" using assms by simp_all
    then have "hex_val (hex_digit (b div 16)) = Some (b div 16)" "hex_val (hex_digit (b mod 16)) = Some (b mod 16)"
      by (simp_all add: hex_val_digit)
    with 3 show ?thesis by (simp add: encode_byte_def)
  qed
qed

lemma pct_decode_bytes:
  "\<forall>b\<in>set bs. b < 256 \<Longrightarrow> pct_decode (concat (map encode_byte bs) @ rest) = bs @ pct_decode rest"
  by (induction bs) (simp_all add: pct_decode_byte)

lemma utf8_bytes_small: "\<forall>b\<in>set (utf8_bytes c). b < 256"
proof -
  have "of_char c < (256::nat)" by (rule nat_of_char_less_256)
  then have "of_char c div 64 < (4::nat)" by (simp add: div_less_iff_less_mult)
  then show ?thesis by (auto simp: utf8_bytes_def Let_def)
qed

lemma utf8_decode_bytes: "utf8_decode (utf8_bytes c @ bs) = c # utf8_decode bs"
proof -
  define n where "n = (of_char c :: nat)"
  have n: "n < 256" unfolding n_def by (rule nat_of_char_less_256)
  have c: "c = char_of n" unfolding n_def by simp
  show ?thesis
  proof (cases "n < 128")
    case True
    then show ?thesis by (simp add: utf8_bytes_def Let_def n_def [symmetric] c)
  next
    case False
    then have "2 \<le> n div 64" "n div 64 < 4" using n by auto
    moreover have "(192 + n div 64 - 192) * 64 + (128 + n mod 64 - 128) = n" by simp
    ultimately show ?thesis using False
      by (simp add: utf8_bytes_def Let_def n_def [symmetric] c)
  qed
qed

lemma pct_decode_append_char:
  "pct_decode (concat (map encode_byte (utf8_bytes c)) @ rest) = utf8_bytes c @ pct_decode rest"
  by (rule pct_decode_bytes [OF utf8_bytes_small])

lemma decode_form_encode: "decode_component (form_encode s) = s"
proof -
  have "utf8_decode (pct_decode (form_encode s) @ bs) = s @ utf8_decode bs" for bs
  proof (induction s arbitrary: bs)
    case Nil then show ?case by (simp add: form_encode_def)
  next
    case (Cons c s)
    have "pct_decode (form_encode (c # s)) = utf8_bytes c @ pct_decode (form_encode s)"
      by (simp add: form_encode_def pct_decode_append_char)
    then show ?case using Cons.IH by (simp add: utf8_decode_bytes)
  qed
  from this [of "[]"] show ?thesis by (simp add: decode_component_def)
qed

lemma encode_byte_chars:
  "b < 256 \<Longrightarrow> c \<in> set (encode_byte b) \<Longrightarrow> c \<noteq> CHR ''&'' \<and> c \<noteq> CHR ''=''"
proof -
  assume b: "b < 256" and c: "c \<in> set (encode_byte b)"
  have hex: "hex_digit n \<noteq> CHR ''&'' \<and> hex_digit n \<noteq> CHR ''=''" if "n < 16" for n
  proof -
    have "(of_char (hex_digit n) :: nat) \<noteq> 38 \<and> (of_char (hex_digit n) :: nat) \<noteq> 61"
      using that by (simp add: hex_digit_def)
    then show ?thesis by auto
  qed
  show ?thesis
  proof (cases "b = 32 \<or> url_safe_byte b")
    case True
    then have "c = CHR ''+'' \<or> (url_safe_byte b \<and> c = char_of b)"
      using c by (auto simp: encode_byte_def split: if_splits)
    moreover have "url_safe_byte b \<Longrightarrow> (of_char (char_of b :: char) :: nat) \<noteq> 38 \<and> (of_char (char_of b :: char) :: nat) \<noteq> 61"
      by (auto simp: url_safe_byte_def)
    ultimately show ?thesis by (auto dest: char_of_eqD)
  next
    case False
    have "b div 16 < 16" "b mod 16 < 16" using b by simp_all
    then show ?thesis using False c hex by (auto simp: encode_byte_def)
  qed
qed

lemma form_encode_no_sep: "CHR ''&'' \<notin> set (form_encode s) \<and> CHR ''='' \<notin> set (form_encode s)"
  using encode_byte_chars utf8_bytes_small by (fastforce simp: form_encode_def)

lemma split_on_no_sep: "d \<notin> set w \<Longrightarrow> split_on d w = [w]"
  by (induction w) auto

lemma split_on_append: "d \<notin> set w \<Longrightarrow> split_on d (w @ d # rest) = w # split_on d rest"
proof (induction w)
  case Nil then show ?case by simp
next
  case (Cons c w)
  then show ?case by (cases "split_on d rest") auto
qed

lemma split_on_join:
  "ws \<noteq> [] \<Longrightarrow> \<forall>w\<in>set ws. d \<notin> set w \<Longrightarrow> split_on d (join_on d ws) = ws"
proof (induction d ws rule: join_on.induct)
  case (2 d w) then show ?case by (simp add: split_on_no_sep)
next
  case (3 d w v vs) then show ?case by (simp add: split_on_append)
qed simp

lemma parse_pair_encode: "parse_pair (form_encode k @ CHR ''='' # form_encode v) = (k, v)"
proof -
  have "takeWhile (\<lambda>c. c \<noteq> CHR ''='') (form_encode k @ CHR ''='' # form_encode v) = form_encode k"
    using form_encode_no_sep [of k] by (subst takeWhile_append2) auto
  then show ?thesis by (simp add: parse_pair_def decode_form_encode)
qed

lemma parse_url_search_params: "parse_params (url_search_params ps) = ps"
proof (cases "ps = []")
  case True then show ?thesis by (simp add: parse_params_def url_search_params_def)
next
  case False
  let ?ws = "map (\<lambda>(k, v). form_encode k @ CHR ''='' # form_encode v) ps"
  have ne: "?ws \<noteq> []" using False by simp
  have "\<forall>w\<in>set ?ws. CHR ''&'' \<notin> set w" using form_encode_no_sep by auto
  then have sp: "split_on (CHR ''&'') (url_search_params ps) = ?ws"
    unfolding url_search_params_def by (rule split_on_join [OF ne])
  have "\<forall>w\<in>set ?ws. w \<noteq> []" by auto
  then have "filter (\<lambda>w. w \<noteq> []) ?ws = ?ws" by (simp add: filter_id_conv)
  then show ?thesis by (simp add: parse_params_def sp parse_pair_encode split_def cong: map_cong)
qed

lemma form_urlencoded_append:
  "form_urlencoded xs \<Longrightarrow> form_urlencoded (xs @ ys) = form_urlencoded ys"
proof (induction xs rule: form_urlencoded.induct)
  case (2 c cs)
  then show ?case by (auto split: if_splits list.splits)
qed simp

lemma hex_digit_upper: "n < 16 \<Longrightarrow> upper_hex (hex_digit n)"
  by (simp add: upper_hex_def hex_digit_def Let_def)

lemma form_urlencoded_byte: "b < 256 \<Longrightarrow> form_urlencoded (encode_byte b)"
proof -
  assume b: "b < 256"
  consider "b = 32" | "b \<noteq> 32" "url_safe_byte b" | "b \<noteq> 32" "\<not> url_safe_byte b" by blast
  then show ?thesis
  proof cases
    case 1 then show ?thesis by (simp add: encode_byte_def query_char_def)
  next
    case 2
    have ob: "of_char (char_of b :: char) = b" using b by simp
    have "b \<noteq> 37" using 2 by (auto simp: url_safe_byte_def)
    then have "char_of b \<noteq> CHR ''%''" using ob by (auto dest: char_of_eqD)
    with 2 ob show ?thesis by (simp add: encode_byte_def query_char_def)
  next
    case 3
    have "b div 16 < 16" "b mod 16 < 16" using b by simp_all
    with 3 show ?thesis by (simp add: encode_byte_def hex_digit_upper)
  qed
qed

lemma form_urlencoded_concat:
  "\<forall>w\<in>set ws. form_urlencoded w \<Longrightarrow> form_urlencoded (concat ws)"
  by (induction ws) (simp_all add: form_urlencoded_append)

lemma form_urlencoded_form_encode: "form_urlencoded (form_encode s)"
  unfolding form_encode_def
  by (rule form_urlencoded_concat) (auto intro!: form_urlencoded_concat form_urlencoded_byte dest: utf8_bytes_small [rule_format])

lemma form_urlencoded_join:
  "\<forall>w\<in>set ws. form_urlencoded w \<Longrightarrow> form_urlencoded (join_on (CHR ''&'') ws)"
  by (induction "CHR ''&''" ws rule: join_on.induct) (simp_all add: form_urlencoded_append query_char_def)

lemma form_urlencoded_url_search_params: "form_urlencoded (url_search_params ps)"
  unfolding url_search_params_def
  by (rule form_urlencoded_join)
     (auto simp: form_urlencoded_append form_urlencoded_form_encode query_char_def)

end
