(* ===== verification/Calendar.thy ===== *)
theory Calendar
  imports Url_Encoding Booking Gate
begin

text \<open>
  The meeting invitation and the calendar deep link of a booking. \<open>createRealGoogleMeet\<close>
  (\<open>src/backend/src/routes/users.js\<close> lines 442--463) builds the event details from the
  slot read by the booking and the two people, and \<open>createCalendarEventWithMeet\<close>
  (\<open>src/backend/src/config/googleCalendar.js\<close> lines 26--73) the event body sent to the
  Calendar API; \<open>generateCalendarLink\<close> (users.js lines 481--503) the
  \<open>calendar.google.com/calendar/render\<close> link of the booking's answer. Times are written
  as \<open>new Date(`${slot.date}T${slot.start_time}`)\<close>: a date-time without offset, which
  JavaScript reads in the server's local time (offset \<open>tz\<close>), then printed by
  \<open>toISOString()\<close> in UTC. The JavaScript runtime's date printing (\<open>iso_string\<close>, with
  the civil calendar of \<open>civil_from_days\<close>) is a library model, not repository code.
\<close>

section \<open>The JavaScript runtime: printing an instant\<close>

definition digit_char :: "nat \<Rightarrow> char" where
  "digit_char n = ''0123456789'' ! (n mod 10)"

fun pad_num :: "nat \<Rightarrow> nat \<Rightarrow> string" where
  "pad_num 0 n = []"
| "pad_num (Suc w) n = pad_num w (n div 10) @ [digit_char n]"

fun decimal :: "nat \<Rightarrow> string" where
  "decimal n = (if n < 10 then [digit_char n] else decimal (n div 10) @ [digit_char n])"

text \<open>Days since 1970-01-01 to (year, month, day) of the proleptic Gregorian calendar.\<close>

definition civil_from_days :: "int \<Rightarrow> int \<times> nat \<times> nat" where
  "civil_from_days z0 =
     (let z = z0 + 719468; era = z div 146097; doe = z - era * 146097;
          yoe = (doe - doe div 1460 + doe div 36524 - doe div 146096) div 365;
          doy = doe - (365 * yoe + yoe div 4 - yoe div 100);
          mp = (5 * doy + 2) div 153; d = doy - (153 * mp + 2) div 5 + 1;
          m = (if mp < 10 then mp + 3 else mp - 9); y = yoe + era * 400
      in (if m \<le> 2 then y + 1 else y, nat m, nat d))"

definition iso_year :: "int \<Rightarrow> string" where
  "iso_year y =
     (if 0 \<le> y \<and> y \<le> 9999 then pad_num 4 (nat y)
      else (if y < 0 then CHR ''-'' else CHR ''+'') # pad_num 6 (nat \<bar>y\<bar>))"

text \<open>\<open>Date.prototype.toISOString()\<close>: \<open>YYYY-MM-DDTHH:mm:ss.sssZ\<close>.\<close>

definition iso_string :: "timestamp \<Rightarrow> string" where
  "iso_string t =
     (let (y, m, d) = civil_from_days (t div 86400000); ms = nat (t mod 86400000)
      in iso_year y @ ''-'' @ pad_num 2 m @ ''-'' @ pad_num 2 d @ ''T'' @
         pad_num 2 (ms div 3600000) @ '':'' @ pad_num 2 (ms div 60000 mod 60) @ '':'' @
         pad_num 2 (ms div 1000 mod 60) @ ''.'' @ pad_num 3 (ms mod 1000) @ ''Z'')"

section \<open>The people and the slot's times\<close>

text \<open>
  A person as the handlers see it: \<open>slot.faculty\<close> is the joined \<open>users\<close> row; the
  scholar is \<open>req.user\<close>, set by the authentication middleware, whose \<open>name\<close> is
  \<open>None\<close> when the middleware attaches only the token's claims (printed \<open>undefined\<close>).
\<close>

record person =
  p_name :: "string option"
  p_email :: email_addr

definition person_of :: "user_row \<Rightarrow> person" where
  "person_of u = \<lparr>p_name = Some (name u), p_email = email u\<rparr>"

definition js_text :: "string option \<Rightarrow> string" where
  "js_text s = (case s of Some v \<Rightarrow> v | None \<Rightarrow> ''undefined'')"

text \<open>\<open>`${v}`\<close> of a nullable column: a SQL \<open>NULL\<close> reads as \<open>null\<close>.\<close>

definition js_nullable :: "string option \<Rightarrow> string" where
  "js_nullable s = (case s of Some v \<Rightarrow> v | None \<Rightarrow> ''null'')"

text \<open>\<open>slot.notes || 'No additional notes'\<close> (an empty string is falsy).\<close>

definition notes_text :: "string option \<Rightarrow> string" where
  "notes_text n = (case n of Some v \<Rightarrow> if v = [] then ''No additional notes'' else v
                           | None \<Rightarrow> ''No additional notes'')"

definition nl :: string where
  "nl = [CHR 0x0A]"

text \<open>\<open>new Date(`${slot.date}T${t}`)\<close>: the wall-clock time \<open>t\<close> of the slot's date, local.\<close>

definition local_instant :: "int \<Rightarrow> slot \<Rightarrow> time_of_day \<Rightarrow> timestamp" where
  "local_instant tz x t = date x * 86400000 + int t * 1000 - tz"

section \<open>The Calendar event\<close>

record event_details =
  ed_summary :: string
  ed_description :: string
  ed_start :: string
  ed_end :: string
  ed_attendees :: "email_addr list"

text \<open>Lines 444--456 of \<open>createRealGoogleMeet(slot, faculty, scholar)\<close>.\<close>

definition meet_event_details :: "int \<Rightarrow> slot \<Rightarrow> person \<Rightarrow> person \<Rightarrow> event_details" where
  "meet_event_details tz x fac sch =
     \<lparr>ed_summary = ''Assignment Demo - '' @ js_text (p_name sch) @ '' with '' @ js_text (p_name fac),
      ed_description = ''Assignment demonstration session.'' @ nl @ nl @
        ''Scholar: '' @ js_text (p_name sch) @ '' ('' @ p_email sch @ '')'' @ nl @
        ''Faculty: '' @ js_text (p_name fac) @ '' ('' @ p_email fac @ '')'' @ nl @ nl @
        ''Notes: '' @ notes_text (slot_notes x),
      ed_start = iso_string (local_instant tz x (start_time x)),
      ed_end = iso_string (local_instant tz x (end_time x)),
      ed_attendees = [p_email sch, p_email fac]\<rparr>"

record cal_event =
  ce_summary :: string
  ce_description :: string
  ce_start :: "string \<times> string"
  ce_end :: "string \<times> string"
  ce_attendees :: "email_addr list"
  ce_request_id :: string
  ce_solution :: string
  ce_reminders :: "(string \<times> nat) list"

text \<open>Lines 27--54 of \<open>createCalendarEventWithMeet\<close>; \<open>now\<close> is \<open>Date.now()\<close>.\<close>

definition calendar_event :: "nat \<Rightarrow> event_details \<Rightarrow> cal_event" where
  "calendar_event now ed =
     \<lparr>ce_summary = ed_summary ed, ce_description = ed_description ed,
      ce_start = (ed_start ed, ''UTC''), ce_end = (ed_end ed, ''UTC''),
      ce_attendees = ed_attendees ed, ce_request_id = ''meet-'' @ decimal now,
      ce_solution = ''hangoutsMeet'', ce_reminders = [(''email'', 24 * 60), (''popup'', 30)]\<rparr>"

text \<open>
  Lines 120--138 of \<open>createMeetWithServiceAccount\<close> (exported, not called by the
  handlers): the same event without reminders and with a random suffix \<open>r\<close> on the id.
\<close>

definition service_account_event :: "nat \<Rightarrow> string \<Rightarrow> event_details \<Rightarrow> cal_event" where
  "service_account_event now r ed =
     \<lparr>ce_summary = ed_summary ed, ce_description = ed_description ed,
      ce_start = (ed_start ed, ''UTC''), ce_end = (ed_end ed, ''UTC''),
      ce_attendees = ed_attendees ed, ce_request_id = ''meet-'' @ decimal now @ ''-'' @ r,
      ce_solution = ''hangoutsMeet'', ce_reminders = []\<rparr>"

text \<open>
  The event details the booking handler sends (users.js lines 512--525): those of the row its
  read finds, \<open>createRealGoogleMeet(slot, slot.faculty, req.user)\<close>, before the update.
\<close>

definition booking_invite :: "int \<Rightarrow> db \<Rightarrow> slot_key \<Rightarrow> person \<Rightarrow> person \<Rightarrow> event_details option" where
  "booking_invite tz st k fac sch = map_option (\<lambda>x. meet_event_details tz x fac sch) (book_check st k)"

section \<open>The calendar link\<close>

text \<open>\<open>formatDate\<close>: \<open>toISOString().replace(/[-:]/g, '').split('.')[0] + 'Z'\<close>.\<close>

definition format_date :: "timestamp \<Rightarrow> string" where
  "format_date t =
     takeWhile (\<lambda>c. c \<noteq> CHR ''.'') (filter (\<lambda>c. c \<noteq> CHR ''-'' \<and> c \<noteq> CHR '':'') (iso_string t)) @ ''Z''"

definition calendar_params :: "int \<Rightarrow> slot \<Rightarrow> person \<Rightarrow> person \<Rightarrow> (string \<times> string) list" where
  "calendar_params tz x fac sch =
     [(''action'', ''TEMPLATE''),
      (''text'', ''Assignment Demo - '' @ js_text (p_name sch) @ '' with '' @ js_text (p_name fac)),
      (''details'', ''Meeting between '' @ js_text (p_name sch) @ '' and '' @ js_text (p_name fac) @ nl @ nl @
         ''Notes: '' @ notes_text (slot_notes x) @ nl @ nl @ ''Google Meet: '' @ js_nullable (meeting_link x)),
      (''dates'', format_date (local_instant tz x (start_time x)) @ ''/'' @
         format_date (local_instant tz x (end_time x))),
      (''add'', p_email sch @ '','' @ p_email fac),
      (''sf'', ''true''), (''output'', ''xml'')]"

definition calendar_prefix :: string where
  "calendar_prefix = ''https://calendar.google.com/calendar/render?''"

definition generate_calendar_link :: "int \<Rightarrow> slot \<Rightarrow> person \<Rightarrow> person \<Rightarrow> string" where
  "generate_calendar_link tz x fac sch = calendar_prefix @ url_search_params (calendar_params tz x fac sch)"

section \<open>Lemmas\<close>

lemma time_only_local: "a < 86400 \<Longrightarrow> time_only tz (D * 86400000 + int a * 1000 - tz) = a"
proof -
  assume a: "a < 86400"
  have "(D * 86400000 + int a * 1000 - tz + tz) div 1000 = D * 86400 + int a" by simp
  moreover have "(D * 86400 + int a) mod 86400 = int a" using a by simp
  ultimately show ?thesis by (simp add: time_only_def)
qed

lemma date_only_day: "date_only (D * 86400000) = D"
  by (simp add: date_only_def)

lemma pad_num_length [simp]: "length (pad_num w n) = w"
  by (induction w arbitrary: n) simp_all

lemma pad_num_digit: "set (pad_num w n) \<subseteq> set ''0123456789''"
proof (induction w arbitrary: n)
  case 0 then show ?case by simp
next
  case (Suc w)
  have "digit_char n \<in> set ''0123456789''" unfolding digit_char_def
    by (rule nth_mem) simp
  with Suc show ?case by simp
qed

lemma pad_num_no_sep:
  "CHR ''-'' \<notin> set (pad_num w n) \<and> CHR '':'' \<notin> set (pad_num w n) \<and> CHR ''.'' \<notin> set (pad_num w n)"
  using pad_num_digit [of w n] by auto

lemma filter_pad_num [simp]:
  "filter (\<lambda>c. c \<noteq> CHR ''-'' \<and> c \<noteq> CHR '':'') (pad_num w n) = pad_num w n"
  using pad_num_no_sep [of w n] by (auto simp: filter_id_conv)

lemma takeWhile_pad_num [simp]:
  "takeWhile (\<lambda>c. c \<noteq> CHR ''.'') (pad_num w n @ rest) = pad_num w n @ takeWhile (\<lambda>c. c \<noteq> CHR ''.'') rest"
  using pad_num_no_sep [of w n] by (subst takeWhile_append2) auto

lemma pad_num_numeral:
  "pad_num (numeral k) n = pad_num (pred_numeral k) (n div 10) @ [digit_char n]"
  by (subst numeral_eq_Suc [of k]) (rule pad_num.simps(2))

lemma pad_num_1: "pad_num 1 n = [digit_char n]"
  by (simp add: One_nat_def)

text \<open>
  Claim C29. \<open>formatDate\<close> prints the ISO 8601 basic format: for an instant whose year is
  between 0 and 9999, it is the four-digit year, two-digit month and day, \<open>T\<close>, hours,
  minutes, seconds and \<open>Z\<close>, sixteen characters, the separators and milliseconds removed.
\<close>

theorem format_date_basic:
  assumes c: "civil_from_days (t div 86400000) = (y, m, d)" and y: "0 \<le> y" "y \<le> 9999"
  shows "format_date t =
      pad_num 4 (nat y) @ pad_num 2 m @ pad_num 2 d @ ''T'' @
      pad_num 2 (nat (t mod 86400000) div 3600000) @ pad_num 2 (nat (t mod 86400000) div 60000 mod 60) @
      pad_num 2 (nat (t mod 86400000) div 1000 mod 60) @ ''Z'' \<and>
    length (format_date t) = 16"
  using c y by (simp add: format_date_def iso_string_def iso_year_def Let_def)

theorem format_date_basic_witness:
  "format_date 1740819600000 = ''20250301T090000Z'' \<and> length (format_date 1740819600000) = 16"
proof -
  have c: "civil_from_days (1740819600000 div 86400000) = (2025, 3, 1)"
    unfolding civil_from_days_def Let_def by simp
  from format_date_basic [OF c] show ?thesis by (simp add: pad_num_numeral pad_num_1 digit_char_def)
qed

text \<open>A slot created from local wall-clock times keeps them; the invitation reproduces the instants.\<close>

lemma create_slot_local_times:
  assumes ab: "a < b" and b: "b < 86400" and free: "overlapping_slots st f D a b = []"
  shows "\<exists>st' x. create_slot tz st f (Some (D * 86400000 + int a * 1000 - tz))
              (Some (D * 86400000 + int b * 1000 - tz)) (Some (D * 86400000)) = Inr (st', x) \<and>
     date x = D \<and> start_time x = a \<and> end_time x = b \<and>
     ed_start (meet_event_details tz x fac sch) = iso_string (D * 86400000 + int a * 1000 - tz) \<and>
     ed_end (meet_event_details tz x fac sch) = iso_string (D * 86400000 + int b * 1000 - tz)"
proof -
  have a: "a < 86400" using ab b by simp
  have ta: "time_only tz (D * 86400000 + int a * 1000 - tz) = a" by (rule time_only_local [OF a])
  have tb: "time_only tz (D * 86400000 + int b * 1000 - tz) = b" by (rule time_only_local [OF b])
  have lt: "\<not> D * 86400000 + int b * 1000 - tz \<le> D * 86400000 + int a * 1000 - tz" using ab by simp
  show ?thesis
    using free lt by (simp add: create_slot_def Let_def ta tb date_only_day new_slot_def
        meet_event_details_def local_instant_def)
qed

lemma digit_char_inj: "digit_char a = digit_char b \<Longrightarrow> a mod 10 = b mod 10"
proof -
  assume e: "digit_char a = digit_char b"
  have "distinct ''0123456789''" by simp
  moreover have "a mod 10 < length ''0123456789''" "b mod 10 < length ''0123456789''" by simp_all
  ultimately show ?thesis using e unfolding digit_char_def by (simp add: nth_eq_iff_index_eq)
qed

lemma pad_num_inj: "pad_num w a = pad_num w b \<Longrightarrow> a mod 10 ^ w = b mod 10 ^ w"
proof (induction w arbitrary: a b)
  case 0 then show ?case by simp
next
  case (Suc w)
  from Suc.prems have p: "pad_num w (a div 10) = pad_num w (b div 10)" and d: "digit_char a = digit_char b"
    by simp_all
  have "a mod 10 ^ Suc w = 10 * (a div 10 mod 10 ^ w) + a mod 10"
    and "b mod 10 ^ Suc w = 10 * (b div 10 mod 10 ^ w) + b mod 10"
    by (simp_all add: mod_mult2_eq)
  with Suc.IH [OF p] digit_char_inj [OF d] show ?case by simp
qed

lemma ms_parts:
  fixes ms :: nat
  shows "ms = 3600000 * (ms div 3600000) + 60000 * (ms div 60000 mod 60) + 1000 * (ms div 1000 mod 60) + ms mod 1000"
proof -
  have "ms mod (60000 * 60) = 60000 * (ms div 60000 mod 60) + ms mod 60000" by (rule mod_mult2_eq)
  moreover have "ms mod (1000 * 60) = 1000 * (ms div 1000 mod 60) + ms mod 1000" by (rule mod_mult2_eq)
  moreover have "ms = 3600000 * (ms div 3600000) + ms mod 3600000" by simp
  ultimately show ?thesis by simp
qed

lemma iso_string_time:
  "\<exists>P. iso_string t = P @ pad_num 2 (nat (t mod 86400000) div 3600000) @ '':'' @
     pad_num 2 (nat (t mod 86400000) div 60000 mod 60) @ '':'' @ pad_num 2 (nat (t mod 86400000) div 1000 mod 60) @
     ''.'' @ pad_num 3 (nat (t mod 86400000) mod 1000) @ ''Z''"
  by (auto simp: iso_string_def Let_def split: prod.splits)

lemma iso_string_time_inj:
  assumes e: "iso_string t1 = iso_string t2"
  shows "t1 mod 86400000 = t2 mod 86400000"
proof -
  define m1 where "m1 = nat (t1 mod 86400000)"
  define m2 where "m2 = nat (t2 mod 86400000)"
  obtain P1 where p1: "iso_string t1 = P1 @ pad_num 2 (m1 div 3600000) @ '':'' @ pad_num 2 (m1 div 60000 mod 60) @ '':'' @
      pad_num 2 (m1 div 1000 mod 60) @ ''.'' @ pad_num 3 (m1 mod 1000) @ ''Z''"
    using iso_string_time [of t1] unfolding m1_def by blast
  obtain P2 where p2: "iso_string t2 = P2 @ pad_num 2 (m2 div 3600000) @ '':'' @ pad_num 2 (m2 div 60000 mod 60) @ '':'' @
      pad_num 2 (m2 div 1000 mod 60) @ ''.'' @ pad_num 3 (m2 mod 1000) @ ''Z''"
    using iso_string_time [of t2] unfolding m2_def by blast
  have "pad_num 2 (m1 div 3600000) @ '':'' @ pad_num 2 (m1 div 60000 mod 60) @ '':'' @
      pad_num 2 (m1 div 1000 mod 60) @ ''.'' @ pad_num 3 (m1 mod 1000) @ ''Z'' =
    pad_num 2 (m2 div 3600000) @ '':'' @ pad_num 2 (m2 div 60000 mod 60) @ '':'' @
      pad_num 2 (m2 div 1000 mod 60) @ ''.'' @ pad_num 3 (m2 mod 1000) @ ''Z''"
    using e unfolding p1 p2 by (rule append_eq_append_conv [THEN iffD1, THEN conjunct2, rotated]) simp
  then have "pad_num 2 (m1 div 3600000) = pad_num 2 (m2 div 3600000) \<and>
      pad_num 2 (m1 div 60000 mod 60) = pad_num 2 (m2 div 60000 mod 60) \<and>
      pad_num 2 (m1 div 1000 mod 60) = pad_num 2 (m2 div 1000 mod 60) \<and>
      pad_num 3 (m1 mod 1000) = pad_num 3 (m2 mod 1000)"
    by (simp add: append_eq_append_conv)
  then have c1: "pad_num 2 (m1 div 3600000) = pad_num 2 (m2 div 3600000)"
    and c2: "pad_num 2 (m1 div 60000 mod 60) = pad_num 2 (m2 div 60000 mod 60)"
    and c3: "pad_num 2 (m1 div 1000 mod 60) = pad_num 2 (m2 div 1000 mod 60)"
    and c4: "pad_num 3 (m1 mod 1000) = pad_num 3 (m2 mod 1000)" by blast+
  have small: "n < 10 ^ w \<Longrightarrow> n' < 10 ^ w \<Longrightarrow> pad_num w n = pad_num w n' \<Longrightarrow> n = n'" for w n n'
    by (drule pad_num_inj) simp
  have b1: "m1 < 86400000" and b2: "m2 < 86400000" unfolding m1_def m2_def by (simp_all add: nat_less_iff)
  have "m1 div 3600000 < 10 ^ 2" using b1 by simp
  moreover have "m2 div 3600000 < 10 ^ 2" using b2 by simp
  ultimately have e1: "m1 div 3600000 = m2 div 3600000" using c1 by (rule small)
  have e2: "m1 div 60000 mod 60 = m2 div 60000 mod 60" by (rule small [OF _ _ c2]) simp_all
  have e3: "m1 div 1000 mod 60 = m2 div 1000 mod 60" by (rule small [OF _ _ c3]) simp_all
  have e4: "m1 mod 1000 = m2 mod 1000" by (rule small [OF _ _ c4]) simp_all
  from e1 e2 e3 e4 have "m1 = m2" by (subst ms_parts, subst (2) ms_parts) (simp only:)
  then show ?thesis unfolding m1_def m2_def by simp
qed

text \<open>
  Claim C30. The invitation's times are the slot's wall-clock times read in the server's zone:
  the start sent to the Calendar API is the instant of the slot's date and start time in the
  server's local time, and on every server whose offset from UTC is not a whole number of days
  it is a different instant from the one the specification (4.4) derives from date and start
  time in UTC.
\<close>

theorem invite_server_local_time:
  assumes "tz mod 86400000 \<noteq> 0"
  shows "ed_start (meet_event_details tz x fac sch) = iso_string (date x * 86400000 + int (start_time x) * 1000 - tz) \<and>
    ed_start (meet_event_details tz x fac sch) \<noteq> iso_string (date x * 86400000 + int (start_time x) * 1000)"
proof -
  let ?u = "date x * 86400000 + int (start_time x) * 1000"
  have s: "ed_start (meet_event_details tz x fac sch) = iso_string (?u - tz)"
    by (simp add: meet_event_details_def local_instant_def)
  have "iso_string (?u - tz) \<noteq> iso_string ?u"
  proof
    assume "iso_string (?u - tz) = iso_string ?u"
    then have "(?u - tz) mod 86400000 = ?u mod 86400000" by (rule iso_string_time_inj)
    then have "(86400000::int) dvd (?u - tz) - ?u" by (simp only: mod_eq_dvd_iff)
    then have "(86400000::int) dvd tz" by (simp add: dvd_minus_iff)
    with assms show False by simp
  qed
  with s show ?thesis by simp
qed

theorem invite_server_local_time_witness:
  "ed_start (meet_event_details 19800000 (new_slot 4 1 20148 32400 36000)
      \<lparr>p_name = Some ''F'', p_email = ''f@x.org''\<rparr> \<lparr>p_name = Some ''S'', p_email = ''s@x.org''\<rparr>) =
     iso_string (20148 * 86400000 + int 32400 * 1000 - 19800000) \<and>
   ed_start (meet_event_details 19800000 (new_slot 4 1 20148 32400 36000)
      \<lparr>p_name = Some ''F'', p_email = ''f@x.org''\<rparr> \<lparr>p_name = Some ''S'', p_email = ''s@x.org''\<rparr>) \<noteq>
     iso_string (20148 * 86400000 + int 32400 * 1000)"
proof -
  have h: "(19800000::int) mod 86400000 \<noteq> 0" by simp
  have d: "date (new_slot 4 1 20148 32400 36000) = 20148" "start_time (new_slot 4 1 20148 32400 36000) = 32400"
    by (simp_all add: new_slot_def)
  from invite_server_local_time [OF h, of "new_slot 4 1 20148 32400 36000"
      "\<lparr>p_name = Some ''F'', p_email = ''f@x.org''\<rparr>" "\<lparr>p_name = Some ''S'', p_email = ''s@x.org''\<rparr>", unfolded d]
  show ?thesis .
qed

text \<open>
  Claim C31. The invitation does not carry the scholar's notes: for every successful booking
  with non-empty notes of a slot whose stored row had none (as every row \<open>POST /slots\<close>
  creates), the booked row keeps the request's notes, but the event details the handler sends
  are built from the row it read before the update and end in
  \<open>Notes: No additional notes\<close>.
\<close>

theorem invite_ignores_request_notes:
  assumes b: "book_slot st me k (Some n) rnd p = Inr (st', y, l)" and n: "n \<noteq> []"
    and none: "\<forall>z\<in>set (slots st). slot_id z = k \<longrightarrow> slot_notes z = None"
  shows "slot_notes y = Some n \<and>
    (\<exists>ed pre. booking_invite tz st k fac sch = Some ed \<and> ed_description ed = pre @ ''Notes: No additional notes'')"
proof -
  obtain x where chk: "book_check st k = Some x"
    using b by (cases "book_check st k") (simp_all add: book_slot_def)
  have "slot_notes x = None" using book_check_SomeD [OF chk] none by blast
  then have "\<exists>pre. ed_description (meet_event_details tz x fac sch) = pre @ ''Notes: No additional notes''"
    by (simp add: meet_event_details_def notes_text_def)
  moreover have "slot_notes y = Some n"
    using book_slot_row [OF b] n by (auto simp: book_update_def)
  ultimately show ?thesis using chk by (simp add: booking_invite_def)
qed

theorem invite_ignores_request_notes_witness:
  "slot_notes (fst (snd (projr (book_slot (empty_db\<lparr>slots := [new_slot 0 7 0 32400 36000], next_id := 1\<rparr>) 9 0
      (Some ''bring laptop'') (\<lambda>i. i) Prov_failed)))) = Some ''bring laptop'' \<and>
   (\<exists>ed pre. booking_invite 0 (empty_db\<lparr>slots := [new_slot 0 7 0 32400 36000], next_id := 1\<rparr>) 0
      \<lparr>p_name = Some ''F'', p_email = ''f@x.org''\<rparr> \<lparr>p_name = Some ''S'', p_email = ''s@x.org''\<rparr> = Some ed \<and>
      ed_description ed = pre @ ''Notes: No additional notes'')"
proof -
  let ?st = "empty_db\<lparr>slots := [new_slot 0 7 0 32400 36000], next_id := 1\<rparr>"
  have ids: "distinct (map slot_id (slots ?st))" and mem: "new_slot 0 7 0 32400 36000 \<in> set (slots ?st)"
    and k: "slot_id (new_slot 0 7 0 32400 36000) = 0" and av: "status (new_slot 0 7 0 32400 36000) = Available"
    by (simp_all add: new_slot_def)
  note e = book_slot_eq [OF ids mem k av, of 9 "Some ''bring laptop''" "\<lambda>i. i" Prov_failed]
  have none: "\<forall>z\<in>set (slots ?st). slot_id z = 0 \<longrightarrow> slot_notes z = None" by (simp add: new_slot_def)
  have n: "''bring laptop'' \<noteq> []" by simp
  from invite_ignores_request_notes [OF e n none, of 0 "\<lparr>p_name = Some ''F'', p_email = ''f@x.org''\<rparr>"
      "\<lparr>p_name = Some ''S'', p_email = ''s@x.org''\<rparr>"]
  show ?thesis by (simp only: e sum.sel fst_conv snd_conv)
qed

end
