(* ===== verification/Frontend.thy ===== *)
theory Frontend
  imports Calendar "HOL-Library.AList"
begin

text \<open>
  The React frontend (\<open>src/frontend/src\<close> and the pages concatenated in
  \<open>src/unnamed/part_001\<close>): the route table of \<open>App.jsx\<close> with its \<open>PrivateRoute\<close>
  guards, the dashboard cards, the requests each page sends, the grouping of available
  slots by date, the faculty's slot form and delete button, and the booking panels. A page
  is modelled by what it decides (which view, which request, which element is shown), not by
  its markup. The signed-in user is the user of the auth context (\<open>None\<close> when signed out).
\<close>

section \<open>Routes\<close>

datatype page = Login_page | Dashboard_page | Available_page | Bookings_page
  | Faculty_slots_page | Admin_page

datatype view = Spinner | Navigate string | Show page

text \<open>
  The children of the \<open>/\<close> route (App.jsx lines 61--87): the roles of an inner
  \<open>PrivateRoute\<close> and the element; the index route navigates to the dashboard.
\<close>

definition child_routes :: "(string \<times> role list option \<times> view) list" where
  "child_routes =
     [(''/'', None, Navigate ''/dashboard''),
      (''/dashboard'', None, Show Dashboard_page),
      (''/slots'', None, Show Available_page),
      (''/my-bookings'', Some [Scholar], Show Bookings_page),
      (''/faculty/slots'', Some [Faculty, Admin], Show Faculty_slots_page),
      (''/admin'', Some [Admin], Show Admin_page)]"

definition guard_view :: "route_outcome \<Rightarrow> view \<Rightarrow> view" where
  "guard_view out v = (case out of Show_spinner \<Rightarrow> Spinner | Redirect_to p \<Rightarrow> Navigate p | Render_page \<Rightarrow> v)"

text \<open>
  \<open>App()\<close> (lines 34--93): the spinner while the session loads; \<open>/login\<close> redirects a
  signed-in user; a child of \<open>/\<close> passes the outer \<open>PrivateRoute\<close> (any signed-in user)
  and its own; any other path navigates to the dashboard.
\<close>

definition app_view :: "bool \<Rightarrow> role option \<Rightarrow> string \<Rightarrow> view" where
  "app_view loading user path =
     (if loading then Spinner
      else if path = ''/login'' then (case user of Some _ \<Rightarrow> Navigate ''/dashboard'' | None \<Rightarrow> Show Login_page)
      else case map_of child_routes path of
        Some (rs, v) \<Rightarrow> guard_view (private_route False user None) (guard_view (private_route False user rs) v)
      | None \<Rightarrow> Navigate ''/dashboard'')"

section \<open>Dashboard\<close>

text \<open>
  \<open>Dashboard()\<close> (part_001 lines 301--376): the cards shown for the user's role, each a
  title and the link of its \<open>DashboardCard\<close> (\<open>None\<close> for the information card, which
  \<open>DashboardCard\<close> renders without a link, lines 379--398).
\<close>

definition role_description :: "role option \<Rightarrow> string" where
  "role_description r =
     (case r of
        Some Scholar \<Rightarrow> ''Browse available time slots, book assignment demo sessions with faculty, and manage your bookings.''
      | Some Faculty \<Rightarrow> ''Create time slots for students to book, view your scheduled sessions, and manage your availability.''
      | Some Admin \<Rightarrow> ''Manage all users, promote scholars to faculty role, create slots, and oversee the entire system.''
      | None \<Rightarrow> ''Welcome to the Assignment Scheduler platform.'')"

definition dashboard_cards :: "role option \<Rightarrow> (string \<times> string option) list" where
  "dashboard_cards r =
     (if r = Some Scholar then [(''Browse Available Slots'', Some ''/slots''), (''My Bookings'', Some ''/my-bookings'')] else []) @
     (if r = Some Faculty \<or> r = Some Admin
      then [(''Manage My Slots'', Some ''/faculty/slots''), (''Available Slots'', Some ''/slots'')] else []) @
     (if r = Some Admin then [(''Admin Panel'', Some ''/admin'')] else []) @
     [(''How It Works'', None)]"

section \<open>Requests a page sends\<close>

text \<open>
  A request of the frontend, by the backend route it calls; \<open>route_gate\<close> is the
  \<open>requireRole\<close> of that route in \<open>users.js\<close> (\<open>None\<close>: no role gate).
\<close>

datatype api_call = Get_faculties | Get_available | Post_book slot_key | Get_my_bookings
  | Get_my_slots | Post_slot | Delete_slot_call slot_key

fun route_gate :: "api_call \<Rightarrow> role list option" where
  "route_gate Get_faculties = None"
| "route_gate Get_available = None"
| "route_gate (Post_book _) = Some [Scholar]"
| "route_gate Get_my_bookings = Some [Scholar]"
| "route_gate Get_my_slots = Some [Faculty, Admin]"
| "route_gate Post_slot = Some [Faculty, Admin]"
| "route_gate (Delete_slot_call _) = Some [Faculty, Admin]"

text \<open>
  \<open>handleBookSlot\<close> (AvailableSlots.jsx lines 48--56): a user who is not a scholar gets a
  toast and no request is sent.
\<close>

definition book_click :: "role \<Rightarrow> slot_key \<Rightarrow> api_call option" where
  "book_click r k = (if r \<noteq> Scholar then None else Some (Post_book k))"

text \<open>
  The requests a page can send for a user of role \<open>r\<close> over the slots it lists: on load
  and on filter changes (\<open>useEffect\<close>), and from the buttons it renders (AvailableSlots.jsx
  shows \<open>Book Slot\<close> to scholars only, line 199; FacultySlots shows \<open>Delete\<close> on available
  slots only, part_001 lines 281--289). The admin panel's code is not in the repository.
\<close>

fun page_calls :: "page \<Rightarrow> role \<Rightarrow> slot list \<Rightarrow> api_call list" where
  "page_calls Available_page r xs =
     [Get_faculties, Get_available] @
     (if r = Scholar then List.map_filter (\<lambda>x. book_click r (slot_id x)) xs else [])"
| "page_calls Bookings_page r xs = [Get_my_bookings]"
| "page_calls Faculty_slots_page r xs =
     [Get_my_slots, Post_slot] @ map (\<lambda>x. Delete_slot_call (slot_id x)) (filter (\<lambda>x. status x = Available) xs)"
| "page_calls _ r xs = []"

section \<open>Available slots grouped by date\<close>

text \<open>
  \<open>fetchSlots\<close> (AvailableSlots.jsx lines 31--46): the query parameters are sent only when
  the filters are set, so the listing of \<open>GET /slots/available\<close> is filtered accordingly.
\<close>

definition page_slots :: "db \<Rightarrow> day \<Rightarrow> day option \<Rightarrow> uid option \<Rightarrow> slot list" where
  "page_slots st today sel_date sel_fac = available_slots st today sel_fac sel_date"

text \<open>
  \<open>groupSlotsByDate\<close> (lines 100--109): an object keyed by date, each key created at the
  first slot of its date and the slot pushed to its list. Object keys that are not array
  indices keep insertion order, so the groups are an association list in that order.
\<close>

definition group_push :: "(day \<times> slot list) list \<Rightarrow> slot \<Rightarrow> (day \<times> slot list) list" where
  "group_push g x =
     (case map_of g (date x) of
        None \<Rightarrow> g @ [(date x, [x])]
      | Some ys \<Rightarrow> AList.update (date x) (ys @ [x]) g)"

definition group_slots_by_date :: "slot list \<Rightarrow> (day \<times> slot list) list" where
  "group_slots_by_date xs = foldl group_push [] xs"

text \<open>The reference: one group per date in the order dates first occur.\<close>

definition first_dates :: "slot list \<Rightarrow> day list" where
  "first_dates xs = rev (remdups (rev (map date xs)))"

definition groups_ref :: "slot list \<Rightarrow> (day \<times> slot list) list" where
  "groups_ref xs = map (\<lambda>d. (d, filter (\<lambda>x. date x = d) xs)) (first_dates xs)"

section \<open>The faculty's slot form\<close>

text \<open>
  \<open>handleCreateSlot\<close> (part_001 lines 35--57): the form holds a date and two times of day
  (minutes); the body is \<open>{date, start_time: `${date}T${start}:00`, end_time}\<close>. The
  backend's \<open>isISO8601().toDate()\<close> reads a date alone as UTC midnight and a date-time
  without offset in the server's local time.
\<close>

record slot_form =
  fd_date :: day
  fd_start :: nat
  fd_end :: nat

definition form_body :: "int \<Rightarrow> slot_form \<Rightarrow> timestamp option \<times> timestamp option \<times> timestamp option" where
  "form_body tz fm =
     (Some (fd_date fm * 86400000 + int (fd_start fm) * 60000 - tz),
      Some (fd_date fm * 86400000 + int (fd_end fm) * 60000 - tz),
      Some (fd_date fm * 86400000))"

definition submit_slot_form :: "int \<Rightarrow> db \<Rightarrow> uid \<Rightarrow> slot_form \<Rightarrow> (db \<times> slot) response" where
  "submit_slot_form tz st f fm =
     (case form_body tz fm of (s, e, d) \<Rightarrow> create_slot tz st f s e d)"

text \<open>\<open>handleDeleteSlot\<close> (lines 59--72): nothing is sent unless the user confirms.\<close>

definition delete_click :: "bool \<Rightarrow> slot_key \<Rightarrow> api_call option" where
  "delete_click confirmed k = (if confirmed then Some (Delete_slot_call k) else None)"

section \<open>Slot panels\<close>

text \<open>
  What a booking panel shows (ScholarBookings.jsx lines 66--150, FacultySlots part_001 lines
  193--290): the notes when non-empty, the meeting link when there is one and the slot is
  booked, and on the faculty page the scholar of a booked slot and the delete button of an
  available one.
\<close>

record panel =
  pn_notes :: "string option"
  pn_meet_link :: "string option"
  pn_delete :: bool

definition slot_panel :: "slot \<Rightarrow> panel" where
  "slot_panel x =
     \<lparr>pn_notes = (case slot_notes x of Some n \<Rightarrow> if n = [] then None else Some n | None \<Rightarrow> None),
      pn_meet_link = (case meeting_link x of
                        Some l \<Rightarrow> if l \<noteq> [] \<and> status x = Booked then Some l else None
                      | None \<Rightarrow> None),
      pn_delete = (status x = Available)\<rparr>"

text \<open>\<open>getStatusColor\<close> of the faculty page (lines 74--89) and of the bookings page (29--40).\<close>

definition faculty_status_color :: "slot_status \<Rightarrow> string" where
  "faculty_status_color s =
     (case s of Available \<Rightarrow> ''bg-green-100 text-green-800'' | Booked \<Rightarrow> ''bg-blue-100 text-blue-800''
      | Completed \<Rightarrow> ''bg-gray-100 text-gray-800'' | Cancelled \<Rightarrow> ''bg-red-100 text-red-800'')"

definition scholar_status_color :: "slot_status \<Rightarrow> string" where
  "scholar_status_color s =
     (case s of Booked \<Rightarrow> ''bg-green-100 text-green-800'' | Completed \<Rightarrow> ''bg-blue-100 text-blue-800''
      | Cancelled \<Rightarrow> ''bg-red-100 text-red-800'' | Available \<Rightarrow> ''bg-gray-100 text-gray-800'')"

section \<open>Lemmas\<close>

lemma child_route_cases:
  "map_of child_routes path = Some (rs, v) \<Longrightarrow>
   (path = ''/'' \<and> rs = None \<and> v = Navigate ''/dashboard'') \<or>
   (path = ''/dashboard'' \<and> rs = None \<and> v = Show Dashboard_page) \<or>
   (path = ''/slots'' \<and> rs = None \<and> v = Show Available_page) \<or>
   (path = ''/my-bookings'' \<and> rs = Some [Scholar] \<and> v = Show Bookings_page) \<or>
   (path = ''/faculty/slots'' \<and> rs = Some [Faculty, Admin] \<and> v = Show Faculty_slots_page) \<or>
   (path = ''/admin'' \<and> rs = Some [Admin] \<and> v = Show Admin_page)"
  by (drule map_of_SomeD) (auto simp: child_routes_def)

lemma shown_page_role:
  assumes "app_view False (Some r) path = Show pg"
  shows "(pg = Bookings_page \<longrightarrow> r = Scholar) \<and> (pg = Faculty_slots_page \<longrightarrow> r = Faculty \<or> r = Admin) \<and>
    (pg = Admin_page \<longrightarrow> r = Admin) \<and> pg \<noteq> Login_page"
proof (cases "path = ''/login''")
  case True with assms show ?thesis by (simp add: app_view_def)
next
  case False
  then obtain rs v where m: "map_of child_routes path = Some (rs, v)"
    using assms by (cases "map_of child_routes path") (auto simp: app_view_def)
  with assms False have "guard_view (private_route False (Some r) None) (guard_view (private_route False (Some r) rs) v) = Show pg"
    by (simp add: app_view_def)
  with child_route_cases [OF m] show ?thesis
    by (auto simp: guard_view_def private_route_def split: if_splits)
qed

lemma first_dates_snoc:
  "first_dates (xs @ [x]) = (if date x \<in> date ` set xs then first_dates xs else first_dates xs @ [date x])"
  by (auto simp: first_dates_def)

lemma map_of_groups_ref:
  "map_of (groups_ref xs) d = (if d \<in> date ` set xs then Some (filter (\<lambda>x. date x = d) xs) else None)"
proof -
  have "d \<in> set (first_dates xs) \<longleftrightarrow> d \<in> date ` set xs" by (auto simp: first_dates_def)
  then show ?thesis
    by (auto simp: groups_ref_def map_of_map_restrict restrict_map_def o_def map_of_map)
qed

lemma update_groups_ref:
  "distinct ds \<Longrightarrow> d \<in> set ds \<Longrightarrow>
   AList.update d v (map (\<lambda>d'. (d', f d')) ds) = map (\<lambda>d'. (d', if d' = d then v else f d')) ds"
proof (induction ds)
  case Nil then show ?case by simp
next
  case (Cons a ds)
  show ?case
  proof (cases "a = d")
    case True
    with Cons.prems have "\<forall>d'\<in>set ds. d' \<noteq> d" by auto
    with True show ?thesis by (simp cong: map_cong)
  next
    case False
    with Cons show ?thesis by simp
  qed
qed

lemma distinct_first_dates: "distinct (first_dates xs)"
  by (simp add: first_dates_def)

lemma group_push_ref: "group_push (groups_ref xs) x = groups_ref (xs @ [x])"
proof (cases "date x \<in> date ` set xs")
  case True
  have m: "map_of (groups_ref xs) (date x) = Some (filter (\<lambda>y. date y = date x) xs)"
    by (simp add: map_of_groups_ref True)
  have in1: "date x \<in> set (first_dates xs)" using True by (auto simp: first_dates_def)
  have "group_push (groups_ref xs) x = AList.update (date x) (filter (\<lambda>y. date y = date x) xs @ [x]) (groups_ref xs)"
    by (simp add: group_push_def m)
  also have "\<dots> = map (\<lambda>d'. (d', if d' = date x then filter (\<lambda>y. date y = date x) xs @ [x]
                                   else filter (\<lambda>y. date y = d') xs)) (first_dates xs)"
    unfolding groups_ref_def by (rule update_groups_ref [OF distinct_first_dates in1])
  also have "\<dots> = groups_ref (xs @ [x])"
    unfolding groups_ref_def by (auto simp: first_dates_snoc True intro!: map_cong)
  finally show ?thesis .
next
  case False
  then have "filter (\<lambda>y. date y = date x) xs = []" by (auto simp: filter_empty_conv image_iff)
  moreover have "map_of (groups_ref xs) (date x) = None" by (simp add: map_of_groups_ref False)
  moreover have "\<forall>d\<in>set (first_dates xs). date x \<noteq> d" using False by (auto simp: first_dates_def)
  ultimately show ?thesis using False
    by (simp add: group_push_def groups_ref_def first_dates_snoc cong: map_cong)
qed

lemma first_dates_Cons: "first_dates (x # xs) = date x # removeAll (date x) (first_dates xs)"
proof -
  have "rev (remdups (L @ [a])) = a # removeAll a (rev (remdups L))" for L :: "day list" and a
    by (induction L) auto
  then show ?thesis by (simp add: first_dates_def)
qed

lemma concat_groups_sorted:
  "sorted (map date xs) \<Longrightarrow> concat (map snd (groups_ref xs)) = xs"
proof (induction xs)
  case Nil then show ?case by (simp add: groups_ref_def first_dates_def)
next
  case (Cons x xs)
  have s: "sorted (map date xs)" and le: "\<forall>y\<in>set xs. date x \<le> date y" using Cons.prems by auto
  let ?F = "\<lambda>d. filter (\<lambda>y. date y = d) xs"
  have ih: "concat (map ?F (first_dates xs)) = xs" using Cons.IH [OF s] by (simp add: groups_ref_def o_def)
  have other: "concat (map (\<lambda>d. filter (\<lambda>y. date y = d) (x # xs)) (removeAll (date x) (first_dates xs))) =
      concat (map ?F (removeAll (date x) (first_dates xs)))"
    by (rule arg_cong [where f = concat], rule map_cong) auto
  have "concat (map snd (groups_ref (x # xs))) = x # ?F (date x) @ concat (map ?F (removeAll (date x) (first_dates xs)))"
    using other by (simp add: groups_ref_def first_dates_Cons o_def)
  also have "\<dots> = x # xs"
  proof (cases "date x \<in> date ` set xs")
    case False
    then have "?F (date x) = []" by (auto simp: filter_empty_conv image_iff)
    moreover have "removeAll (date x) (first_dates xs) = first_dates xs"
      using False by (auto simp: first_dates_def)
    ultimately show ?thesis using ih by simp
  next
    case True
    then obtain y ys where xs: "xs = y # ys" by (cases xs) auto
    have "date x = date y"
    proof -
      from True obtain z where "z \<in> set xs" "date z = date x" by auto
      with s xs have "date y \<le> date x" by auto
      with le xs show ?thesis by auto
    qed
    then have "removeAll (date x) (first_dates xs) = removeAll (date y) (first_dates ys)"
      by (simp add: xs first_dates_Cons)
    moreover have "concat (map ?F (first_dates xs)) = ?F (date y) @ concat (map ?F (removeAll (date y) (first_dates ys)))"
      by (simp add: xs first_dates_Cons)
    ultimately show ?thesis using ih \<open>date x = date y\<close> by simp
  qed
  finally show ?case .
qed

lemma sorted_map_fst_pair:
  "sorted (map (\<lambda>x. (f x, g x)) xs) \<Longrightarrow> sorted (map f xs)"
  by (induction xs) (auto simp: less_eq_prod_def)

lemma page_slots_sorted: "sorted (map date (page_slots st today d f))"
proof -
  have "sorted (map (\<lambda>x. (date x, start_time x)) (page_slots st today d f))"
    by (simp add: page_slots_def available_slots_def by_date_time_def)
  then show ?thesis by (rule sorted_map_fst_pair)
qed

lemma booked_row:
  "z \<in> set (update_where (\<lambda>y. slot_id y = k) (book_update me nts l) xs) \<Longrightarrow> slot_id z = k \<Longrightarrow>
   scholar_id z = Some me \<and> status z = Booked \<and> meeting_link z = (case l of Some v \<Rightarrow> Some v | None \<Rightarrow> meeting_link z)"
  by (induction xs) (auto simp: book_update_def split: if_splits option.splits)

text \<open>
  Claim C32. Every card of the dashboard leads to a page the user may open: for every role,
  each link of a card shown to a signed-in user of that role renders a page instead of
  redirecting.
\<close>

theorem dashboard_links_render:
  "\<forall>(t, l)\<in>set (dashboard_cards (Some r)). \<forall>p. l = Some p \<longrightarrow> (\<exists>pg. app_view False (Some r) p = Show pg)"
  by (cases r) (auto simp: dashboard_cards_def app_view_def child_routes_def guard_view_def private_route_def)

theorem dashboard_links_render_witness:
  "\<exists>pg. app_view False (Some Admin) ''/admin'' = Show pg"
  using dashboard_links_render [of Admin] by (simp add: dashboard_cards_def)

text \<open>
  Claim C33. No page sends a request its role gate refuses: whenever a signed-in user of role
  \<open>r\<close> sees a page, every request that page can send for that user (on load, on filter
  changes, from the buttons it shows) goes to a route without a gate or whose
  \<open>requireRole\<close> admits \<open>r\<close>.
\<close>

theorem pages_respect_gates:
  assumes "app_view False (Some r) path = Show pg" and "c \<in> set (page_calls pg r xs)"
  shows "case route_gate c of None \<Rightarrow> True | Some rs \<Rightarrow> r \<in> set rs"
proof -
  note sp = shown_page_role [OF assms(1)]
  show ?thesis
  proof (cases pg)
    case Available_page
    with assms(2) show ?thesis
      by (auto simp: book_click_def List.map_filter_def split: if_splits)
  qed (use assms(2) sp in auto)
qed

theorem pages_respect_gates_witness:
  "case route_gate (Post_book 0) of None \<Rightarrow> True | Some rs \<Rightarrow> Scholar \<in> set rs"
  by (rule pages_respect_gates [of Scholar "''/slots''" Available_page _ "[new_slot 0 7 0 32400 36000]"])
     (simp_all add: app_view_def child_routes_def guard_view_def private_route_def book_click_def
        List.map_filter_def new_slot_def)

text \<open>
  Claim C34. \<open>groupSlotsByDate\<close> equals its reference: the groups are one per date, in
  the order the dates first occur, each holding the slots of that date in listing order.
\<close>

theorem group_slots_by_date_ref: "group_slots_by_date xs = groups_ref xs"
proof (induction xs rule: rev_induct)
  case Nil then show ?case by (simp add: group_slots_by_date_def groups_ref_def first_dates_def)
next
  case (snoc x xs)
  then show ?case by (simp add: group_slots_by_date_def group_push_ref)
qed

text \<open>
  Claim C35. The available-slots page shows every listed slot exactly once: the groups of the
  listing of \<open>GET /slots/available\<close> concatenate to the listing itself (it is sorted by
  date), and no date is shown twice.
\<close>

theorem available_page_groups:
  "concat (map snd (group_slots_by_date (page_slots st today d f))) = page_slots st today d f \<and>
   distinct (map fst (group_slots_by_date (page_slots st today d f)))"
proof -
  have c: "concat (map snd (groups_ref (page_slots st today d f))) = page_slots st today d f"
    by (rule concat_groups_sorted [OF page_slots_sorted])
  have "map fst (groups_ref (page_slots st today d f)) = first_dates (page_slots st today d f)"
    by (simp add: groups_ref_def o_def)
  with c show ?thesis by (simp add: group_slots_by_date_ref distinct_first_dates)
qed

text \<open>
  Claim C28. A slot entered through the faculty form keeps its times end to end: for any
  server offset, submitting date and times of day (start before end, within the day, no
  overlap) creates the slot with exactly that date and those times, and the meeting
  invitation starts and ends at the instants the form's local date-times denote.
\<close>

theorem slot_form_roundtrip:
  assumes lt: "fd_start fm < fd_end fm" and day: "fd_end fm < 1440"
    and free: "overlapping_slots st f (fd_date fm) (60 * fd_start fm) (60 * fd_end fm) = []"
  shows "\<exists>st' x. submit_slot_form tz st f fm = Inr (st', x) \<and>
     date x = fd_date fm \<and> start_time x = 60 * fd_start fm \<and> end_time x = 60 * fd_end fm \<and>
     ed_start (meet_event_details tz x fac sch) = iso_string (fd_date fm * 86400000 + int (fd_start fm) * 60000 - tz) \<and>
     ed_end (meet_event_details tz x fac sch) = iso_string (fd_date fm * 86400000 + int (fd_end fm) * 60000 - tz)"
proof -
  have a: "60 * fd_start fm < 60 * fd_end fm" and b: "60 * fd_end fm < 86400" using lt day by simp_all
  have e: "int (fd_start fm) * 60000 = int (60 * fd_start fm) * 1000" "int (fd_end fm) * 60000 = int (60 * fd_end fm) * 1000"
    by simp_all
  show ?thesis
    using create_slot_local_times [OF a b free, of tz fac sch]
    by (simp add: submit_slot_form_def form_body_def e)
qed

theorem slot_form_roundtrip_witness:
  "\<exists>st' x. submit_slot_form 19800000 empty_db 1 \<lparr>fd_date = 20148, fd_start = 540, fd_end = 600\<rparr> = Inr (st', x) \<and>
     date x = 20148 \<and> start_time x = 32400 \<and> end_time x = 36000 \<and>
     ed_start (meet_event_details 19800000 x \<lparr>p_name = Some ''F'', p_email = ''f@x.org''\<rparr> \<lparr>p_name = Some ''S'', p_email = ''s@x.org''\<rparr>) =
       iso_string (20148 * 86400000 + int 540 * 60000 - 19800000) \<and>
     ed_end (meet_event_details 19800000 x \<lparr>p_name = Some ''F'', p_email = ''f@x.org''\<rparr> \<lparr>p_name = Some ''S'', p_email = ''s@x.org''\<rparr>) =
       iso_string (20148 * 86400000 + int 600 * 60000 - 19800000)"
  using slot_form_roundtrip [of "\<lparr>fd_date = 20148, fd_start = 540, fd_end = 600\<rparr>" empty_db 1 19800000]
  by (simp add: overlapping_slots_def empty_db_def)

text \<open>
  Claim C36. The delete button is offered only where deletion succeeds: for a slot in the
  faculty's own listing whose panel shows \<open>Delete\<close>, the deletion request of its owner is
  answered with the slot removed (never the 403 of a booked slot).
\<close>

theorem delete_button_succeeds:
  assumes ids: "distinct (map slot_id (slots st))" and x: "x \<in> set (my_slots st f)"
    and btn: "pn_delete (slot_panel x)"
  shows "delete_slot st f (slot_id x) = Inr (st\<lparr>slots := filter (\<lambda>y. slot_id y \<noteq> slot_id x) (slots st)\<rparr>)"
proof -
  have "x \<in> set (slots st)" and "faculty_id x = f" using x by (auto simp: my_slots_def by_date_time_def)
  note l = owned_slot_lookup [OF ids this(1) refl this(2)]
  have "status x = Available" using btn by (simp add: slot_panel_def)
  with l show ?thesis by (simp add: delete_slot_def)
qed

theorem delete_button_succeeds_witness:
  "delete_slot (empty_db\<lparr>slots := [new_slot 0 7 0 32400 36000], next_id := 1\<rparr>) 7 0 =
   Inr (empty_db\<lparr>slots := [], next_id := 1\<rparr>)"
proof -
  have "distinct (map slot_id (slots (empty_db\<lparr>slots := [new_slot 0 7 0 32400 36000], next_id := 1\<rparr>)))"
    and "new_slot 0 7 0 32400 36000 \<in> set (my_slots (empty_db\<lparr>slots := [new_slot 0 7 0 32400 36000], next_id := 1\<rparr>) 7)"
    and "pn_delete (slot_panel (new_slot 0 7 0 32400 36000))"
    by (simp_all add: new_slot_def my_slots_def by_date_time_def slot_panel_def)
  from delete_button_succeeds [OF this] show ?thesis by (simp add: new_slot_def)
qed

text \<open>
  Claim C37. A successful booking with a meeting link is listed with that link: the booked
  row is among the scholar's bookings of \<open>GET /slots/my-bookings\<close> and its panel shows
  the link.
\<close>

theorem booking_shows_link:
  assumes b: "book_slot st me k nts rnd p = Inr (st', y, Some l)" and l: "l \<noteq> []"
  shows "y \<in> set (my_bookings st' me) \<and> pn_meet_link (slot_panel y) = Some l"
proof -
  obtain x where chk: "book_check st k = Some x" using b by (cases "book_check st k") (simp_all add: book_slot_def)
  then have cm: "book_commit st me k nts (Some l) = Inr (st', y)"
    using b by (cases "book_commit st me k nts (create_real_google_meet rnd p)")
      (auto simp: book_slot_def Let_def)
  then have f: "book_fetch (book_write st me k nts (Some l)) k = Some y"
    and st': "st' = book_write st me k nts (Some l)"
    by (auto simp: book_commit_def Let_def split: option.splits)
  from f have "filter (\<lambda>x. slot_id x = k) (slots (book_write st me k nts (Some l))) = [y]"
    by (simp add: book_fetch_def single_Some_iff)
  then have "y \<in> set (filter (\<lambda>x. slot_id x = k) (slots st'))" using st' by simp
  then have yin: "y \<in> set (slots st')" and yk: "slot_id y = k" by simp_all
  have "scholar_id y = Some me \<and> status y = Booked \<and> meeting_link y = Some l"
    using booked_row [of y k me nts "Some l" "slots st"] yin yk st' by (simp add: book_write_def)
  with yin l show ?thesis by (simp add: my_bookings_def by_date_time_def slot_panel_def)
qed

theorem booking_shows_link_witness:
  "\<exists>st' y. book_slot (empty_db\<lparr>slots := [new_slot 0 7 0 32400 36000], next_id := 1\<rparr>) 9 0 None (\<lambda>i. i)
       (Prov_created (Some ''https://meet.google.com/abc'') None) = Inr (st', y, Some ''https://meet.google.com/abc'') \<and>
     y \<in> set (my_bookings st' 9) \<and> pn_meet_link (slot_panel y) = Some ''https://meet.google.com/abc''"
proof -
  have ids: "distinct (map slot_id (slots (empty_db\<lparr>slots := [new_slot 0 7 0 32400 36000], next_id := 1\<rparr>)))"
    by (simp add: new_slot_def)
  have mem: "new_slot 0 7 0 32400 36000 \<in> set (slots (empty_db\<lparr>slots := [new_slot 0 7 0 32400 36000], next_id := 1\<rparr>))"
    by simp
  have k: "slot_id (new_slot 0 7 0 32400 36000) = 0" and av: "status (new_slot 0 7 0 32400 36000) = Available"
    by (simp_all add: new_slot_def)
  have l: "create_real_google_meet (\<lambda>i. i) (Prov_created (Some ''https://meet.google.com/abc'') None) = Some ''https://meet.google.com/abc''"
    by (simp add: create_real_google_meet_def meet_link_of_def)
  note chk = book_check_Some [OF ids mem k av]
  note cm = book_commit_Inr [OF ids mem k, of 9 None "Some ''https://meet.google.com/abc''"]
  obtain st' y where b: "book_slot (empty_db\<lparr>slots := [new_slot 0 7 0 32400 36000], next_id := 1\<rparr>) 9 0 None (\<lambda>i. i)
       (Prov_created (Some ''https://meet.google.com/abc'') None) = Inr (st', y, Some ''https://meet.google.com/abc'')"
    using chk cm l by (simp add: book_slot_def Let_def)
  from b booking_shows_link [OF b] show ?thesis by blast
qed

end
