(* ===== verification/Pages.thy ===== *)
theory Pages
  imports Frontend
begin

text \<open>
  The pages of the frontend as React components: each page's state (its \<open>useState\<close>
  hooks) is a record, the things that happen to it (mount, input changes, clicks, the
  answers of its requests) a datatype of events, and its reaction a step function answering
  the new state and the effects it starts (requests, toasts, the sign-in call). The render
  is a function of the state. Pages: \<open>AvailableSlots.jsx\<close>, \<open>ScholarBookings.jsx\<close>,
  \<open>FacultySlots\<close> (\<open>src/unnamed/part_001\<close> lines 1--290) and \<open>Login.jsx\<close>. The last
  section composes a page with the backend handlers it calls.
\<close>

section \<open>Effects\<close>

text \<open>
  What a handler of a page starts: a request (the \<open>axios\<close> call), a toast, or the
  \<open>loginWithGoogle\<close> call of the auth context. \<open>Toast_booked\<close> is the success toast of
  a booking with the meeting link and the calendar link of the answer.
\<close>

datatype effect =
    Send api_call
  | Toast_success string
  | Toast_error string
  | Toast_booked "string option" string
  | Sign_in "string option"

fun err_text :: "http_error \<Rightarrow> string" where
  "err_text (Err400 m) = m"
| "err_text (Err401 m) = m"
| "err_text (Err403 m) = m"
| "err_text (Err404 m) = m"
| "err_text (Err409 m) = m"
| "err_text (Err500 m) = m"

text \<open>
  \<open>toast.error(error.response?.data?.error || fallback)\<close>: the message of the error
  answer; the fallback when there is no answer (a network failure, \<open>None\<close>) or its
  message is empty.
\<close>

definition error_toast :: "http_error option \<Rightarrow> string \<Rightarrow> effect" where
  "error_toast e fb =
     Toast_error (case e of Some err \<Rightarrow> if err_text err = [] then fb else err_text err | None \<Rightarrow> fb)"

text \<open>The list part of a page: the spinner, the empty-state message, or the entries.\<close>

datatype 'a listing = Listing_loading | Listing_empty string | Listing 'a

section \<open>AvailableSlots\<close>

text \<open>
  The state (AvailableSlots.jsx lines 11--15): the slots, the loading flag, the two
  filters (the empty string of an unset filter is \<open>None\<close>) and the faculties of the
  filter's options.
\<close>

record avail_state =
  av_slots :: "slot list"
  av_loading :: bool
  av_date :: "day option"
  av_faculty :: "uid option"
  av_faculties :: "user_row list"

definition avail_init :: avail_state where
  "avail_init = \<lparr>av_slots = [], av_loading = True, av_date = None, av_faculty = None, av_faculties = []\<rparr>"

datatype avail_event =
    Av_mount
  | Av_pick_date "day option"
  | Av_pick_faculty "uid option"
  | Av_faculties_loaded "user_row list"
  | Av_faculties_failed
  | Av_slots_loaded "slot list"
  | Av_slots_failed
  | Av_click_book slot_key
  | Av_book_ok "string option" string
  | Av_book_failed "http_error option"

text \<open>\<open>fetchSlots\<close> (lines 31--46) sets the loading flag and sends the listing request.\<close>

definition avail_fetch_slots :: "avail_state \<Rightarrow> avail_state \<times> effect list" where
  "avail_fetch_slots s = (s\<lparr>av_loading := True\<rparr>, [Send Get_available])"

text \<open>The effect of lines 17--20: \<open>fetchFaculties()\<close>, then \<open>fetchSlots()\<close>.\<close>

definition avail_fetch :: "avail_state \<Rightarrow> avail_state \<times> effect list" where
  "avail_fetch s = (let (s', es) = avail_fetch_slots s in (s', Send Get_faculties # es))"

text \<open>
  The reactions: the effect runs on mount and when a filter changes value (React compares
  the dependencies); the answers set the state (a failed faculty request only logs); the
  book button runs \<open>handleBookSlot\<close> (lines 48--98), whose success shows the links and
  reloads the slots.
\<close>

fun avail_step :: "role \<Rightarrow> avail_state \<Rightarrow> avail_event \<Rightarrow> avail_state \<times> effect list" where
  "avail_step r s Av_mount = avail_fetch s"
| "avail_step r s (Av_pick_date d) = (if d = av_date s then (s, []) else avail_fetch (s\<lparr>av_date := d\<rparr>))"
| "avail_step r s (Av_pick_faculty f) =
     (if f = av_faculty s then (s, []) else avail_fetch (s\<lparr>av_faculty := f\<rparr>))"
| "avail_step r s (Av_faculties_loaded fs) = (s\<lparr>av_faculties := fs\<rparr>, [])"
| "avail_step r s Av_faculties_failed = (s, [])"
| "avail_step r s (Av_slots_loaded xs) = (s\<lparr>av_slots := xs, av_loading := False\<rparr>, [])"
| "avail_step r s Av_slots_failed =
     (s\<lparr>av_loading := False\<rparr>, [Toast_error ''Failed to load available slots''])"
| "avail_step r s (Av_click_book k) =
     (case book_click r k of
        None \<Rightarrow> (s, [Toast_error ''Only scholars can book slots''])
      | Some c \<Rightarrow> (s, [Send c]))"
| "avail_step r s (Av_book_ok ml cl) = (let (s', es) = avail_fetch_slots s in (s', Toast_booked ml cl # es))"
| "avail_step r s (Av_book_failed e) = (s, [error_toast e ''Failed to book slot''])"

text \<open>The options of the faculty filter (lines 143--148): all faculties, then each by id.\<close>

definition faculty_options :: "avail_state \<Rightarrow> (uid option \<times> string) list" where
  "faculty_options s = (None, ''All Faculties'') # map (\<lambda>u. (Some (user_id u), name u)) (av_faculties s)"

text \<open>
  The list (lines 155--219): the spinner while loading, the empty message when no group
  exists, else each date's slots, each with whether its \<open>Book Slot\<close> button is shown.
\<close>

definition avail_view :: "role \<Rightarrow> avail_state \<Rightarrow> (day \<times> (slot \<times> bool) list) list listing" where
  "avail_view r s =
     (if av_loading s then Listing_loading
      else let g = group_slots_by_date (av_slots s) in
        if g = [] then Listing_empty ''No available slots found''
        else Listing (map (\<lambda>(d, xs). (d, map (\<lambda>x. (x, r = Scholar)) xs)) g))"

section \<open>ScholarBookings\<close>

record bookings_state =
  bk_bookings :: "slot list"
  bk_loading :: bool

definition bookings_init :: bookings_state where
  "bookings_init = \<lparr>bk_bookings = [], bk_loading = True\<rparr>"

datatype bookings_event = Bk_mount | Bk_loaded "slot list" | Bk_failed

text \<open>\<open>fetchBookings\<close> on mount (lines 12--27).\<close>

fun bookings_step :: "bookings_state \<Rightarrow> bookings_event \<Rightarrow> bookings_state \<times> effect list" where
  "bookings_step s Bk_mount = (s\<lparr>bk_loading := True\<rparr>, [Send Get_my_bookings])"
| "bookings_step s (Bk_loaded xs) = (s\<lparr>bk_bookings := xs, bk_loading := False\<rparr>, [])"
| "bookings_step s Bk_failed = (s\<lparr>bk_loading := False\<rparr>, [Toast_error ''Failed to load your bookings''])"

text \<open>The list (lines 49--150): each booking with its status badge colour and its panel.\<close>

definition bookings_view :: "bookings_state \<Rightarrow> (slot \<times> string \<times> panel) list listing" where
  "bookings_view s =
     (if bk_loading s then Listing_loading
      else if bk_bookings s = [] then Listing_empty ''You haven't booked any slots yet''
      else Listing (map (\<lambda>x. (x, scholar_status_color (status x), slot_panel x)) (bk_bookings s)))"

section \<open>FacultySlots\<close>

text \<open>
  The form's inputs (part_001 lines 12--16): a date and two times of day in minutes,
  \<open>None\<close> while the input is empty.
\<close>

record form_input =
  fi_date :: "day option"
  fi_start :: "nat option"
  fi_end :: "nat option"

definition empty_form :: form_input where
  "empty_form = \<lparr>fi_date = None, fi_start = None, fi_end = None\<rparr>"

text \<open>
  The browser submits the form only when every \<open>required\<close> input is filled and the date
  is not before the input's \<open>min\<close>, \<open>new Date().toISOString().split('T')[0]\<close> (line
  123): the current UTC day \<open>today\<close>, not the user's local day.
\<close>

definition form_of :: "day \<Rightarrow> form_input \<Rightarrow> slot_form option" where
  "form_of today fi =
     (case (fi_date fi, fi_start fi, fi_end fi) of
        (Some d, Some a, Some b) \<Rightarrow> if today \<le> d then Some \<lparr>fd_date = d, fd_start = a, fd_end = b\<rparr> else None
      | _ \<Rightarrow> None)"

record faculty_state =
  fs_slots :: "slot list"
  fs_loading :: bool
  fs_show_form :: bool
  fs_form :: form_input

definition faculty_init :: faculty_state where
  "faculty_init = \<lparr>fs_slots = [], fs_loading = True, fs_show_form = False, fs_form = empty_form\<rparr>"

datatype faculty_event =
    Fs_mount
  | Fs_toggle_form
  | Fs_cancel_form
  | Fs_open_form
  | Fs_edit_date "day option"
  | Fs_edit_start "nat option"
  | Fs_edit_end "nat option"
  | Fs_submit
  | Fs_created
  | Fs_create_failed "http_error option"
  | Fs_click_delete slot_key bool
  | Fs_deleted
  | Fs_delete_failed "http_error option"
  | Fs_slots_loaded "slot list"
  | Fs_slots_failed

text \<open>\<open>fetchSlots\<close> (lines 22--33).\<close>

definition faculty_fetch :: "faculty_state \<Rightarrow> faculty_state \<times> effect list" where
  "faculty_fetch s = (s\<lparr>fs_loading := True\<rparr>, [Send Get_my_slots])"

text \<open>
  The reactions: the header button toggles the form (line 97), its \<open>Cancel\<close> closes it
  (159), the empty state's button opens it (184); the inputs set their field (120--151);
  \<open>handleCreateSlot\<close> (35--57) sends the form and on success closes and clears it and
  reloads, on failure keeps it; \<open>handleDeleteSlot\<close> (59--72) asks for confirmation.
\<close>

fun faculty_step :: "day \<Rightarrow> faculty_state \<Rightarrow> faculty_event \<Rightarrow> faculty_state \<times> effect list" where
  "faculty_step today s Fs_mount = faculty_fetch s"
| "faculty_step today s Fs_toggle_form = (s\<lparr>fs_show_form := \<not> fs_show_form s\<rparr>, [])"
| "faculty_step today s Fs_cancel_form = (s\<lparr>fs_show_form := False\<rparr>, [])"
| "faculty_step today s Fs_open_form = (s\<lparr>fs_show_form := True\<rparr>, [])"
| "faculty_step today s (Fs_edit_date d) = (s\<lparr>fs_form := (fs_form s)\<lparr>fi_date := d\<rparr>\<rparr>, [])"
| "faculty_step today s (Fs_edit_start t) = (s\<lparr>fs_form := (fs_form s)\<lparr>fi_start := t\<rparr>\<rparr>, [])"
| "faculty_step today s (Fs_edit_end t) = (s\<lparr>fs_form := (fs_form s)\<lparr>fi_end := t\<rparr>\<rparr>, [])"
| "faculty_step today s Fs_submit =
     (case form_of today (fs_form s) of None \<Rightarrow> (s, []) | Some _ \<Rightarrow> (s, [Send Post_slot]))"
| "faculty_step today s Fs_created =
     (let (s', es) = faculty_fetch (s\<lparr>fs_show_form := False, fs_form := empty_form\<rparr>)
      in (s', Toast_success ''Slot created successfully!'' # es))"
| "faculty_step today s (Fs_create_failed e) = (s, [error_toast e ''Failed to create slot''])"
| "faculty_step today s (Fs_click_delete k ok) =
     (case delete_click ok k of None \<Rightarrow> (s, []) | Some c \<Rightarrow> (s, [Send c]))"
| "faculty_step today s Fs_deleted =
     (let (s', es) = faculty_fetch s in (s', Toast_success ''Slot deleted successfully!'' # es))"
| "faculty_step today s (Fs_delete_failed e) = (s, [error_toast e ''Failed to delete slot''])"
| "faculty_step today s (Fs_slots_loaded xs) = (s\<lparr>fs_slots := xs, fs_loading := False\<rparr>, [])"
| "faculty_step today s Fs_slots_failed = (s\<lparr>fs_loading := False\<rparr>, [Toast_error ''Failed to load your slots''])"

text \<open>
  The render (lines 89--290): the header button's label, whether the form is shown, and
  the list, each slot with its status badge colour and panel.
\<close>

definition faculty_view ::
  "faculty_state \<Rightarrow> string \<times> bool \<times> (slot \<times> string \<times> panel) list listing" where
  "faculty_view s =
     (if fs_show_form s then ''Cancel'' else ''+ Create Slot'', fs_show_form s,
      if fs_loading s then Listing_loading
      else if fs_slots s = [] then Listing_empty ''You haven't created any slots yet''
      else Listing (map (\<lambda>x. (x, faculty_status_color (status x), slot_panel x)) (fs_slots s)))"

section \<open>Login\<close>

text \<open>
  \<open>Login()\<close> (Login.jsx lines 4--17): the Google button's success passes the credential to
  \<open>loginWithGoogle\<close>; its error is only logged.
\<close>

datatype google_result = Google_success "string option" | Google_error

definition login_handler :: "google_result \<Rightarrow> effect list" where
  "login_handler g = (case g of Google_success c \<Rightarrow> [Sign_in c] | Google_error \<Rightarrow> [])"

text \<open>A page runs a list of events from a state, collecting the effects in order.\<close>

fun run_page :: "('s \<Rightarrow> 'e \<Rightarrow> 's \<times> effect list) \<Rightarrow> 's \<Rightarrow> 'e list \<Rightarrow> 's \<times> effect list" where
  "run_page step s [] = (s, [])"
| "run_page step s (e # es) =
     (let (s1, out1) = step s e; (s2, out2) = run_page step s1 es in (s2, out1 @ out2))"

section \<open>Pages and backend together\<close>

text \<open>
  The answer of \<open>POST /slots/:slotId/book\<close> as the page reads it (users.js lines
  553--563): the meeting link and the calendar link built from the re-fetched row, its
  faculty and the caller.
\<close>

definition book_answer ::
  "int \<Rightarrow> db \<Rightarrow> uid \<Rightarrow> slot_key \<Rightarrow> string option \<Rightarrow> (nat \<Rightarrow> nat) \<Rightarrow> provisioning \<Rightarrow>
   person \<Rightarrow> person \<Rightarrow> (db \<times> slot \<times> string option \<times> string) response" where
  "book_answer tz st me k nts rnd p fac sch =
     (case book_slot st me k nts rnd p of
        Inl err \<Rightarrow> Inl err
      | Inr (st', y, ml) \<Rightarrow> Inr (st', y, ml, generate_calendar_link tz y fac sch))"

text \<open>
  A scholar's click on \<open>Book Slot\<close> served by the backend: the request (sent without a
  body, so without notes), its answer, and on success the reload of the listing under the
  page's filters.
\<close>

definition scholar_book ::
  "int \<Rightarrow> db \<Rightarrow> day \<Rightarrow> uid \<Rightarrow> avail_state \<Rightarrow> slot_key \<Rightarrow> (nat \<Rightarrow> nat) \<Rightarrow> provisioning \<Rightarrow>
   person \<Rightarrow> person \<Rightarrow> db \<times> avail_state \<times> effect list" where
  "scholar_book tz st today me s k rnd p fac sch =
     (case book_answer tz st me k None rnd p fac sch of
        Inl err \<Rightarrow> (st, run_page (avail_step Scholar) s [Av_click_book k, Av_book_failed (Some err)])
      | Inr (st', _, ml, cl) \<Rightarrow>
          (st', run_page (avail_step Scholar) s
             [Av_click_book k, Av_book_ok ml cl, Av_slots_loaded (page_slots st' today (av_date s) (av_faculty s))]))"

text \<open>
  The faculty's submission of the form served by the backend: nothing is sent while an
  input is empty; otherwise the answer of \<open>POST /slots\<close> and on success the reload of the
  faculty's slots.
\<close>

definition faculty_submit :: "int \<Rightarrow> day \<Rightarrow> db \<Rightarrow> uid \<Rightarrow> faculty_state \<Rightarrow> db \<times> faculty_state \<times> effect list" where
  "faculty_submit tz today st f s =
     (case form_of today (fs_form s) of
        None \<Rightarrow> (st, run_page (faculty_step today) s [Fs_submit])
      | Some fm \<Rightarrow>
          (case submit_slot_form tz st f fm of
             Inl err \<Rightarrow> (st, run_page (faculty_step today) s [Fs_submit, Fs_create_failed (Some err)])
           | Inr (st', _) \<Rightarrow>
               (st', run_page (faculty_step today) s [Fs_submit, Fs_created, Fs_slots_loaded (my_slots st' f)])))"

section \<open>Requests and role gates\<close>

text \<open>An effect respects the role gates for a user of role \<open>r\<close> when it is not a request to a route whose \<open>requireRole\<close> refuses \<open>r\<close>.\<close>

fun gate_ok :: "role \<Rightarrow> effect \<Rightarrow> bool" where
  "gate_ok r (Send c) = (case route_gate c of None \<Rightarrow> True | Some rs \<Rightarrow> r \<in> set rs)"
| "gate_ok r _ = True"

section \<open>Lemmas\<close>


lemma faculty_submit_created:
  assumes f: "form_of today (fs_form s) = Some fm" and c: "submit_slot_form tz st f fm = Inr (st', x)"
  shows "faculty_submit tz today st f s =
     (st', s\<lparr>fs_slots := my_slots st' f, fs_loading := False, fs_show_form := False, fs_form := empty_form\<rparr>,
      [Send Post_slot, Toast_success ''Slot created successfully!'', Send Get_my_slots])"
  using f c by (simp add: faculty_submit_def faculty_fetch_def)

lemma faculty_submit_refused:
  assumes f: "form_of today (fs_form s) = Some fm" and c: "submit_slot_form tz st f fm = Inl err"
  shows "faculty_submit tz today st f s = (st, s, [Send Post_slot, error_toast (Some err) ''Failed to create slot''])"
  using f c by (simp add: faculty_submit_def)

lemma faculty_submit_incomplete:
  "form_of today (fs_form s) = None \<Longrightarrow> faculty_submit tz today st f s = (st, s, [])"
  by (simp add: faculty_submit_def)

lemma set_my_slots [simp]: "set (my_slots st f) = {x \<in> set (slots st). faculty_id x = f}"
  by (auto simp: my_slots_def by_date_time_def)

lemma page_slots_booked:
  assumes "book_slot st me k nts rnd p = Inr (st', y, l)"
  shows "k \<notin> slot_id ` set (page_slots st' today d f)"
proof -
  from book_slot_Inr [OF assms] have "st' = st\<lparr>slots := update_where (\<lambda>y. slot_id y = k) (book_update me nts l) (slots st)\<rparr>"
    by simp
  with booked_after_update [of k me nts l "slots st"] show ?thesis
    by (auto simp: page_slots_def available_slots_def by_date_time_def)
qed

lemma scholar_book_ok:
  assumes "book_answer tz st me k None rnd p fac sch = Inr (st', y, ml, cl)"
  shows "scholar_book tz st today me s k rnd p fac sch =
     (st', s\<lparr>av_slots := page_slots st' today (av_date s) (av_faculty s), av_loading := False\<rparr>,
      [Send (Post_book k), Toast_booked ml cl, Send Get_available])"
  using assms by (simp add: scholar_book_def book_click_def avail_fetch_slots_def)


lemma form_body_times:
  assumes lt: "fd_start fm < fd_end fm" and day: "fd_end fm < 1440"
  shows "time_only tz (fd_date fm * 86400000 + int (fd_start fm) * 60000 - tz) = 60 * fd_start fm \<and>
    time_only tz (fd_date fm * 86400000 + int (fd_end fm) * 60000 - tz) = 60 * fd_end fm \<and>
    date_only (fd_date fm * 86400000) = fd_date fm \<and>
    \<not> fd_date fm * 86400000 + int (fd_end fm) * 60000 - tz \<le> fd_date fm * 86400000 + int (fd_start fm) * 60000 - tz"
proof -
  have a: "60 * fd_start fm < 86400" and b: "60 * fd_end fm < 86400" using lt day by simp_all
  have e: "int (fd_start fm) * 60000 = int (60 * fd_start fm) * 1000" "int (fd_end fm) * 60000 = int (60 * fd_end fm) * 1000"
    by simp_all
  have "time_only tz (fd_date fm * 86400000 + int (fd_start fm) * 60000 - tz) = 60 * fd_start fm"
    unfolding e(1) by (rule time_only_local [OF a])
  moreover have "time_only tz (fd_date fm * 86400000 + int (fd_end fm) * 60000 - tz) = 60 * fd_end fm"
    unfolding e(2) by (rule time_only_local [OF b])
  ultimately show ?thesis using lt by (simp add: date_only_day)
qed

lemma submit_slot_form_eq:
  assumes lt: "fd_start fm < fd_end fm" and day: "fd_end fm < 1440"
  shows "submit_slot_form tz st f fm =
     (if overlapping_slots st f (fd_date fm) (60 * fd_start fm) (60 * fd_end fm) \<noteq> []
      then Inl (Err409 ''Time slot overlaps with existing slot'')
      else Inr (st\<lparr>slots := slots st @ [new_slot (next_id st) f (fd_date fm) (60 * fd_start fm) (60 * fd_end fm)],
             next_id := Suc (next_id st)\<rparr>,
          new_slot (next_id st) f (fd_date fm) (60 * fd_start fm) (60 * fd_end fm)))"
  using form_body_times [OF lt day, of tz]
  unfolding submit_slot_form_def form_body_def create_slot_def Let_def
  by (simp only: prod.case option.case if_False)

text \<open>
  A complete form for a free interval within one day: the slot is created with the typed
  date and times, the form is closed and cleared, the success toast is shown, and the
  reloaded list shows the new slot with its \<open>Delete\<close> button.
\<close>

lemma faculty_page_new_slot:
  assumes fm: "form_of today (fs_form s) = Some fm" and lt: "fd_start fm < fd_end fm" and day: "fd_end fm < 1440"
    and free: "overlapping_slots st f (fd_date fm) (60 * fd_start fm) (60 * fd_end fm) = []"
  shows "\<exists>st' x. faculty_submit tz today st f s = (st', s\<lparr>fs_slots := my_slots st' f, fs_loading := False,
        fs_show_form := False, fs_form := empty_form\<rparr>,
        [Send Post_slot, Toast_success ''Slot created successfully!'', Send Get_my_slots]) \<and>
     x \<in> set (my_slots st' f) \<and> date x = fd_date fm \<and> start_time x = 60 * fd_start fm \<and>
     end_time x = 60 * fd_end fm \<and> pn_delete (slot_panel x)"
proof -
  define x where "x = new_slot (next_id st) f (fd_date fm) (60 * fd_start fm) (60 * fd_end fm)"
  define st' where "st' = st\<lparr>slots := slots st @ [x], next_id := Suc (next_id st)\<rparr>"
  have c: "submit_slot_form tz st f fm = Inr (st', x)"
    unfolding submit_slot_form_eq [OF lt day] using free by (simp add: x_def st'_def)
  have "x \<in> set (my_slots st' f)" by (simp add: st'_def x_def new_slot_def)
  moreover have "date x = fd_date fm \<and> start_time x = 60 * fd_start fm \<and> end_time x = 60 * fd_end fm \<and>
      pn_delete (slot_panel x)" by (simp add: x_def new_slot_def slot_panel_def)
  ultimately show ?thesis using faculty_submit_created [OF fm c] by blast
qed

text \<open>An overlapping interval: nothing is stored, the form stays open with its inputs, and the toast shows the backend's 409 message.\<close>

lemma faculty_page_overlap:
  assumes fm: "form_of today (fs_form s) = Some fm" and lt: "fd_start fm < fd_end fm" and day: "fd_end fm < 1440"
    and busy: "overlapping_slots st f (fd_date fm) (60 * fd_start fm) (60 * fd_end fm) \<noteq> []"
  shows "faculty_submit tz today st f s = (st, s, [Send Post_slot, Toast_error ''Time slot overlaps with existing slot''])"
proof -
  have "submit_slot_form tz st f fm = Inl (Err409 ''Time slot overlaps with existing slot'')"
    unfolding submit_slot_form_eq [OF lt day] by (simp only: busy not_False_eq_True if_True)
  from faculty_submit_refused [OF fm this] show ?thesis by (simp add: error_toast_def)
qed

lemma book_answer_Inr:
  "book_answer tz st me k nts rnd p fac sch = Inr (st', y, ml, cl) \<longleftrightarrow>
   book_slot st me k nts rnd p = Inr (st', y, ml) \<and> cl = generate_calendar_link tz y fac sch"
  by (auto simp: book_answer_def split: sum.splits prod.splits)

text \<open>
  A successful booking from the page: the toast carries the answer's meeting link and a
  well-formed calendar link, and the reloaded listing no longer offers the slot.
\<close>

lemma scholar_page_booked:
  assumes b: "book_slot st me k None rnd p = Inr (st', y, ml)"
  shows "scholar_book tz st today me s k rnd p fac sch =
       (st', s\<lparr>av_slots := page_slots st' today (av_date s) (av_faculty s), av_loading := False\<rparr>,
        [Send (Post_book k), Toast_booked ml (generate_calendar_link tz y fac sch), Send Get_available]) \<and>
     k \<notin> slot_id ` set (page_slots st' today (av_date s) (av_faculty s)) \<and>
     (\<exists>q. generate_calendar_link tz y fac sch = calendar_prefix @ q \<and> form_urlencoded q)"
proof -
  have a: "book_answer tz st me k None rnd p fac sch = Inr (st', y, ml, generate_calendar_link tz y fac sch)"
    using b by (simp add: book_answer_Inr)
  show ?thesis
    using scholar_book_ok [OF a] page_slots_booked [OF b]
    by (simp add: generate_calendar_link_def form_urlencoded_url_search_params)
qed

lemma scholar_page_unavailable:
  assumes "book_check st k = None"
  shows "scholar_book tz st today me s k rnd p fac sch =
     (st, s, [Send (Post_book k), Toast_error ''Slot not available''])"
  using assms by (simp add: scholar_book_def book_answer_def book_slot_def book_click_def error_toast_def)


lemma gate_ok_error_toast [simp]: "gate_ok r (error_toast e fb)"
  by (simp add: error_toast_def)

lemma run_page_effects:
  assumes "\<And>s e. \<forall>ef\<in>set (snd (step s e)). P ef"
  shows "\<forall>ef\<in>set (snd (run_page step s es)). P ef"
proof (induction es arbitrary: s)
  case Nil then show ?case by simp
next
  case (Cons e es)
  from assms [of s e] Cons.IH [of "fst (step s e)"] show ?case by (auto simp: split_def Let_def)
qed

text \<open>
  Whatever events a page goes through, every request it sends passes the role gate of its
  route for a user that may open the page: the invariant of \<open>pages_respect_gates\<close>
  over whole event sequences.
\<close>

lemma faculty_page_gate:
  assumes "r = Faculty \<or> r = Admin"
  shows "\<forall>ef\<in>set (snd (run_page (faculty_step today) s es)). gate_ok r ef"
proof (rule run_page_effects)
  fix s e show "\<forall>ef\<in>set (snd (faculty_step today s e)). gate_ok r ef"
    using assms by (cases e) (auto simp: faculty_fetch_def delete_click_def Let_def
        split: option.splits)
qed

lemma avail_page_gate: "\<forall>ef\<in>set (snd (run_page (avail_step r) s es)). gate_ok r ef"
proof (rule run_page_effects)
  fix s e show "\<forall>ef\<in>set (snd (avail_step r s e)). gate_ok r ef"
    by (cases e) (auto simp: avail_fetch_def avail_fetch_slots_def book_click_def split: option.splits if_splits)
qed

lemma bookings_page_gate: "\<forall>ef\<in>set (snd (run_page bookings_step s es)). gate_ok Scholar ef"
proof (rule run_page_effects)
  fix s e show "\<forall>ef\<in>set (snd (bookings_step s e)). gate_ok Scholar ef"
    by (cases e) simp_all
qed

text \<open>
  The listing shows whichever answer arrives last, not the answer to the current filters:
  after the date filter is set to \<open>d\<close>, a late answer of the unfiltered request sent on
  mount replaces the filtered one, and every available slot of another date is listed under
  the filter.
\<close>

lemma avail_stale_answer:
  assumes "x \<in> set (page_slots st today None None)" and "date x \<noteq> d"
  shows "av_date (fst (run_page (avail_step r) avail_init
      [Av_mount, Av_pick_date (Some d), Av_slots_loaded (page_slots st today (Some d) None),
       Av_slots_loaded (page_slots st today None None)])) = Some d \<and>
    \<not> av_loading (fst (run_page (avail_step r) avail_init
      [Av_mount, Av_pick_date (Some d), Av_slots_loaded (page_slots st today (Some d) None),
       Av_slots_loaded (page_slots st today None None)])) \<and>
    x \<in> set (av_slots (fst (run_page (avail_step r) avail_init
      [Av_mount, Av_pick_date (Some d), Av_slots_loaded (page_slots st today (Some d) None),
       Av_slots_loaded (page_slots st today None None)])))"
  using assms by (simp add: avail_init_def avail_fetch_def avail_fetch_slots_def)

text \<open>
  The date input's \<open>min\<close> is the UTC day: at 20:00 on 2025-03-01 in New York (UTC-5, the
  instant 2025-03-02 01:00 UTC), a faculty member's form for the rest of their own day is
  not submitted, although the backend would accept it.
\<close>

lemma form_min_utc_day:
  "date_only 1740877200000 = 20149 \<and> (1740877200000 + (-18000000)) div 86400000 = (20148::int) \<and>
   faculty_submit (-18000000) (date_only 1740877200000) st f
     (faculty_init\<lparr>fs_show_form := True, fs_form := \<lparr>fi_date = Some 20148, fi_start = Some 1260, fi_end = Some 1320\<rparr>\<rparr>) =
   (st, faculty_init\<lparr>fs_show_form := True, fs_form := \<lparr>fi_date = Some 20148, fi_start = Some 1260, fi_end = Some 1320\<rparr>\<rparr>, []) \<and>
   (\<exists>st' x. submit_slot_form (-18000000) empty_db f \<lparr>fd_date = 20148, fd_start = 1260, fd_end = 1320\<rparr> = Inr (st', x))"
proof -
  have "submit_slot_form (-18000000) empty_db f \<lparr>fd_date = 20148, fd_start = 1260, fd_end = 1320\<rparr> =
      Inr (empty_db\<lparr>slots := [new_slot 0 f 20148 75600 79200], next_id := 1\<rparr>, new_slot 0 f 20148 75600 79200)"
    by (subst submit_slot_form_eq) (simp_all add: overlapping_slots_def empty_db_def)
  then show ?thesis by (simp add: faculty_submit_def form_of_def date_only_def)
qed

end
