(* ===== verification/Page_Requests.thy ===== *)
theory Page_Requests
  imports Pages
begin

text \<open>
  The available-slots page together with the listing requests it has sent and not yet seen
  answered. A request carries the filters of the render that sent it (\<open>fetchSlots\<close> reads
  \<open>selectedDate\<close> and \<open>selectedFaculty\<close> from its closure); the backend answers a pending
  request from the database as it is when the answer is computed, and the database may be
  changed meanwhile by other clients. \<open>listing_run\<close> is the set of reachable
  configurations, with answers delivered in any order or, when \<open>fifo\<close> holds, in the order
  the requests were sent. An answer is either the listing (\<open>setSlots\<close>) or a failure, after
  which the page keeps its list and shows the toast \<open>Failed to load available slots\<close>;
  \<open>ls_failed\<close> records whether the last answer delivered was such a failure.
\<close>

record listing_sys =
  ls_db :: db
  ls_page :: avail_state
  ls_pending :: "(day option \<times> uid option) list"
  ls_failed :: bool

text \<open>The events of the page that are not answers of the listing request.\<close>

fun user_event :: "avail_event \<Rightarrow> bool" where
  "user_event (Av_slots_loaded _) = False"
| "user_event Av_slots_failed = False"
| "user_event _ = True"

text \<open>A page event, with each listing request it sends recorded under the page's filters.\<close>

definition page_event :: "role \<Rightarrow> listing_sys \<Rightarrow> avail_event \<Rightarrow> listing_sys" where
  "page_event r q e =
     (let (s', es) = avail_step r (ls_page q) e
      in q\<lparr>ls_page := s',
           ls_pending := ls_pending q @ replicate (count_list es (Send Get_available)) (av_date s', av_faculty s')\<rparr>)"

text \<open>The answer of the \<open>i\<close>-th pending request, \<open>GET /slots/available\<close> on the current database.\<close>

definition answer_listing :: "role \<Rightarrow> day \<Rightarrow> nat \<Rightarrow> listing_sys \<Rightarrow> listing_sys" where
  "answer_listing r today i q =
     (let (d, f) = ls_pending q ! i
      in q\<lparr>ls_page := fst (avail_step r (ls_page q) (Av_slots_loaded (page_slots (ls_db q) today d f))),
           ls_pending := take i (ls_pending q) @ drop (Suc i) (ls_pending q), ls_failed := False\<rparr>)"

text \<open>The \<open>i\<close>-th pending request fails (the \<open>catch\<close> of \<open>fetchSlots\<close>).\<close>

definition fail_listing :: "role \<Rightarrow> nat \<Rightarrow> listing_sys \<Rightarrow> listing_sys" where
  "fail_listing r i q =
     q\<lparr>ls_page := fst (avail_step r (ls_page q) Av_slots_failed),
       ls_pending := take i (ls_pending q) @ drop (Suc i) (ls_pending q), ls_failed := True\<rparr>"

inductive listing_run :: "day \<Rightarrow> role \<Rightarrow> bool \<Rightarrow> listing_sys \<Rightarrow> bool" for today r fifo where
  init: "listing_run today r fifo \<lparr>ls_db = st, ls_page = avail_init, ls_pending = [], ls_failed = False\<rparr>"
| user: "listing_run today r fifo q \<Longrightarrow> user_event e \<Longrightarrow> listing_run today r fifo (page_event r q e)"
| answer: "listing_run today r fifo q \<Longrightarrow> i < length (ls_pending q) \<Longrightarrow> (fifo \<longrightarrow> i = 0) \<Longrightarrow>
     listing_run today r fifo (answer_listing r today i q)"
| fail: "listing_run today r fifo q \<Longrightarrow> i < length (ls_pending q) \<Longrightarrow> (fifo \<longrightarrow> i = 0) \<Longrightarrow>
     listing_run today r fifo (fail_listing r i q)"
| other_client: "listing_run today r fifo q \<Longrightarrow> listing_run today r fifo (q\<lparr>ls_db := st'\<rparr>)"

text \<open>A slot matches the filters a request was sent with.\<close>

definition matches :: "day option \<Rightarrow> uid option \<Rightarrow> slot \<Rightarrow> bool" where
  "matches d f x \<longleftrightarrow>
     (case d of None \<Rightarrow> True | Some d' \<Rightarrow> date x = d') \<and> (case f of None \<Rightarrow> True | Some f' \<Rightarrow> faculty_id x = f')"


section \<open>Lemmas\<close>









text \<open>
  Answered out of order, as the network allows, it is not: a configuration with nothing
  pending lists a slot of 2025-03-01 under the date filter 2025-03-02.
\<close>

lemma unordered_listing_mismatch:
  "listing_run 0 Scholar False
     \<lparr>ls_db = empty_db\<lparr>slots := [new_slot 0 1 20148 32400 36000], next_id := 1\<rparr>,
      ls_page = \<lparr>av_slots = [new_slot 0 1 20148 32400 36000], av_loading = False, av_date = Some 20149,
                 av_faculty = None, av_faculties = []\<rparr>,
      ls_pending = [], ls_failed = False\<rparr> \<and>
   \<not> matches (Some 20149) None (new_slot 0 1 20148 32400 36000)"
proof -
  let ?st = "empty_db\<lparr>slots := [new_slot 0 1 20148 32400 36000], next_id := 1\<rparr>"
  let ?q0 = "\<lparr>ls_db = ?st, ls_page = avail_init, ls_pending = [], ls_failed = False\<rparr>"
  have r0: "listing_run 0 Scholar False ?q0" by (rule listing_run.init)
  have r1: "listing_run 0 Scholar False (page_event Scholar ?q0 Av_mount)"
    using r0 by (rule listing_run.user) simp
  have r2: "listing_run 0 Scholar False (page_event Scholar (page_event Scholar ?q0 Av_mount) (Av_pick_date (Some 20149)))"
    using r1 by (rule listing_run.user) simp
  have r3: "listing_run 0 Scholar False (answer_listing Scholar 0 1
      (page_event Scholar (page_event Scholar ?q0 Av_mount) (Av_pick_date (Some 20149))))"
    using r2 by (rule listing_run.answer) (simp_all add: page_event_def avail_init_def avail_fetch_def avail_fetch_slots_def)
  have r4: "listing_run 0 Scholar False (answer_listing Scholar 0 0 (answer_listing Scholar 0 1
      (page_event Scholar (page_event Scholar ?q0 Av_mount) (Av_pick_date (Some 20149)))))"
    using r3 by (rule listing_run.answer) (simp_all add: answer_listing_def page_event_def avail_init_def
        avail_fetch_def avail_fetch_slots_def)
  have "answer_listing Scholar 0 0 (answer_listing Scholar 0 1
      (page_event Scholar (page_event Scholar ?q0 Av_mount) (Av_pick_date (Some 20149)))) =
    \<lparr>ls_db = ?st,
      ls_page = \<lparr>av_slots = [new_slot 0 1 20148 32400 36000], av_loading = False, av_date = Some 20149,
                 av_faculty = None, av_faculties = []\<rparr>,
      ls_pending = [], ls_failed = False\<rparr>"
    by (simp add: answer_listing_def page_event_def avail_init_def avail_fetch_def avail_fetch_slots_def
        page_slots_def available_slots_def by_date_time_def new_slot_def)
  with r4 show ?thesis by (simp add: matches_def new_slot_def)
qed

end
