(* ===== verification/Session.thy ===== *)
theory Session
  imports Auth Url_Encoding
begin

text \<open>
  \<open>GET /auth/me\<close> (\<open>src/backend/src/routes/users.js\<close> lines 295--321): the token of the
  \<open>Authorization\<close> header is verified and the user with the token's id is answered. The
  JWT library is a pair of parameters: \<open>sign\<close> (\<open>jwt.sign\<close> of the claims, lines
  272--276) and \<open>verify\<close> (\<open>jwt.verify\<close>, \<open>None\<close> when it throws: bad signature or
  expired).
\<close>

text \<open>\<open>authHeader && authHeader.split(' ')[1]\<close>: the second space-separated word.\<close>

definition bearer_token :: "string option \<Rightarrow> string option" where
  "bearer_token hdr =
     (case hdr of
        None \<Rightarrow> None
      | Some h \<Rightarrow> (case split_on (CHR '' '') h of _ # t # _ \<Rightarrow> if t = [] then None else Some t | _ \<Rightarrow> None))"

definition auth_me :: "(string \<Rightarrow> auth_user option) \<Rightarrow> db \<Rightarrow> string option \<Rightarrow> user_row response" where
  "auth_me verify st hdr =
     (case bearer_token hdr of
        None \<Rightarrow> Inl (Err401 ''Access token required'')
      | Some t \<Rightarrow>
          (case verify t of
             None \<Rightarrow> Inl (Err403 ''Invalid or expired token'')
           | Some a \<Rightarrow>
               (case user_by_id st (au_id a) of
                  None \<Rightarrow> Inl (Err404 ''User not found'')
                | Some u \<Rightarrow> Inr u)))"

section \<open>Lemmas\<close>

lemma bearer_token_sent: "CHR '' '' \<notin> set t \<Longrightarrow> t \<noteq> [] \<Longrightarrow> bearer_token (Some (''Bearer '' @ t)) = Some t"
  by (simp add: bearer_token_def split_on_no_sep)

text \<open>
  Claim C38. The token of a sign-in opens the session: when the JWT library verifies what it
  signs, \<open>GET /auth/me\<close> with \<open>Authorization: Bearer\<close> and the token issued by a
  successful sign-in answers exactly the user that signed in.
\<close>

theorem me_after_login:
  assumes jwt: "verify (sign (issue_token u)) = Some (issue_token u)"
    and tok: "CHR '' '' \<notin> set (sign (issue_token u))" "sign (issue_token u) \<noteq> []"
    and ok: "role_store_ok st" and k: "keys_ok st"
    and h: "google_login st tk (Some p) = Inr (st', u, a)"
  shows "auth_me verify st' (Some (''Bearer '' @ sign a)) = Inr u"
proof -
  have ids: "distinct (map user_id (users st))" using k by (simp add: keys_ok_def)
  note s = google_login_sound [OF ok ids h]
  have ids': "distinct (map user_id (users st'))" using google_login_keys [OF ok k h] by (simp add: keys_ok_def)
  have u: "user_by_id st' (user_id u) = Some u" using user_by_id_Some ids' s by blast
  have a: "a = issue_token u" using s by simp
  have bt: "bearer_token (Some (''Bearer '' @ sign a)) = Some (sign a)"
    unfolding a by (rule bearer_token_sent [OF tok])
  have "au_id (issue_token u) = user_id u" by (simp add: issue_token_def)
  with bt jwt u show ?thesis unfolding auth_me_def a by simp
qed

theorem me_after_login_witness:
  "auth_me (\<lambda>s. if s = ''jwt'' then Some \<lparr>au_id = 0, au_email = ''a@x.org'', au_role = Scholar\<rparr> else None)
     \<lparr>users = [\<lparr>user_id = 0, email = ''a@x.org'', name = ''A'', picture = None, google_id = ''g1'', role = Scholar\<rparr>],
      user_roles = [\<lparr>ur_email = ''a@x.org'', ur_role = Scholar\<rparr>], slots = [], next_id = 1\<rparr>
     (Some ''Bearer jwt'') =
   Inr \<lparr>user_id = 0, email = ''a@x.org'', name = ''A'', picture = None, google_id = ''g1'', role = Scholar\<rparr>"
proof -
  have ok: "role_store_ok empty_db" by (simp add: role_store_ok_def roles_synced_def empty_db_def)
  have k: "keys_ok empty_db" by (simp add: keys_ok_def empty_db_def)
  have "auth_me (\<lambda>s. if s = ''jwt'' then Some \<lparr>au_id = 0, au_email = ''a@x.org'', au_role = Scholar\<rparr> else None)
     \<lparr>users = [\<lparr>user_id = 0, email = ''a@x.org'', name = ''A'', picture = None, google_id = ''g1'', role = Scholar\<rparr>],
      user_roles = [\<lparr>ur_email = ''a@x.org'', ur_role = Scholar\<rparr>], slots = [], next_id = 1\<rparr>
     (Some (''Bearer '' @ (\<lambda>_. ''jwt'') \<lparr>au_id = 0, au_email = ''a@x.org'', au_role = Scholar\<rparr>)) =
   Inr \<lparr>user_id = 0, email = ''a@x.org'', name = ''A'', picture = None, google_id = ''g1'', role = Scholar\<rparr>"
    by (rule me_after_login [OF _ _ _ ok k login_run]) (simp_all add: issue_token_def)
  then show ?thesis by simp
qed

text \<open>
  Claim C39. \<open>GET /auth/me\<close> refuses a missing token with 401 (no header, or a header
  without a second word) and a token the library rejects with 403.
\<close>

theorem auth_me_errors:
  "auth_me verify st None = Inl (Err401 ''Access token required'') \<and>
   auth_me verify st (Some ''Bearer'') = Inl (Err401 ''Access token required'') \<and>
   (verify t = None \<longrightarrow> CHR '' '' \<notin> set t \<longrightarrow> t \<noteq> [] \<longrightarrow>
      auth_me verify st (Some (''Bearer '' @ t)) = Inl (Err403 ''Invalid or expired token''))"
proof -
  have "verify t = None \<longrightarrow> CHR '' '' \<notin> set t \<longrightarrow> t \<noteq> [] \<longrightarrow>
      auth_me verify st (Some (''Bearer '' @ t)) = Inl (Err403 ''Invalid or expired token'')"
  proof (intro impI)
    assume "verify t = None" "CHR '' '' \<notin> set t" "t \<noteq> []"
    moreover from this(2,3) have "bearer_token (Some (''Bearer '' @ t)) = Some t" by (rule bearer_token_sent)
    ultimately show "auth_me verify st (Some (''Bearer '' @ t)) = Inl (Err403 ''Invalid or expired token'')"
      by (simp only: auth_me_def) simp
  qed
  moreover have "auth_me verify st None = Inl (Err401 ''Access token required'')"
    by (simp add: auth_me_def bearer_token_def)
  moreover have "auth_me verify st (Some ''Bearer'') = Inl (Err401 ''Access token required'')"
    by (simp add: auth_me_def bearer_token_def)
  ultimately show ?thesis by blast
qed

theorem auth_me_errors_witness:
  "auth_me (\<lambda>_. None) empty_db (Some ''Bearer x'') = Inl (Err403 ''Invalid or expired token'')"
  using auth_me_errors [of "\<lambda>_. None" empty_db "''x''"] by simp

end
