(* ===== verification/Google_OAuth.thy ===== *)
theory Google_OAuth
  imports Calendar
begin

text \<open>
  The Google OAuth side of the backend: the OAuth client of
  \<open>src/backend/src/config/googleCalendar.js\<close> built from the environment (lines 7--21),
  the authorization request of \<open>getAuthUrl\<close> (78--89), the code exchange of
  \<open>getTokensFromCode\<close> (94--98), the answer of the Calendar API calls (56--72, 140--156),
  and the operator script \<open>src/backend/scripts/getGoogleToken.js\<close> that turns a pasted
  redirect URL into the refresh token. Google's endpoints are inputs: the token exchange is a
  function of the code, and the Calendar API outcome a \<open>provisioning\<close> value.
\<close>

section \<open>The OAuth client\<close>

text \<open>The environment variables the client reads (\<open>None\<close>: unset).\<close>

record env =
  env_client_id :: "string option"
  env_client_secret :: "string option"
  env_redirect_uri :: "string option"
  env_refresh_token :: "string option"

text \<open>JavaScript truthiness of an environment variable: set and not empty.\<close>

definition truthy :: "string option \<Rightarrow> bool" where
  "truthy v = (case v of Some s \<Rightarrow> s \<noteq> [] | None \<Rightarrow> False)"

record token_set =
  tk_access :: "string option"
  tk_refresh :: "string option"
  tk_expiry :: "int option"

record oauth_client =
  oc_client_id :: "string option"
  oc_client_secret :: "string option"
  oc_redirect_uri :: string
  oc_credentials :: "token_set option"

definition default_redirect_uri :: string where
  "default_redirect_uri = ''http://localhost:5000/api/auth/google/callback''"

text \<open>
  Lines 7--18: the redirect URI defaults when the variable is unset or empty; the
  credentials are the refresh token when one is configured.
\<close>

definition calendar_oauth_client :: "env \<Rightarrow> oauth_client" where
  "calendar_oauth_client e =
     \<lparr>oc_client_id = env_client_id e, oc_client_secret = env_client_secret e,
      oc_redirect_uri = (if truthy (env_redirect_uri e) then the (env_redirect_uri e) else default_redirect_uri),
      oc_credentials =
        (if truthy (env_refresh_token e)
         then Some \<lparr>tk_access = None, tk_refresh = env_refresh_token e, tk_expiry = None\<rparr> else None)\<rparr>"

definition calendar_scopes :: "string list" where
  "calendar_scopes = [''https://www.googleapis.com/auth/calendar.events'', ''https://www.googleapis.com/auth/calendar'']"

text \<open>
  \<open>getAuthUrl\<close> (lines 78--89): the options passed to \<open>generateAuthUrl\<close>, completed
  as the library completes them (response type, client id, redirect URI; the scopes joined
  by spaces) into the query of the authorization URL.
\<close>

definition auth_request :: "oauth_client \<Rightarrow> (string \<times> string) list" where
  "auth_request c =
     [(''access_type'', ''offline''), (''scope'', join_with '' '' calendar_scopes), (''prompt'', ''consent''),
      (''response_type'', ''code''), (''client_id'', js_text (oc_client_id c)),
      (''redirect_uri'', oc_redirect_uri c)]"

text \<open>Google's answer to a code: the tokens, or the error that \<open>getToken\<close> throws.\<close>

datatype token_reply = Token_reply token_set | Token_error string

text \<open>\<open>getTokensFromCode\<close> (lines 94--98): the client keeps the tokens; an error propagates.\<close>

definition get_tokens_from_code ::
  "(string \<Rightarrow> token_reply) \<Rightarrow> oauth_client \<Rightarrow> string \<Rightarrow> (string + oauth_client \<times> token_set)" where
  "get_tokens_from_code exchange c code =
     (case exchange code of
        Token_reply t \<Rightarrow> Inr (c\<lparr>oc_credentials := Some t\<rparr>, t)
      | Token_error m \<Rightarrow> Inl m)"

text \<open>
  \<open>calendar.events.insert\<close> through the client: without credentials the library throws
  before any request, otherwise the outcome is the API's.
\<close>

definition calendar_insert :: "oauth_client \<Rightarrow> provisioning \<Rightarrow> provisioning" where
  "calendar_insert c api = (if oc_credentials c = None then Prov_failed else api)"

section \<open>The Calendar API answer\<close>

record calendar_response =
  cr_id :: string
  cr_hangout_link :: "string option"
  cr_entry_uri :: "string option"
  cr_html_link :: string

record meet_result =
  mr_event_id :: string
  mr_meet_link :: "string option"
  mr_html_link :: string

text \<open>
  The value both \<open>createCalendarEventWithMeet\<close> (lines 64--68) and
  \<open>createMeetWithServiceAccount\<close> (147--151) return for the inserted event.
\<close>

definition meet_result_of :: "calendar_response \<Rightarrow> meet_result" where
  "meet_result_of r =
     \<lparr>mr_event_id = cr_id r, mr_meet_link = meet_link_of (cr_hangout_link r) (cr_entry_uri r),
      mr_html_link = cr_html_link r\<rparr>"

text \<open>
  \<open>createCalendarEventWithMeet\<close> (lines 56--72): the insert's answer, or the error
  rethrown with the prefix \<open>Failed to create Google Meet: \<close>.
\<close>

definition create_calendar_event_with_meet :: "calendar_response option \<Rightarrow> string \<Rightarrow> string + meet_result" where
  "create_calendar_event_with_meet ans err =
     (case ans of Some r \<Rightarrow> Inr (meet_result_of r) | None \<Rightarrow> Inl (''Failed to create Google Meet: '' @ err))"

text \<open>\<open>createMeetWithServiceAccount\<close> (lines 140--156): the same answer; the error is rethrown as is.\<close>

definition create_meet_with_service_account :: "calendar_response option \<Rightarrow> string \<Rightarrow> string + meet_result" where
  "create_meet_with_service_account ans err = (case ans of Some r \<Rightarrow> Inr (meet_result_of r) | None \<Rightarrow> Inl err)"

section \<open>The refresh-token script\<close>

text \<open>
  \<open>getGoogleToken.js\<close>: a client with the fixed redirect URI (lines 18--22) and the same
  authorization request (25--35), printed for the operator.
\<close>

definition script_client :: "env \<Rightarrow> oauth_client" where
  "script_client e =
     \<lparr>oc_client_id = env_client_id e, oc_client_secret = env_client_secret e,
      oc_redirect_uri = default_redirect_uri, oc_credentials = None\<rparr>"

text \<open>\<open>url.searchParams.get(k)\<close>: the value of the first pair named \<open>k\<close>.\<close>

definition search_param :: "string \<Rightarrow> string \<Rightarrow> string option" where
  "search_param k q = map_option snd (find (\<lambda>(k', v). k' = k) (parse_params q))"

text \<open>
  What the script reports for a pasted redirect URL (lines 50--96): a URL that
  \<open>new URL\<close> rejects ends in the catch with its message; a missing or empty \<open>code\<close>
  ends before any exchange; otherwise the code is exchanged and the refresh and access tokens
  are printed (\<open>undefined\<close> when Google sends none), or the exchange's error. The URL parser
  is a parameter answering the query of a valid URL.
\<close>

datatype script_result =
    Script_error string
  | No_code
  | Printed_tokens string string

definition token_script ::
  "(string \<Rightarrow> string option) \<Rightarrow> (string \<Rightarrow> token_reply) \<Rightarrow> string \<Rightarrow> script_result" where
  "token_script parse_url exchange redirect =
     (case parse_url redirect of
        None \<Rightarrow> Script_error ''Invalid URL''
      | Some q \<Rightarrow>
          (case search_param ''code'' q of
             None \<Rightarrow> No_code
           | Some c \<Rightarrow>
               if c = [] then No_code
               else (case exchange c of
                       Token_reply t \<Rightarrow> Printed_tokens (js_text (tk_refresh t)) (js_text (tk_access t))
                     | Token_error m \<Rightarrow> Script_error m)))"

section \<open>Lemmas\<close>

lemma find_key_map_of: "map_option snd (find (\<lambda>(k', v). k' = k) ps) = map_of ps k"
  by (induction ps) (auto split: prod.splits)

lemma search_param_url_search_params: "search_param k (url_search_params ps) = map_of ps k"
  by (simp add: search_param_def parse_url_search_params find_key_map_of)

text \<open>
  The script exchanges exactly the code of the redirect URL: when the URL's query is the
  serialization of parameters whose first \<open>code\<close> is non-empty, that code is sent to
  Google and its tokens are printed; without a code nothing is exchanged.
\<close>

lemma token_script_exchanges_code:
  assumes "parse_url r = Some (url_search_params ps)" and "map_of ps ''code'' = Some c" and "c \<noteq> []"
  shows "token_script parse_url exchange r =
     (case exchange c of
        Token_reply t \<Rightarrow> Printed_tokens (js_text (tk_refresh t)) (js_text (tk_access t))
      | Token_error m \<Rightarrow> Script_error m)"
  using assms by (simp add: token_script_def search_param_url_search_params)

lemma token_script_no_code:
  assumes "parse_url r = Some (url_search_params ps)" and "map_of ps ''code'' = None \<or> map_of ps ''code'' = Some []"
  shows "token_script parse_url exchange r = No_code"
  using assms by (auto simp: token_script_def search_param_url_search_params)

lemma unconfigured_client_fails:
  "\<not> truthy (env_refresh_token e) \<Longrightarrow> calendar_insert (calendar_oauth_client e) api = Prov_failed"
  by (simp add: calendar_insert_def calendar_oauth_client_def)

lemma tokens_enable_insert:
  "get_tokens_from_code exchange c code = Inr (c', t) \<Longrightarrow> calendar_insert c' api = api"
  by (auto simp: get_tokens_from_code_def calendar_insert_def split: token_reply.splits)

lemma redirect_default:
  "\<not> truthy (env_redirect_uri e) \<Longrightarrow> oc_redirect_uri (calendar_oauth_client e) = oc_redirect_uri (script_client e)"
  by (simp add: calendar_oauth_client_def script_client_def)

text \<open>
  Two bookings served in the same millisecond send the Calendar API the same conference
  \<open>requestId\<close> (\<open>meet-${Date.now()}\<close>, line 43), which the API uses to recognise a
  repeated request; the service-account variant separates them by its random suffix.
\<close>

lemma request_id_same_ms:
  "ce_request_id (calendar_event now ed1) = ce_request_id (calendar_event now ed2) \<and>
   (r1 \<noteq> r2 \<longrightarrow> ce_request_id (service_account_event now r1 ed1) \<noteq> ce_request_id (service_account_event now r2 ed2))"
  by (simp add: calendar_event_def service_account_event_def)

text \<open>
  Claim C26. Without \<open>GOOGLE_REFRESH_TOKEN\<close> (unset or empty) the Calendar client has no
  credentials, so whatever the Calendar API would answer, booking an available slot still
  succeeds and the slot is stored and answered with the random fallback link
  \<open>https://meet.google.com/xxx-xxxx-xxx\<close> instead of a Meet room.
\<close>

theorem unconfigured_booking_fallback:
  assumes e: "\<not> truthy (env_refresh_token e)" and ids: "distinct (map slot_id (slots st))"
    and x: "x \<in> set (slots st)" "slot_id x = k" "status x = Available"
  shows "\<exists>st' y. book_slot st me k nts rnd (calendar_insert (calendar_oauth_client e) api) =
      Inr (st', y, Some (generate_fallback_meet_link rnd)) \<and>
    y \<in> set (slots st') \<and> slot_id y = k \<and> status y = Booked \<and> scholar_id y = Some me \<and>
    meeting_link y = Some (generate_fallback_meet_link rnd)"
proof -
  have l: "create_real_google_meet rnd (calendar_insert (calendar_oauth_client e) api) =
      Some (generate_fallback_meet_link rnd)"
    using unconfigured_client_fails [OF e] by (simp add: create_real_google_meet_def)
  let ?y = "book_update me nts (Some (generate_fallback_meet_link rnd)) x"
  have "book_update me nts (Some (generate_fallback_meet_link rnd)) x \<in>
      set (slots (book_write st me k nts (Some (generate_fallback_meet_link rnd))))"
    using book_fetch_write [OF ids x(1,2)] by blast
  then have "?y \<in> set (update_where (\<lambda>y. slot_id y = k)
      (book_update me nts (Some (generate_fallback_meet_link rnd))) (slots st))"
    by (simp add: book_write_def)
  with book_slot_eq [OF ids x, of me nts rnd "calendar_insert (calendar_oauth_client e) api"] l x(2)
  show ?thesis by (simp add: book_update_def)
qed

theorem unconfigured_booking_fallback_witness:
  "\<exists>st' y. book_slot (empty_db\<lparr>slots := [new_slot 0 7 20148 32400 36000], next_id := 1\<rparr>) 9 0 None (\<lambda>i. i)
      (calendar_insert (calendar_oauth_client \<lparr>env_client_id = Some ''cid'', env_client_secret = Some ''sec'',
         env_redirect_uri = None, env_refresh_token = Some []\<rparr>) (Prov_created (Some ''https://meet.google.com/a'') None)) =
      Inr (st', y, Some (generate_fallback_meet_link (\<lambda>i. i))) \<and>
    y \<in> set (slots st') \<and> slot_id y = 0 \<and> status y = Booked \<and> scholar_id y = Some 9 \<and>
    meeting_link y = Some (generate_fallback_meet_link (\<lambda>i. i))"
  by (rule unconfigured_booking_fallback [where x = "new_slot 0 7 20148 32400 36000"])
     (simp_all add: truthy_def new_slot_def)

end
