(* ===== verification/Spec2Isabelle.thy ===== *)
theory Spec2Isabelle
  imports System Page_Requests Session Google_OAuth
begin

text \<open>
  \<^bold>\<open>Assignment Scheduler: a verification development.\<close>

  The program is a scheduling service: faculty publish time slots, scholars book them and
  receive a Google Meet link, admins assign roles. The backend is one Express router file,
  \<open>src/backend/src/routes/users.js\<close> (users, auth and slots routers concatenated), over a
  Supabase (PostgreSQL) database whose tables and triggers are \<open>src/database/schema.sql\<close>
  and \<open>src/database/migrations/add_user_roles_table.sql\<close>; meeting links come from
  \<open>src/backend/src/config/googleCalendar.js\<close>. A role lives in two places, the
  \<open>user_roles\<close> table keyed by e-mail and the \<open>role\<close> column of \<open>users\<close>, kept equal
  by two triggers.

  \<^bold>\<open>Theories.\<close>
  \<^item> \<open>Prelude\<close>: identifiers, HTTP errors and the result type \<open>'a response\<close>
    (\<open>Inl\<close> the error), the query primitives \<open>single\<close> (PostgREST \<open>.single()\<close>) and
    \<open>update_where\<close> (\<open>.update().eq()\<close>), and list lemmas shared by all components.
  \<^item> \<open>Schema\<close>: the tables as records (\<open>user_row\<close>, \<open>role_row\<close>, \<open>slot\<close>, the database
    \<open>db\<close> with one id counter), the CHECK enumerations as datatypes, keyed lookups, the key
    invariant \<open>keys_ok\<close>.
  \<^item> \<open>Slots\<close>: \<open>POST /slots\<close> (\<open>create_slot\<close>, with the time conversions \<open>time_only\<close>,
    \<open>date_only\<close> and the overlap filter \<open>overlaps\<close>), \<open>DELETE /slots/:slotId\<close>
    (\<open>delete_slot\<close>), the listings \<open>available_slots\<close>, \<open>my_bookings\<close>, \<open>my_slots\<close>; the
    slot-table invariant \<open>slots_ok\<close>.
  \<^item> \<open>Booking\<close>: \<open>POST /slots/:slotId/book\<close> as \<open>book_check\<close> (the read filtered by id and
    status), \<open>create_real_google_meet\<close> (the Calendar outcome as a \<open>provisioning\<close> value, the
    random fallback link \<open>generate_fallback_meet_link\<close> with its draws as a function
    \<open>rnd\<close>), and \<open>book_commit\<close> (the write filtered by id only, then the re-fetch).
  \<^item> \<open>Concurrency\<close>: the read and the write of a booking as separate events
    (\<open>step_event\<close>), schedules as event lists, serial schedules.
  \<^item> \<open>Role_Sync\<close>: \<open>set_user_role\<close> (the SQL upsert) and the trigger cascade
    \<open>user_roles_write\<close>/\<open>users_role_write\<close>/\<open>cascade_each\<close>, a mutual recursion with
    explicit fuel: each trigger firing uses one level, running out is PostgreSQL's stack-depth
    error. \<open>trigger_fuel = 4\<close> suffices: an upsert fires \<open>sync_user_role\<close>, whose update
    fires \<open>sync_role_to_user_roles\<close> once per changed user, whose upsert writes the same role
    and fires \<open>sync_user_role\<close> again, which changes nothing; fuel 3 fails on that path.
  \<^item> \<open>Gate\<close>: the token (\<open>issue_token\<close>), \<open>requireRole\<close> (\<open>require_role\<close>, \<open>guarded\<close>),
    and the frontend guard \<open>PrivateRoute\<close> (\<open>private_route\<close>).
  \<^item> \<open>Auth\<close>: \<open>POST /auth/google\<close> (\<open>google_login\<close>), Google's verification as an input.
  \<^item> \<open>Admin\<close>: \<open>PATCH /users/:userId/role\<close> (\<open>update_user_role\<close>),
    \<open>POST /users/roles/email\<close> (\<open>set_role_by_email\<close>), the listings \<open>GET /users\<close>,
    \<open>GET /users/roles\<close>, \<open>GET /users/faculties\<close>.
  \<^item> \<open>Session\<close>: \<open>GET /auth/me\<close> (\<open>auth_me\<close>), the JWT library as the parameters
    \<open>sign\<close> and \<open>verify\<close>.
  \<^item> \<open>System\<close>: the mutating routes as one step \<open>handle\<close> over a \<open>request\<close> datatype, each
    behind the gate its route declaration names (\<open>users.js\<close> lines 28, 81, 181, 337--339,
    506, 617); \<open>reachable\<close> states from the empty database; \<open>run_requests\<close>.
  \<^item> \<open>Url_Encoding\<close>: the runtime's \<open>URLSearchParams\<close> serializer (UTF-8 bytes,
    \<open>+\<close> for space, \<open>%XY\<close>) and the URL standard's parser, a library model.
  \<^item> \<open>Calendar\<close>: the invitation of a booking (\<open>meet_event_details\<close>,
    \<open>createRealGoogleMeet\<close>; \<open>calendar_event\<close>, \<open>createCalendarEventWithMeet\<close>) and the
    calendar deep link (\<open>generate_calendar_link\<close>, \<open>generateCalendarLink\<close>), with the
    runtime's \<open>toISOString\<close> as \<open>iso_string\<close> over the civil calendar
    (\<open>civil_from_days\<close>).
  \<^item> \<open>Frontend\<close>: \<open>App.jsx\<close> routing (\<open>app_view\<close>, composing \<open>private_route\<close>), the
    dashboard cards (\<open>src/unnamed/part_001\<close>), the requests each page sends
    (\<open>page_calls\<close>) against the backend gates (\<open>route_gate\<close>), \<open>groupSlotsByDate\<close>, the
    faculty's slot form (\<open>submit_slot_form\<close>) and the slot panels.
  \<^item> \<open>Pages\<close>: the pages \<open>AvailableSlots.jsx\<close>, \<open>ScholarBookings.jsx\<close>, FacultySlots
    (\<open>src/unnamed/part_001\<close>) and \<open>Login.jsx\<close> as React components: the \<open>useState\<close>
    hooks as a record (\<open>avail_state\<close>, \<open>bookings_state\<close>, \<open>faculty_state\<close>), the mount,
    inputs, clicks and request answers as an event datatype, the handlers as a step function
    answering the new state and the effects (requests, toasts, the sign-in call), the render
    as a view function; \<open>run_page\<close> runs an event sequence. \<open>scholar_book\<close> and
    \<open>faculty_submit\<close> compose a page with the backend handler it calls.
  \<^item> \<open>Page_Requests\<close>: the available-slots page with its pending listing requests and a
    database changed by other clients, as the inductive set \<open>listing_run\<close>; answers
    delivered in order keep the listing consistent with the filters unless the last one
    failed (\<open>fifo_listing_inv\<close>, by rule induction), answers out of order do not
    (\<open>unordered_listing_mismatch\<close>).
  \<^item> \<open>Google_OAuth\<close>: the Calendar OAuth client of \<open>googleCalendar.js\<close> built from
    the environment (\<open>calendar_oauth_client\<close>), \<open>getAuthUrl\<close> (\<open>auth_request\<close>),
    \<open>getTokensFromCode\<close>, the answers of \<open>createCalendarEventWithMeet\<close> and
    \<open>createMeetWithServiceAccount\<close>, and the operator script \<open>getGoogleToken.js\<close>
    (\<open>token_script\<close>), which exchanges exactly the \<open>code\<close> of the pasted URL; without a
    refresh token every booking falls back to the random link (\<open>unconfigured_booking_fallback\<close>).
  \<^item> This theory: the properties that span components (the specification's scenario
    through \<open>handle\<close>, the calendar link of a booking answer, and the role round trip
    through sign-in).

  \<^bold>\<open>What is proved.\<close> The claims C1--C39 are stated each after a text naming it. Slot
  creation keeps the slot table disjoint (C1), the overlap filter is interval intersection
  (C8), deletion refuses booked and foreign slots (C9, C10) but deletes any other owned slot,
  completed ones included (C11), a slot across local midnight is stored with its end before its
  start and blocks nothing (C12); the available listing holds exactly the slots a booking
  request would accept (C19). Booking an available slot books exactly that row with the
  scholar, the request's notes and the provisioned link (C2), once (C3, C5), also when the
  Calendar API answers no link (C15) and, without a refresh token, with the fallback link
  (C26); served serially, requests for one slot book it at most once (C25), but two
  interleaved requests both succeed (C4, a lost update). Role changes keep the two stores
  equal (C16, C24), self-changes are refused (C6), the trigger cascade terminates with fuel 4
  (C17); every reachable state satisfies the system invariant \<open>sys_ok\<close> (C20, by rule
  induction over \<open>reachable\<close>); the role gates are those of the spec and refuse before
  any write (C22); the specification's scenario runs as specified from any consistent
  database (C21). The calendar link of a booking answer decodes to the booking's data (C27,
  via the serializer/parser round trip); a slot typed into the faculty form is stored and
  invited at the typed times for any server offset (C28); \<open>formatDate\<close> is ISO basic
  format (C29); the invitation reads times in server local time (C30) and the notes of the row
  read before the booking, not the scholar's (C31). The frontend never links to a page it then
  refuses (C32) and never sends a request the backend gate refuses (C33); its grouping by date
  equals a reference (C34) and shows the listing exactly once (C35); its delete button
  appears only where deletion succeeds (C36) and a booking's link reaches the scholar's page
  (C37). The token of a sign-in opens the session (C38) and \<open>GET /auth/me\<close> refuses
  missing and rejected tokens (C39). The available-slots page stays consistent with its
  filters when its listing requests are answered in order, unless the last answer failed
  (C18, rule induction over \<open>listing_run\<close>). In \<open>Pages\<close>, over every event sequence
  each page sends only requests its user's role passes; the form round trip stores the slot
  and clears the form, or keeps it and shows the backend's message; a booking from the page
  stops offering the slot; the available-slots listing shows whichever answer arrives last
  (\<open>avail_stale_answer\<close>), not the answer to the current filters; and the form's
  earliest date is the UTC day, not the user's (\<open>form_min_utc_day\<close>). Findings are
  stated as theorems: C4, C11, C12, C15, C30, C31. Database failures (the 500 answers of
  the handlers' \<open>catch\<close> blocks) are not modelled as inputs: every query of the model
  succeeds, so the statements hold for runs in which the database answers.

  \<^bold>\<open>Conventions.\<close> Timestamps are milliseconds (\<open>int\<close>), times of day seconds, days
  counted from the epoch; the server's offset from UTC is the parameter \<open>tz\<close> (ms). Row ids
  come from one counter \<open>next_id\<close> (the database's UUIDs only need to be fresh).
  Random draws, \<open>Date.now()\<close> and the Calendar API outcome are inputs. A JavaScript
  string is a list of code units below 256 (Isabelle's \<open>char\<close>); daylight-saving changes
  of the server's zone are not modelled (the offset is constant). A handler's error leaves the state
  unchanged unless a write precedes it in the code.

  \<^bold>\<open>Not modelled.\<close> The HTTP layer (Express routing and JSON bodies; the dispatch
  \<open>handle\<close> is written from the route declarations), the JWT signature and expiry and the
  middleware file \<open>backend/src/middleware/auth.js\<close> (absent from the repository; modelled from
  the specification), Google's ID-token verification, the client constructions
  (\<open>src/unnamed/part_000\<close>, \<open>database.js\<close>: library calls on environment variables),
  the console banners of \<open>getGoogleToken.js\<close>, the validity test of \<open>new URL\<close> (a
  parameter), the audit columns \<open>created_at\<close>, \<open>updated_at\<close>,
  \<open>last_login\<close> (never read by a handler), the row-level-security policies (bypassed by
  the service-role client); in the frontend the markup, CSS classes and display formatting
  (date-fns), the clipboard buttons, and the admin panel, layout and auth context, which are
  not in the repository (the auth context's \<open>loginWithGoogle\<close> is the effect
  \<open>Sign_in\<close>).
\<close>

section \<open>A fixture\<close>

text \<open>Three users: faculty F (id 1) and scholars S (id 2) and S2 (id 3), no slots (the users of the scenario's witness).\<close>

definition scen_db :: db where
  "scen_db = \<lparr>users = [\<lparr>user_id = 1, email = ''f@x.org'', name = ''F'', picture = None, google_id = ''gf'', role = Faculty\<rparr>,
                       \<lparr>user_id = 2, email = ''s@x.org'', name = ''S'', picture = None, google_id = ''gs'', role = Scholar\<rparr>,
                       \<lparr>user_id = 3, email = ''t@x.org'', name = ''S2'', picture = None, google_id = ''gt'', role = Scholar\<rparr>],
               user_roles = [\<lparr>ur_email = ''f@x.org'', ur_role = Faculty\<rparr>, \<lparr>ur_email = ''s@x.org'', ur_role = Scholar\<rparr>,
                             \<lparr>ur_email = ''t@x.org'', ur_role = Scholar\<rparr>],
               slots = [], next_id = 4\<rparr>"

section \<open>Properties across components\<close>

lemma admitted_faculty: "au_role u \<noteq> Scholar \<Longrightarrow> au_role u \<in> set [Faculty, Admin]"
  by (cases "au_role u") simp_all

text \<open>
  Claim C21. The scenario of the specification (section 8) runs as specified from any
  consistent database: a faculty (or admin) F creates a slot (201) and then one starting
  inside it on the same day (409); a scholar S books the new slot (200); a second scholar's
  booking of it is refused (404); F's deletion of the booked slot is refused (403). The slot
  is then stored booked by S with F's date and times, and no longer listed as available.
\<close>

theorem spec_scenario:
  assumes k: "keys_ok st" and f: "au_role f \<noteq> Scholar"
    and s1: "au_role s1 = Scholar" and s2: "au_role s2 = Scholar"
    and ab: "a < b" and free: "overlapping_slots st (au_id f) (date_only d) (time_only tz a) (time_only tz b) = []"
    and a2b2: "a2 < b2" and inside: "time_only tz a \<le> time_only tz a2" "time_only tz a2 < time_only tz b"
  shows "\<exists>st'. run_requests tz st
      [Create_slot f (Some a) (Some b) (Some d), Create_slot f (Some a2) (Some b2) (Some d),
       Book s1 (next_id st) n1 rnd1 p1, Book s2 (next_id st) n2 rnd2 p2, Delete_slot f (next_id st)] =
     (st', [201, 409, 200, 404, 403]) \<and>
     (\<exists>y. y \<in> set (slots st') \<and> slot_id y = next_id st \<and> faculty_id y = au_id f \<and> scholar_id y = Some (au_id s1) \<and>
        status y = Booked \<and> date y = date_only d \<and> start_time y = time_only tz a \<and> end_time y = time_only tz b) \<and>
     next_id st \<notin> slot_id ` set (available_slots st' today None None)"
proof -
  let ?k = "next_id st"
  define x where "x = new_slot ?k (au_id f) (date_only d) (time_only tz a) (time_only tz b)"
  define st1 where "st1 = st\<lparr>slots := slots st @ [x], next_id := Suc ?k\<rparr>"
  define l where "l = create_real_google_meet rnd1 p1"
  define y where "y = book_update (au_id s1) n1 l x"
  define st2 where "st2 = st1\<lparr>slots := update_where (\<lambda>z. slot_id z = ?k) (book_update (au_id s1) n1 l) (slots st1)\<rparr>"
  have c1: "create_slot tz st (au_id f) (Some a) (Some b) (Some d) = Inr (st1, x)"
    using ab free by (simp add: create_slot_Inr x_def st1_def)
  have h1: "handle tz st (Create_slot f (Some a) (Some b) (Some d)) = (st1, 201)"
    using c1 admitted_faculty [OF f] by (simp add: guarded_eq answer_def)
  have "overlapping_slots st1 (au_id f) (date_only d) (time_only tz a2) (time_only tz b2) \<noteq> []"
    using inside by (simp add: overlapping_slots_def overlaps_def st1_def x_def new_slot_def)
  then have h2: "handle tz st1 (Create_slot f (Some a2) (Some b2) (Some d)) = (st1, 409)"
    using a2b2 admitted_faculty [OF f] by (simp add: guarded_eq answer_def create_slot_def Let_def)
  have kc: "keys_ok st1" and sl1: "slots st1 = slots st @ [x]" and xa: "status x = Available"
    using create_slot_keys [OF k c1] by simp_all
  have d1: "distinct (map slot_id (slots st1))" using kc by (simp add: keys_ok_def)
  have x1: "x \<in> set (slots st1)" by (simp add: sl1)
  have xk: "slot_id x = ?k" by (simp add: x_def new_slot_def)
  have b1: "book_slot st1 (au_id s1) ?k n1 rnd1 p1 = Inr (st2, y, l)"
    using book_slot_eq [OF d1 x1 xk xa] by (simp add: st2_def y_def l_def)
  have h3: "handle tz st1 (Book s1 ?k n1 rnd1 p1) = (st2, 200)"
    using b1 s1 by (simp add: guarded_eq answer_def)
  have w: "st2 = book_write st1 (au_id s1) ?k n1 l" by (simp add: st2_def book_write_def)
  have none: "book_check st2 ?k = None" unfolding w by (rule book_write_check_None)
  have h4: "handle tz st2 (Book s2 ?k n2 rnd2 p2) = (st2, 404)"
    using none s2 by (simp add: guarded_eq answer_def book_slot_def)
  have fw: "distinct (map slot_id (slots st2)) \<and> y \<in> set (slots st2)"
    using book_fetch_write [OF d1 x1 xk, of "au_id s1" n1 l] by (simp add: w y_def)
  have yk: "slot_id y = ?k" and yf: "faculty_id y = au_id f" and yb: "status y = Booked"
    by (simp_all add: y_def xk) (simp add: book_update_def x_def new_slot_def)
  have "delete_slot st2 (au_id f) ?k = Inl (Err403 ''Cannot delete booked slot'')"
    using owned_slot_lookup [of st2 y ?k "au_id f"] fw yk yf yb by (simp add: delete_slot_def)
  then have h5: "handle tz st2 (Delete_slot f ?k) = (st2, 403)"
    using admitted_faculty [OF f] by (simp add: guarded_eq answer_def)
  have run: "run_requests tz st
      [Create_slot f (Some a) (Some b) (Some d), Create_slot f (Some a2) (Some b2) (Some d),
       Book s1 ?k n1 rnd1 p1, Book s2 ?k n2 rnd2 p2, Delete_slot f ?k] = (st2, [201, 409, 200, 404, 403])"
    by (simp only: run_requests.simps Let_def prod.case h1 h2 h3 h4 h5)
  have yfields: "scholar_id y = Some (au_id s1) \<and> date y = date_only d \<and> start_time y = time_only tz a \<and>
      end_time y = time_only tz b"
    by (simp add: y_def book_update_def x_def new_slot_def)
  have "\<forall>z\<in>set (slots st2). slot_id z = ?k \<longrightarrow> status z \<noteq> Available"
    unfolding st2_def by (simp add: booked_after_update)
  then have "?k \<notin> slot_id ` set (available_slots st2 today None None)"
    by (auto simp: set_available_slots)
  with run fw yk yf yb yfields show ?thesis by blast
qed

theorem spec_scenario_witness:
  "\<exists>st'. run_requests 0 scen_db
      [Create_slot \<lparr>au_id = 1, au_email = ''f@x.org'', au_role = Faculty\<rparr>
         (Some 1740819600000) (Some 1740823200000) (Some 1740787200000),
       Create_slot \<lparr>au_id = 1, au_email = ''f@x.org'', au_role = Faculty\<rparr>
         (Some 1740821400000) (Some 1740825000000) (Some 1740787200000),
       Book \<lparr>au_id = 2, au_email = ''s@x.org'', au_role = Scholar\<rparr> 4 None (\<lambda>i. i)
         (Prov_created (Some ''https://meet.google.com/abc-defg-hij'') None),
       Book \<lparr>au_id = 3, au_email = ''t@x.org'', au_role = Scholar\<rparr> 4 None (\<lambda>i. i) Prov_failed,
       Delete_slot \<lparr>au_id = 1, au_email = ''f@x.org'', au_role = Faculty\<rparr> 4] =
     (st', [201, 409, 200, 404, 403]) \<and>
     (\<exists>y. y \<in> set (slots st') \<and> slot_id y = 4 \<and> faculty_id y = 1 \<and> scholar_id y = Some 2 \<and>
        status y = Booked \<and> date y = 20148 \<and> start_time y = 32400 \<and> end_time y = 36000) \<and>
     4 \<notin> slot_id ` set (available_slots st' 20148 None None)"
proof -
  have n: "next_id scen_db = 4" by (simp add: scen_db_def)
  have "\<exists>st'. run_requests 0 scen_db
      [Create_slot \<lparr>au_id = 1, au_email = ''f@x.org'', au_role = Faculty\<rparr>
         (Some 1740819600000) (Some 1740823200000) (Some 1740787200000),
       Create_slot \<lparr>au_id = 1, au_email = ''f@x.org'', au_role = Faculty\<rparr>
         (Some 1740821400000) (Some 1740825000000) (Some 1740787200000),
       Book \<lparr>au_id = 2, au_email = ''s@x.org'', au_role = Scholar\<rparr> (next_id scen_db) None (\<lambda>i. i)
         (Prov_created (Some ''https://meet.google.com/abc-defg-hij'') None),
       Book \<lparr>au_id = 3, au_email = ''t@x.org'', au_role = Scholar\<rparr> (next_id scen_db) None (\<lambda>i. i) Prov_failed,
       Delete_slot \<lparr>au_id = 1, au_email = ''f@x.org'', au_role = Faculty\<rparr> (next_id scen_db)] =
     (st', [201, 409, 200, 404, 403]) \<and>
     (\<exists>y. y \<in> set (slots st') \<and> slot_id y = next_id scen_db \<and>
        faculty_id y = au_id \<lparr>au_id = 1, au_email = ''f@x.org'', au_role = Faculty\<rparr> \<and>
        scholar_id y = Some (au_id \<lparr>au_id = 2, au_email = ''s@x.org'', au_role = Scholar\<rparr>) \<and>
        status y = Booked \<and> date y = date_only 1740787200000 \<and> start_time y = time_only 0 1740819600000 \<and>
        end_time y = time_only 0 1740823200000) \<and>
     next_id scen_db \<notin> slot_id ` set (available_slots st' 20148 None None)"
    by (rule spec_scenario)
       (simp_all add: scen_db_def keys_ok_def overlapping_slots_def time_only_def)
  then show ?thesis by (simp add: n time_only_def date_only_def)
qed

text \<open>
  Claim C27. The calendar link the booking answer carries (\<open>POST /slots/:slotId/book\<close>
  builds it from the re-fetched row) is the render URL followed by a form-urlencoded query
  from which \<open>URLSearchParams\<close> reads the title with both names, the description with
  the notes the scholar sent and the meeting link of the answer (or the slot's own when no
  link was provisioned), the slot's interval in server local time, and both e-mails as guests.
\<close>

theorem booking_calendar_link:
  assumes ids: "distinct (map slot_id (slots st))" and chk: "book_check st k = Some x"
    and ans: "book_answer tz st me k nts rnd p fac sch = Inr (st', y, ml, cl)"
  shows "\<exists>q. cl = calendar_prefix @ q \<and> form_urlencoded q \<and>
     search_param ''text'' q = Some (''Assignment Demo - '' @ js_text (p_name sch) @ '' with '' @ js_text (p_name fac)) \<and>
     search_param ''details'' q = Some (''Meeting between '' @ js_text (p_name sch) @ '' and '' @ js_text (p_name fac) @
        nl @ nl @ ''Notes: '' @ notes_text (case nts of Some n \<Rightarrow> if n = [] then None else Some n | None \<Rightarrow> None) @
        nl @ nl @ ''Google Meet: '' @ js_nullable (case ml of Some l \<Rightarrow> Some l | None \<Rightarrow> meeting_link x)) \<and>
     search_param ''dates'' q = Some (format_date (local_instant tz x (start_time x)) @ ''/'' @
        format_date (local_instant tz x (end_time x))) \<and>
     search_param ''add'' q = Some (p_email sch @ '','' @ p_email fac)"
proof -
  have b: "book_slot st me k nts rnd p = Inr (st', y, ml)" and cl: "cl = generate_calendar_link tz y fac sch"
    using ans by (simp_all add: book_answer_Inr)
  obtain z where z: "z \<in> set (slots st)" "slot_id z = k" and y: "y = book_update me nts ml z"
    using book_slot_row [OF b] by blast
  have "x \<in> set (slots st)" "slot_id x = k" using book_check_SomeD [OF chk] by simp_all
  with ids z have "z = x" by (metis distinct_key_eq)
  with y have y': "y = book_update me nts ml x" by simp
  show ?thesis
    unfolding cl generate_calendar_link_def
    by (simp add: form_urlencoded_url_search_params search_param_url_search_params calendar_params_def
        y' book_update_def local_instant_def split: option.splits)
qed

theorem booking_calendar_link_witness:
  "\<exists>q. generate_calendar_link 0
       (book_update 9 (Some ''bring laptop'') (Some ''https://meet.google.com/abc-defg-hij'') (new_slot 0 7 20148 32400 36000))
       \<lparr>p_name = Some ''F'', p_email = ''f@x.org''\<rparr> \<lparr>p_name = Some ''S'', p_email = ''s@x.org''\<rparr> = calendar_prefix @ q \<and>
     form_urlencoded q \<and>
     search_param ''details'' q = Some (''Meeting between S and F'' @ nl @ nl @ ''Notes: bring laptop'' @ nl @ nl @
        ''Google Meet: https://meet.google.com/abc-defg-hij'')"
proof -
  let ?st = "empty_db\<lparr>slots := [new_slot 0 7 20148 32400 36000], next_id := 1\<rparr>"
  let ?p = "Prov_created (Some ''https://meet.google.com/abc-defg-hij'') None"
  let ?fac = "\<lparr>p_name = Some ''F'', p_email = ''f@x.org''\<rparr>"
  let ?sch = "\<lparr>p_name = Some ''S'', p_email = ''s@x.org''\<rparr>"
  have ids: "distinct (map slot_id (slots ?st))" by (simp add: new_slot_def)
  have chk: "book_check ?st 0 = Some (new_slot 0 7 20148 32400 36000)"
    by (simp add: book_check_def new_slot_def)
  have ml: "create_real_google_meet (\<lambda>i. i) ?p = Some ''https://meet.google.com/abc-defg-hij''"
    by (simp add: create_real_google_meet_def meet_link_of_def)
  have b: "book_answer 0 ?st 9 0 (Some ''bring laptop'') (\<lambda>i. i) ?p ?fac ?sch =
      Inr (?st\<lparr>slots := update_where (\<lambda>y. slot_id y = 0)
             (book_update 9 (Some ''bring laptop'') (Some ''https://meet.google.com/abc-defg-hij'')) (slots ?st)\<rparr>,
           book_update 9 (Some ''bring laptop'') (Some ''https://meet.google.com/abc-defg-hij'') (new_slot 0 7 20148 32400 36000),
           Some ''https://meet.google.com/abc-defg-hij'',
           generate_calendar_link 0
             (book_update 9 (Some ''bring laptop'') (Some ''https://meet.google.com/abc-defg-hij'') (new_slot 0 7 20148 32400 36000))
             ?fac ?sch)"
    using book_slot_eq [OF ids _ _ _, of "new_slot 0 7 20148 32400 36000" 0 9 "Some ''bring laptop''" "\<lambda>i. i" ?p] ml
    by (simp add: book_answer_Inr new_slot_def)
  from booking_calendar_link [OF ids chk b] show ?thesis
    by (simp add: new_slot_def js_text_def notes_text_def js_nullable_def) blast
qed

text \<open>
  Claim C7. A role assigned by e-mail before the first sign-in is the role of the account
  that sign-in creates: an admin's assignment of role \<open>r\<close> to a fresh e-mail answers
  that no user was updated, and the first Google sign-in with that e-mail then creates a
  user with role \<open>r\<close> (not the default scholar) and issues its token.
\<close>

theorem preassigned_role_login:
  assumes ok: "role_store_ok st" and ne: "e \<noteq> []" and notme: "e \<noteq> au_email a"
    and fresh: "\<forall>u\<in>set (users st). email u \<noteq> e \<and> google_id u \<noteq> g_sub p"
    and pe: "g_email p = e" and tok: "tok = Some t" and t: "t \<noteq> []"
  shows "\<exists>st1 st2 u. set_role_by_email st a (Some e) (Some (role_name r)) = Inr (st1, e, r, False) \<and>
    google_login st1 tok (Some p) = Inr (st2, u, issue_token u) \<and> role u = r \<and> email u = e"
proof -
  obtain st1 where s: "set_role_by_email st a (Some e) (Some (role_name r)) = Inr (st1, e, r, False)"
    and w: "set_user_role e r st = Inr st1"
    using set_role_by_email_fresh [OF ok ne notme] fresh by blast
  note o = set_user_role_ok [OF ok w]
  have lr: "login_role (g_email p) st1 = (r, st1)" using o pe by (simp add: login_role_def)
  have fresh1: "\<forall>u\<in>set (users st1). email u \<noteq> g_email p \<and> google_id u \<noteq> g_sub p"
  proof
    fix u assume u: "u \<in> set (users st1)"
    then have "email u \<in> set (map email (users st))" and "google_id u \<in> set (map google_id (users st))"
      using o by (metis list.set_map imageI)+
    with fresh pe show "email u \<noteq> g_email p \<and> google_id u \<noteq> g_sub p" by auto
  qed
  note run = google_login_fresh [OF o [THEN conjunct1] lr fresh1 tok t]
  from s run pe show ?thesis by auto
qed

theorem preassigned_role_login_witness:
  "\<exists>st1 st2 u. set_role_by_email empty_db \<lparr>au_id = 0, au_email = ''root@x.org'', au_role = Admin\<rparr>
       (Some ''new@x.com'') (Some (role_name Faculty)) = Inr (st1, ''new@x.com'', Faculty, False) \<and>
     google_login st1 (Some ''t'') (Some \<lparr>g_email = ''new@x.com'', g_name = ''N'', g_picture = None, g_sub = ''g9''\<rparr>) =
       Inr (st2, u, issue_token u) \<and> role u = Faculty \<and> email u = ''new@x.com''"
  by (rule preassigned_role_login [of empty_db, where t = "''t''"]) (simp_all add: role_store_ok_def roles_synced_def empty_db_def)

end
